theory Spec2Isabelle
  imports Complex_Main "HOL-Library.AList" "HOL-Library.Multiset"
begin

section \<open>Python values, errors and numbers\<close>

text \<open>
  The program is Python. Its \<^verbatim>\<open>float\<close> values are modelled as exact reals: every
  arithmetic step below is the mathematical one, with no binary rounding, no overflow, no
  infinities and no NaN, and \<^verbatim>\<open>round\<close> rounds the exact value. Strings are lists of bytes (UTF-8), which is enough for the concatenations, joins
  and suffix tests the program performs. A \<^verbatim>\<open>dict\<close> is an association list in
  insertion order, read with \<^const>\<open>map_of\<close> and written with \<^const>\<open>AList.update\<close>, which
  keeps the position of an existing key and appends a new one, as Python does.
\<close>

datatype error = ValueError string | KeyError string | TypeError string

text \<open>The values stored in the vocabulary dictionaries of the taxonomy.\<close>

datatype pyval =
    PStr string
  | PInt int
  | PFloat real
  | PList "string list"
  | PDict "(string \<times> pyval) list"

type_synonym pydict = "(string \<times> pyval) list"

definition em_dash :: string where "em_dash = [CHR 0xE2, CHR 0x80, CHR 0x94]"
definition degree_sign :: string where "degree_sign = [CHR 0xC2, CHR 0xB0]"
definition o_macron :: string where "o_macron = [CHR 0xC5, CHR 0x8D]"
definition a_acute :: string where "a_acute = [CHR 0xC3, CHR 0xA1]"
definition apostrophe :: string where "apostrophe = [CHR 0x27]"

text \<open>Sequencing of fallible steps: the first exception raised ends the computation.\<close>

fun bind_err :: "error + 'a \<Rightarrow> ('a \<Rightarrow> error + 'b) \<Rightarrow> error + 'b" where
  "bind_err (Inl e) f = Inl e"
| "bind_err (Inr x) f = f x"

text \<open>\<^verbatim>\<open>d[k]\<close>: a missing key raises \<^verbatim>\<open>KeyError\<close>.\<close>

definition dict_get :: "(string \<times> 'a) list \<Rightarrow> string \<Rightarrow> error + 'a" where
  "dict_get d k = (case map_of d k of None \<Rightarrow> Inl (KeyError k) | Some v \<Rightarrow> Inr v)"

text \<open>
  Python rounds halves to the even neighbour. \<^verbatim>\<open>round(x)\<close> gives an integer,
  \<^verbatim>\<open>round(x, n)\<close> a float with \<open>n\<close> decimals.
\<close>

definition round_half_even :: "real \<Rightarrow> int" where
  "round_half_even x =
     (let f = \<lfloor>x\<rfloor>; d = x - of_int f
      in if d < 1 / 2 then f else if 1 / 2 < d then f + 1 else if even f then f else f + 1)"

definition py_round :: "real \<Rightarrow> int" where
  "py_round x = round_half_even x"

definition py_round_nd :: "real \<Rightarrow> nat \<Rightarrow> real" where
  "py_round_nd x n = of_int (round_half_even (x * 10 ^ n)) / 10 ^ n"

text \<open>\<^verbatim>\<open>sep.join(xs)\<close> and the \<^verbatim>\<open>repr\<close> of a list of plain identifiers.\<close>

fun join :: "string \<Rightarrow> string list \<Rightarrow> string" where
  "join sep [] = []"
| "join sep [x] = x"
| "join sep (x # y # ys) = x @ sep @ join sep (y # ys)"

definition py_repr_list :: "string list \<Rightarrow> string" where
  "py_repr_list xs = ''['' @ join '', '' (map (\<lambda>s. apostrophe @ s @ apostrophe) xs) @ '']''"

section \<open>The taxonomy: dimensions and author catalog\<close>

record DimensionSpec =
  dim_id :: string
  dim_name :: string
  description :: string
  low_label :: string
  high_label :: string
  text_output_mapping :: "(string \<times> pydict) list"
  image_output_mapping :: "(string \<times> pydict) list"

record AuthorEntry =
  entry_id :: string
  display_name :: string
  language_origin :: string
  coordinates :: "(string \<times> real) list"
  signature_moves :: "string list"
  text_vocabulary :: pydict
  image_vocabulary :: pydict

definition dim_syntactic_density :: DimensionSpec where
  "dim_syntactic_density = \<lparr>
     dim_id = ''syntactic_density'',
     dim_name = ''Syntactic Density'',
     description =
       (''Structural load per sentence '' @ em_dash @ '' clause nesting depth, ratio of subordinate to main clauses.''),
     low_label = ''paratactic / flat'',
     high_label = ''hypotactic / deeply nested'',
     text_output_mapping =
       [(''low'',
         [(''sentence_length'', PStr ''short''),
          (''clause_depth'', PInt 1),
          (''conjunction_preference'', PList [''and'', ''then'', ''but'']),
          (''structure_directive'', PStr
               ''Simple declarative sentences. One main clause. Coordinating conjunctions only.'')]),
        (''mid'',
         [(''sentence_length'', PStr ''variable''),
          (''clause_depth'', PInt 2),
          (''conjunction_preference'', PList [''which'', ''although'', ''because'', ''while'']),
          (''structure_directive'', PStr
               ''Balanced sentence architecture. Mix simple and complex structures. Periodic sentences permitted.'')]),
        (''high'',
         [(''sentence_length'', PStr ''long''),
          (''clause_depth'', PInt 4),
          (''conjunction_preference'', PList [''wherein'', ''notwithstanding'', ''such that'', ''inasmuch as'']),
          (''structure_directive'', PStr
               ''Deeply nested subordination. Sentences carry multiple embedded qualifications. Delay main verb. Exhaustive clause stacking.'')])],
     image_output_mapping =
       [(''low'',
         [(''compositional_layers'', PInt 1),
          (''depth_planes'', PStr ''flat''),
          (''visual_directive'', PStr
               ''Minimal layering. Single visual plane. Clean negative space. Figure isolated against ground.'')]),
        (''mid'',
         [(''compositional_layers'', PInt 3),
          (''depth_planes'', PStr ''moderate''),
          (''visual_directive'', PStr
               ''Three distinct depth planes. Foreground, subject, background clearly articulated.'')]),
        (''high'',
         [(''compositional_layers'', PInt 5),
          (''depth_planes'', PStr ''deep''),
          (''visual_directive'', PStr
               ''Dense visual layering. Multiple overlapping planes. Nested frames-within-frames. Baroque spatial depth.'')])]
   \<rparr>"

definition dim_sensory_concreteness :: DimensionSpec where
  "dim_sensory_concreteness = \<lparr>
     dim_id = ''sensory_concreteness'',
     dim_name = ''Sensory Concreteness'',
     description =
       ''Ratio of concrete sensory nouns/verbs to abstract conceptual language.'',
     low_label = ''abstract / conceptual'',
     high_label = ''concrete / sensory'',
     text_output_mapping =
       [(''low'',
         [(''noun_register'', PStr ''abstract''),
          (''verb_type'', PStr ''conceptual''),
          (''vocabulary_directive'', PStr
               ''Latinate abstract vocabulary. Ideas, categories, logical relations. Nouns you cannot photograph.'')]),
        (''mid'',
         [(''noun_register'', PStr ''mixed''),
          (''verb_type'', PStr ''balanced''),
          (''vocabulary_directive'', PStr
               ''Ground abstractions in occasional concrete detail. Alternate between sensory and conceptual.'')]),
        (''high'',
         [(''noun_register'', PStr ''concrete''),
          (''verb_type'', PStr ''physical''),
          (''vocabulary_directive'', PStr
               ''Anglo-Saxon concrete vocabulary. Things with weight, temperature, texture. Actions visible to a camera. Nouns you can hold.'')])],
     image_output_mapping =
       [(''low'',
         [(''material_rendering'', PStr ''diagrammatic''),
          (''texture_specificity'', PStr ''minimal''),
          (''visual_directive'', PStr
               ''Geometric abstraction. Flat color fields. Schematic rather than photographic. Conceptual space.'')]),
        (''mid'',
         [(''material_rendering'', PStr ''suggested''),
          (''texture_specificity'', PStr ''moderate''),
          (''visual_directive'', PStr
               ''Recognizable materials with selective detail. Key textures rendered, others implied.'')]),
        (''high'',
         [(''material_rendering'', PStr ''photographic''),
          (''texture_specificity'', PStr ''explicit''),
          (''visual_directive'', PStr
               ''Explicit material rendering. Visible grain, weave, condensation, patina. Surfaces you can feel.'')])]
   \<rparr>"

definition dim_ornamental_register :: DimensionSpec where
  "dim_ornamental_register = \<lparr>
     dim_id = ''ornamental_register'',
     dim_name = ''Ornamental Register'',
     description =
       (''Decoration density '' @ em_dash @ '' adjective frequency, figurative language, lexical rarity. The prose surface treatment.''),
     low_label = ''stripped / anti-ornamental'',
     high_label = ''lush / baroque'',
     text_output_mapping =
       [(''low'',
         [(''adjective_density'', PStr ''minimal''),
          (''figurative_frequency'', PStr ''rare''),
          (''vocabulary_register'', PStr ''common''),
          (''surface_directive'', PStr
               ''No unnecessary adjectives. Plain nouns. Metaphor only when unavoidable. Common Anglo-Saxon vocabulary.'')]),
        (''mid'',
         [(''adjective_density'', PStr ''selective''),
          (''figurative_frequency'', PStr ''occasional''),
          (''vocabulary_register'', PStr ''educated''),
          (''surface_directive'', PStr
               ''Selective ornamentation. Well-placed figurative language. Elegant but not excessive.'')]),
        (''high'',
         [(''adjective_density'', PStr ''abundant''),
          (''figurative_frequency'', PStr ''dense''),
          (''vocabulary_register'', PStr ''rare/archaic''),
          (''surface_directive'', PStr
               ''Lush adjectival profusion. Dense figurative language. Rare and archaic vocabulary. Cataloging through ornamental excess.'')])],
     image_output_mapping =
       [(''low'',
         [(''surface_complexity'', PStr ''clean''),
          (''detail_density'', PStr ''minimal''),
          (''visual_directive'', PStr
               ''Clean surfaces. Minimal texture. Modernist reduction. Negative space as design element.'')]),
        (''mid'',
         [(''surface_complexity'', PStr ''detailed''),
          (''detail_density'', PStr ''moderate''),
          (''visual_directive'', PStr
               ''Selective surface detail. Key areas rendered with precision, others simplified.'')]),
        (''high'',
         [(''surface_complexity'', PStr ''ornate''),
          (''detail_density'', PStr ''maximal''),
          (''visual_directive'', PStr
               (''Highly detailed ornamental surfaces. Pattern-on-pattern. Filigree, brocade, botanical density. Horror vacui '' @ em_dash @ '' every surface activated.''))])]
   \<rparr>"

definition dim_tension_visibility :: DimensionSpec where
  "dim_tension_visibility = \<lparr>
     dim_id = ''tension_visibility'',
     dim_name = ''Tension Visibility'',
     description =
       ''Whether tension lives on the surface or remains submerged.'',
     low_label = ''submerged / iceberg'',
     high_label = ''externalized / explicit'',
     text_output_mapping =
       [(''low'',
         [(''show_tell_ratio'', PStr ''show''),
          (''emotional_vocabulary'', PStr ''absent''),
          (''tension_directive'', PStr
               ''Never name the emotion. Render behavior and objects. Reader infers tension from what is not said.'')]),
        (''mid'',
         [(''show_tell_ratio'', PStr ''balanced''),
          (''emotional_vocabulary'', PStr ''restrained''),
          (''tension_directive'', PStr
               ''Acknowledge tension through measured observation. Clinical precision about emotional states.'')]),
        (''high'',
         [(''show_tell_ratio'', PStr ''tell''),
          (''emotional_vocabulary'', PStr ''explicit''),
          (''tension_directive'', PStr
               (''Name the tension directly. Escalating emotional vocabulary. Narrator'' @ apostrophe @ ''s distress is the content.''))])],
     image_output_mapping =
       [(''low'',
         [(''lighting_drama'', PStr ''even''),
          (''contrast_ratio'', PStr ''low''),
          (''visual_directive'', PStr
               (''Even, ambient lighting. Tension encoded in compositional unease '' @ em_dash @ '' off-center framing, ambiguous gaze vectors, objects slightly wrong.''))]),
        (''mid'',
         [(''lighting_drama'', PStr ''directional''),
          (''contrast_ratio'', PStr ''moderate''),
          (''visual_directive'', PStr
               ''Directional lighting creating defined shadows. Moderate tonal contrast. Tension visible but controlled.'')]),
        (''high'',
         [(''lighting_drama'', PStr ''chiaroscuro''),
          (''contrast_ratio'', PStr ''extreme''),
          (''visual_directive'', PStr
               ''Dramatic chiaroscuro. Deep shadows, hard light. Diagonal composition lines. Explicit visual conflict and confrontation.'')])]
   \<rparr>"

definition dim_tension_temporality :: DimensionSpec where
  "dim_tension_temporality = \<lparr>
     dim_id = ''tension_temporality'',
     dim_name = ''Tension Temporality'',
     description =
       ''Whether tension accumulates slowly over time or arrives as rupture.'',
     low_label = ''ruptural / episodic'',
     high_label = ''accumulative / inevitable'',
     text_output_mapping =
       [(''low'',
         [(''pacing'', PStr ''episodic''),
          (''foreshadowing'', PStr ''none''),
          (''tempo_directive'', PStr
               ''Self-contained moments. Each passage complete in itself. Tension arrives without warning.'')]),
        (''mid'',
         [(''pacing'', PStr ''building''),
          (''foreshadowing'', PStr ''subtle''),
          (''tempo_directive'', PStr
               ''Gradual escalation through observation. Evidence accumulates. Paragraphs lengthen.'')]),
        (''high'',
         [(''pacing'', PStr ''inevitable''),
          (''foreshadowing'', PStr ''heavy''),
          (''tempo_directive'', PStr
               ''Fate announced early, then approached with terrible patience. Each sentence worse than the last. Progressive revelation of the already-known.'')])],
     image_output_mapping =
       [(''low'',
         [(''temporal_framing'', PStr ''frozen_instant''),
          (''sequence_implication'', PStr ''none''),
          (''visual_directive'', PStr
               ''Frozen moment. No implied before or after. Complete in the frame. Snapshot temporality.'')]),
        (''mid'',
         [(''temporal_framing'', PStr ''implied_sequence''),
          (''sequence_implication'', PStr ''moderate''),
          (''visual_directive'', PStr
               (''Implied motion. Traces of what came before '' @ em_dash @ '' footprints, smoke, residue. Subject mid-action.''))]),
        (''high'',
         [(''temporal_framing'', PStr ''durational''),
          (''sequence_implication'', PStr ''heavy''),
          (''visual_directive'', PStr
               ''Temporal compositing. Multiple moments layered in single frame. Long exposure blur. Generational accumulation visible in environmental detail.'')])]
   \<rparr>"

definition dim_reality_stability :: DimensionSpec where
  "dim_reality_stability = \<lparr>
     dim_id = ''reality_stability'',
     dim_name = ''Reality Stability'',
     description =
       (''How trustworthy is the depicted world '' @ em_dash @ '' how much impossibility the text'' @ apostrophe @ ''s internal logic permits.''),
     low_label = ''unstable / paradoxical'',
     high_label = ''stable / verifiable'',
     text_output_mapping =
       [(''low'',
         [(''epistemic_mode'', PStr ''unreliable''),
          (''modality'', PStr ''impossible''),
          (''reality_directive'', PStr
               ''State impossible things as fact. No hedging. Paradox presented in declarative mode. Logic that folds back on itself.'')]),
        (''mid'',
         [(''epistemic_mode'', PStr ''liminal''),
          (''modality'', PStr ''conditional''),
          (''reality_directive'', PStr
               ''Reality bends under observation. Familiar things behave strangely. One impossible element in an otherwise stable frame.'')]),
        (''high'',
         [(''epistemic_mode'', PStr ''reliable''),
          (''modality'', PStr ''declarative''),
          (''reality_directive'', PStr
               ''Journalistic reliability. Verifiable details. Physical accuracy. Hedging language for uncertainty.'')])],
     image_output_mapping =
       [(''low'',
         [(''spatial_logic'', PStr ''impossible''),
          (''physics_accuracy'', PStr ''violated''),
          (''visual_directive'', PStr
               ''Impossible geometry. Escher-like spatial paradox. Recursive visual structures. Dream logic composition. Perspective that contradicts itself.'')]),
        (''mid'',
         [(''spatial_logic'', PStr ''liminal''),
          (''physics_accuracy'', PStr ''mostly_correct''),
          (''visual_directive'', PStr
               ''Physically plausible with one wrong element. Uncanny valley of space. Light from impossible source. Scale inconsistency.'')]),
        (''high'',
         [(''spatial_logic'', PStr ''correct''),
          (''physics_accuracy'', PStr ''accurate''),
          (''visual_directive'', PStr
               ''Physically accurate rendering. Correct perspective, lighting, material behavior. Photographic spatial logic.'')])]
   \<rparr>"

definition dim_interiority :: DimensionSpec where
  "dim_interiority = \<lparr>
     dim_id = ''interiority'',
     dim_name = ''Interiority'',
     description =
       (''Degree of access to inner experience '' @ em_dash @ '' psychological depth and subjective consciousness rendered in the text.''),
     low_label = ''exterior / behavioral'',
     high_label = ''interior / consciousness'',
     text_output_mapping =
       [(''low'',
         [(''pov_mode'', PStr ''external''),
          (''thought_access'', PStr ''none''),
          (''interiority_directive'', PStr
               ''Camera-eye. Behavior only. No access to thought. Dialogue and action. Reader infers psychology from surface.'')]),
        (''mid'',
         [(''pov_mode'', PStr ''limited''),
          (''thought_access'', PStr ''filtered''),
          (''interiority_directive'', PStr
               ''Selective interiority. Observations filtered through a distinctive consciousness but not direct stream of thought.'')]),
        (''high'',
         [(''pov_mode'', PStr ''deep''),
          (''thought_access'', PStr ''immersive''),
          (''interiority_directive'', PStr
               ''Language as thought happening. Consciousness rendered in real-time. The sentence IS the inner experience.'')])],
     image_output_mapping =
       [(''low'',
         [(''framing_distance'', PStr ''wide''),
          (''dof'', PStr ''deep''),
          (''gaze_directive'', PStr
               ''Wide environmental framing. Figure-in-landscape. Deep depth of field. Subject as element of composition, not psychological center.'')]),
        (''mid'',
         [(''framing_distance'', PStr ''medium''),
          (''dof'', PStr ''moderate''),
          (''gaze_directive'', PStr
               (''Medium shot. Subject'' @ apostrophe @ ''s face visible. Environmental context retained. Gaze vector at 15-30'' @ degree_sign @ '' from camera axis.''))]),
        (''high'',
         [(''framing_distance'', PStr ''close''),
          (''dof'', PStr ''shallow''),
          (''gaze_directive'', PStr
               ''Tight framing. Eyes prominent. Shallow depth of field isolating subject. Direct or near-direct gaze vector to viewer. Background dissolved into bokeh.'')])]
   \<rparr>"

definition dim_temporal_mode :: DimensionSpec where
  "dim_temporal_mode = \<lparr>
     dim_id = ''temporal_mode'',
     dim_name = ''Temporal Mode'',
     description =
       (''The text'' @ apostrophe @ ''s relationship to time '' @ em_dash @ '' from episodic eternal present to cyclical/exhaustive temporal structures.''),
     low_label = ''eternal present / episodic'',
     high_label = ''cyclical / exhaustive'',
     text_output_mapping =
       [(''low'',
         [(''tense'', PStr ''present''),
          (''temporal_scope'', PStr ''moment''),
          (''time_directive'', PStr
               ''Each passage exists in its own present. No before or after implied. Self-contained observation. Time as a series of discrete nows.'')]),
        (''mid'',
         [(''tense'', PStr ''variable''),
          (''temporal_scope'', PStr ''span''),
          (''time_directive'', PStr
               ''Awareness of duration. Past informing present. Flashback and prolepsis available but controlled. Deep time acknowledged.'')]),
        (''high'',
         [(''tense'', PStr ''omniscient_temporal''),
          (''temporal_scope'', PStr ''generations''),
          (''time_directive'', PStr
               ''All moments present simultaneously. Cyclical return. Generations rhyming. Every permutation explored. Time as exhaustive catalog.'')])],
     image_output_mapping =
       [(''low'',
         [(''motion_state'', PStr ''frozen''),
          (''temporal_texture'', PStr ''instantaneous''),
          (''visual_directive'', PStr
               ''Crisp frozen instant. No motion blur. No implied sequence. Photograph temporality.'')]),
        (''mid'',
         [(''motion_state'', PStr ''implied''),
          (''temporal_texture'', PStr ''durational''),
          (''visual_directive'', PStr
               ''Implied duration. Weathering, aging, patina suggesting passage of time. Environmental storytelling through wear.'')]),
        (''high'',
         [(''motion_state'', PStr ''composite''),
          (''temporal_texture'', PStr ''layered''),
          (''visual_directive'', PStr
               ''Multiple temporal layers in single frame. Ghosting, palimpsest, archaeological stratification. Long exposure. Decay and growth co-present.'')])]
   \<rparr>"

definition DIMENSIONS :: "(string \<times> DimensionSpec) list" where
  "DIMENSIONS =
    [(''syntactic_density'', dim_syntactic_density),
     (''sensory_concreteness'', dim_sensory_concreteness),
     (''ornamental_register'', dim_ornamental_register),
     (''tension_visibility'', dim_tension_visibility),
     (''tension_temporality'', dim_tension_temporality),
     (''reality_stability'', dim_reality_stability),
     (''interiority'', dim_interiority),
     (''temporal_mode'', dim_temporal_mode)]"

definition entry_hemingway :: AuthorEntry where
  "entry_hemingway = \<lparr>
     entry_id = ''hemingway'',
     display_name = ''Hemingway-esque'',
     language_origin = ''English (American)'',
     coordinates =
       [(''syntactic_density'', 0.10),
        (''sensory_concreteness'', 0.90),
        (''ornamental_register'', 0.05),
        (''tension_visibility'', 0.10),
        (''tension_temporality'', 0.25),
        (''reality_stability'', 0.90),
        (''interiority'', 0.15),
        (''temporal_mode'', 0.20)],
     signature_moves =
       [(''Iceberg theory '' @ em_dash @ '' emotional weight carried by omission''),
        (''Paratactic '' @ apostrophe @ ''and'' @ apostrophe @ '' conjunction chains''),
        (''Dialogue carrying subtext the narrator won'' @ apostrophe @ ''t state''),
        ''Concrete nouns, active verbs, minimal adjectives'',
        ''Short paragraphs as rhythmic percussion''],
     text_vocabulary =
       [(''conjunctions'', PList [''and'', ''but'', ''then'']),
        (''sentence_starters'', PList [''He'', ''She'', ''It was'', ''There was'', ''The'']),
        (''forbidden'', PList 
           [''very'',
            ''really'',
            ''beautiful'',
            ''magnificent'',
            ''incredible'',
            ''amazing'']),
        (''register'', PStr ''Anglo-Saxon monosyllabic preference''),
        (''paragraph_rhythm'', PStr ''short-short-short-medium-short'')],
     image_vocabulary =
       [(''keywords'', PList 
           [''stark composition'',
            ''high negative-space ratio'',
            ''single subject isolation'',
            ''hard directional light'',
            ''minimal props'',
            ''environmental realism'',
            ''unflinching gaze'',
            ''dust and daylight'']),
        (''color_palette'', PList 
           [''ochre'',
            ''bone white'',
            ''dried blood'',
            ''sun-bleached'',
            ''khaki'',
            ''deep shadow'']),
        (''compositional_rules'', PList 
           [''Subject-to-negative-space ratio minimum 1:3'',
            (''Single dominant light source at 45'' @ degree_sign @ '' elevation''),
            ''No decorative elements in frame'',
            ''Horizon line in lower third''])]
   \<rparr>"

definition entry_de_sade :: AuthorEntry where
  "entry_de_sade = \<lparr>
     entry_id = ''de_sade'',
     display_name = ''Marquis de Sade-esque'',
     language_origin = ''French'',
     coordinates =
       [(''syntactic_density'', 0.95),
        (''sensory_concreteness'', 0.50),
        (''ornamental_register'', 0.90),
        (''tension_visibility'', 0.95),
        (''tension_temporality'', 0.80),
        (''reality_stability'', 0.60),
        (''interiority'', 0.20),
        (''temporal_mode'', 0.90)],
     signature_moves =
       [(''Exhaustive enumeration '' @ em_dash @ '' every permutation cataloged''),
        ''Philosophical monologue embedded in extreme scenario'',
        ''Bodies as philosophical instruments, not psychological subjects'',
        ''Nested subordination mirroring power hierarchies'',
        ''Transgressive content delivered in aristocratic register''],
     text_vocabulary =
       [(''conjunctions'', PList 
           [''moreover'',
            ''furthermore'',
            ''notwithstanding'',
            ''whereupon'',
            ''inasmuch as'']),
        (''sentence_starters'', PList 
           [''It is necessary that'',
            ''One must observe'',
            ''Let us now consider'',
            ''The principle demands'']),
        (''forbidden'', PList [''nice'', ''pleasant'', ''comfortable'', ''gentle'']),
        (''register'', PStr
             (''Aristocratic philosophical '' @ em_dash @ '' Latinate, formal'')),
        (''paragraph_rhythm'', PStr ''long-longer-longest-philosophical_aside-resume'')],
     image_vocabulary =
       [(''keywords'', PList 
           [''baroque layering'',
            ''chiaroscuro extremes'',
            ''diagonal tension lines'',
            ''dense ornamental surfaces'',
            ''power geometry'',
            ''theatrical staging'',
            ''overwhelming visual density'',
            ''cataloging composition'']),
        (''color_palette'', PList 
           [''crimson'',
            ''gold leaf'',
            ''deep velvet'',
            ''marble white'',
            ''candle flame'',
            ''shadow black'']),
        (''compositional_rules'', PList 
           [''Multiple overlapping visual planes minimum 5 deep'',
            (''Diagonal dominant lines at 30-60'' @ degree_sign @ '' creating instability''),
            ''Every surface carries texture or pattern'',
            ''Lighting from multiple contradictory sources''])]
   \<rparr>"

definition entry_le_guin :: AuthorEntry where
  "entry_le_guin = \<lparr>
     entry_id = ''le_guin'',
     display_name = ''Ursula K. Le Guin-esque'',
     language_origin = ''English (American)'',
     coordinates =
       [(''syntactic_density'', 0.50),
        (''sensory_concreteness'', 0.55),
        (''ornamental_register'', 0.45),
        (''tension_visibility'', 0.50),
        (''tension_temporality'', 0.60),
        (''reality_stability'', 0.40),
        (''interiority'', 0.50),
        (''temporal_mode'', 0.55)],
     signature_moves =
       [''Worldbuilding through implication rather than exposition'',
        (''Balanced cadence '' @ em_dash @ '' neither sparse nor baroque''),
        ''Anthropological precision about invented cultures'',
        ''Quiet radical premises delivered matter-of-factly'',
        ''Warm but unsentimental narrative voice''],
     text_vocabulary =
       [(''conjunctions'', PList [''and'', ''though'', ''because'', ''as if'', ''while'']),
        (''sentence_starters'', PList [''The'', ''In the'', ''There was a'', ''She had'', ''It was not'']),
        (''forbidden'', PList [''awesome'', ''literally'', ''basically'', ''epic'']),
        (''register'', PStr
             (''Educated but accessible '' @ em_dash @ '' precise without ostentation'')),
        (''paragraph_rhythm'', PStr ''medium-medium-long-short-medium'')],
     image_vocabulary =
       [(''keywords'', PList 
           [''balanced composition'',
            ''warm natural light'',
            ''inhabited landscape'',
            ''architectural worldbuilding'',
            ''cultural detail in environment'',
            ''dignified framing'',
            ''grounded fantasy'',
            ''lived-in spaces'']),
        (''color_palette'', PList 
           [''earth tones'',
            ''deep forest green'',
            ''stone grey'',
            ''warm amber'',
            ''twilight blue'',
            ''weathered wood'']),
        (''compositional_rules'', PList 
           [''Rule of thirds with subject at intersection point'',
            (''Environmental context always visible '' @ em_dash @ '' subject in world''),
            ''Warm color temperature 4500-5500K'',
            (''Balanced depth of field '' @ em_dash @ '' subject sharp, context readable'')])]
   \<rparr>"

definition entry_didion :: AuthorEntry where
  "entry_didion = \<lparr>
     entry_id = ''didion'',
     display_name = ''Joan Didion-esque'',
     language_origin = ''English (American)'',
     coordinates =
       [(''syntactic_density'', 0.45),
        (''sensory_concreteness'', 0.70),
        (''ornamental_register'', 0.15),
        (''tension_visibility'', 0.30),
        (''tension_temporality'', 0.40),
        (''reality_stability'', 0.95),
        (''interiority'', 0.60),
        (''temporal_mode'', 0.40)],
     signature_moves =
       [''Clinical sentence structure masking emotional intensity'',
        ''Specific sensory detail as existential evidence'',
        (''Retrospective present tense '' @ em_dash @ '' reporting from aftermath''),
        ''Lists of concrete facts that accumulate into mood'',
        ''The personal made universal through precision''],
     text_vocabulary =
       [(''conjunctions'', PList [''and'', ''but'', ''which'', ''although'']),
        (''sentence_starters'', PList [''I'', ''We'', ''The'', ''It was'', ''In the'', ''That was the'']),
        (''forbidden'', PList [''incredible'', ''unbelievable'', ''indescribable'', ''breathtaking'']),
        (''register'', PStr
             (''Journalistic precision '' @ em_dash @ '' cool, specific, exact'')),
        (''paragraph_rhythm'', PStr ''medium-short-long(periodic)-short-fragment'')],
     image_vocabulary =
       [(''keywords'', PList 
           [''forensic observation'',
            ''clinical framing'',
            ''specific light conditions'',
            ''geographical precision'',
            ''quiet devastation'',
            ''California light'',
            ''motel aesthetic'',
            ''highway geometry'']),
        (''color_palette'', PList 
           [''bleached white'',
            ''smog amber'',
            ''pool blue'',
            ''asphalt grey'',
            ''jacaranda purple'',
            ''desert tan'']),
        (''compositional_rules'', PList 
           [''Slightly off-center framing suggesting unease'',
            (''Harsh midday light '' @ em_dash @ '' no romantic golden hour''),
            ''Specific environmental details legible in frame'',
            ''Flat perspective suggesting journalistic distance''])]
   \<rparr>"

definition entry_lovecraft :: AuthorEntry where
  "entry_lovecraft = \<lparr>
     entry_id = ''lovecraft'',
     display_name = ''Lovecraft-esque'',
     language_origin = ''English (American)'',
     coordinates =
       [(''syntactic_density'', 0.85),
        (''sensory_concreteness'', 0.40),
        (''ornamental_register'', 0.85),
        (''tension_visibility'', 0.80),
        (''tension_temporality'', 0.85),
        (''reality_stability'', 0.15),
        (''interiority'', 0.70),
        (''temporal_mode'', 0.75)],
     signature_moves =
       [''Accumulative horror through clause stacking'',
        (''The unspeakable '' @ em_dash @ '' gesture toward sensory detail, then retreat''),
        ''Archaic register lending authority to impossible claims'',
        ''Geological/cosmic time dwarfing human experience'',
        (''Narrator'' @ apostrophe @ ''s reliability degrading as text progresses'')],
     text_vocabulary =
       [(''conjunctions'', PList 
           [''and yet'',
            ''for'',
            ''though'',
            ''whilst'',
            ''such that'',
            ''in consequence of which'']),
        (''sentence_starters'', PList 
           [''It was then that'',
            ''I cannot describe'',
            ''Of the'',
            ''There are things'',
            ''What I saw'']),
        (''forbidden'', PList [''cute'', ''nice'', ''fun'', ''awesome'', ''cool'']),
        (''register'', PStr
             (''Archaic academic '' @ em_dash @ '' deliberately overwrought'')),
        (''paragraph_rhythm'', PStr ''medium-long-longer-longest-short(gasp)'')],
     image_vocabulary =
       [(''keywords'', PList 
           [''non-Euclidean geometry'',
            ''cyclopean architecture'',
            ''deep shadow with luminous edges'',
            ''tentacular forms'',
            ''impossible scale'',
            ''submarine depth'',
            ''eldritch luminescence'',
            ''geological antiquity'']),
        (''color_palette'', PList 
           [''deep ocean green'',
            ''phosphorescent'',
            ''basalt black'',
            ''sickly yellow-green'',
            ''void purple'',
            ''corpse grey'']),
        (''compositional_rules'', PList 
           [(''Subject dwarfed by environment '' @ em_dash @ '' human scale minimized''),
            ''Light source origin impossible or contradictory'',
            ''Perspective lines converging at impossible vanishing point'',
            (''Geometry that almost resolves but doesn'' @ apostrophe @ ''t'')])]
   \<rparr>"

definition entry_borges :: AuthorEntry where
  "entry_borges = \<lparr>
     entry_id = ''borges'',
     display_name = ''Borges-esque'',
     language_origin = ''Spanish (Argentine)'',
     coordinates =
       [(''syntactic_density'', 0.80),
        (''sensory_concreteness'', 0.15),
        (''ornamental_register'', 0.60),
        (''tension_visibility'', 0.55),
        (''tension_temporality'', 0.70),
        (''reality_stability'', 0.10),
        (''interiority'', 0.80),
        (''temporal_mode'', 0.70)],
     signature_moves =
       [(''Labyrinthine logic '' @ em_dash @ '' the trap closes through reasoning''),
        ''Infinite libraries, mirrors, recursive structures'',
        ''Philosophical density compressed into miniature forms'',
        ''Scholarly apparatus (footnotes, citations) for fictional subjects'',
        ''Time as simultaneous rather than sequential''],
     text_vocabulary =
       [(''conjunctions'', PList 
           [''perhaps'',
            ''or rather'',
            ''that is to say'',
            ''in other words'',
            ''which is to say'']),
        (''sentence_starters'', PList 
           [''It is said that'',
            ''The curious reader'',
            ''According to'',
            ''One might conjecture'',
            ''The universe'']),
        (''forbidden'', PList [''simple'', ''straightforward'', ''obvious'', ''clearly'']),
        (''register'', PStr
             (''Erudite philosophical '' @ em_dash @ '' precise, recursive, scholarly'')),
        (''paragraph_rhythm'', PStr
             ''long-medium-long(recursive)-parenthetical-short(sting)'')],
     image_vocabulary =
       [(''keywords'', PList 
           [''infinite regression'',
            ''mirror recursion'',
            ''impossible library'',
            ''labyrinthine geometry'',
            ''Escher-like spatial paradox'',
            ''miniature containing cosmos'',
            ''scholarly manuscript'',
            ''hexagonal architecture'']),
        (''color_palette'', PList 
           [''parchment'',
            ''library mahogany'',
            ''ink blue'',
            ''mirror silver'',
            ''candlelight amber'',
            ''mathematical white'']),
        (''compositional_rules'', PList 
           [(''Recursive visual structures '' @ em_dash @ '' frame contains smaller version of itself''),
            (''Impossible spatial logic '' @ em_dash @ '' Penrose stairs, Klein bottle topology''),
            ''Text/manuscripts visible as compositional elements'',
            ''Symmetrical composition suggesting infinite extension''])]
   \<rparr>"

definition entry_murakami :: AuthorEntry where
  "entry_murakami = \<lparr>
     entry_id = ''murakami'',
     display_name = ''Murakami-esque'',
     language_origin = ''Japanese'',
     coordinates =
       [(''syntactic_density'', 0.25),
        (''sensory_concreteness'', 0.80),
        (''ornamental_register'', 0.20),
        (''tension_visibility'', 0.20),
        (''tension_temporality'', 0.20),
        (''reality_stability'', 0.20),
        (''interiority'', 0.55),
        (''temporal_mode'', 0.25)],
     signature_moves =
       [''Flat affect juxtaposed with surreal intrusion'',
        ''Mundane sensory detail anchoring the uncanny'',
        ''Pop culture references as emotional shorthand'',
        ''Loneliness rendered through domestic routine'',
        ''Cats, jazz, cooking as consciousness markers''],
     text_vocabulary =
       [(''conjunctions'', PList [''and'', ''but'', ''so'', ''then'']),
        (''sentence_starters'', PList [''I'', ''She'', ''The'', ''It was a'', ''For some reason'']),
        (''forbidden'', PList [''magnificent'', ''extraordinary'', ''awe-inspiring'', ''spectacular'']),
        (''register'', PStr
             (''Conversational flat '' @ em_dash @ '' deliberately understated'')),
        (''paragraph_rhythm'', PStr ''medium-short-short-medium-short(offhand_surreal)'')],
     image_vocabulary =
       [(''keywords'', PList 
           [''liminal space'',
            ''quiet domestic interior'',
            ''single impossible element'',
            ''empty urban night'',
            ''jazz club lighting'',
            ''cat on kitchen counter'',
            ''mundane surrealism'',
            ''rain on window'']),
        (''color_palette'', PList 
           [''warm interior amber'',
            ''cold blue exterior'',
            ''vinyl black'',
            ''kitchen white'',
            ''neon reflection'',
            ''twilight grey'']),
        (''compositional_rules'', PList 
           [(''Domestic interior framing '' @ em_dash @ '' through doorways, across tables''),
            (''One element that doesn'' @ apostrophe @ ''t belong in an otherwise normal scene''),
            ''Warm artificial light contrasting cold exterior visible through window'',
            (''Subject alone in frame '' @ em_dash @ '' isolation geometry'')])]
   \<rparr>"

definition entry_marquez :: AuthorEntry where
  "entry_marquez = \<lparr>
     entry_id = ''marquez'',
     display_name = (''M'' @ a_acute @ ''rquez-esque''),
     language_origin = ''Spanish (Colombian)'',
     coordinates =
       [(''syntactic_density'', 0.75),
        (''sensory_concreteness'', 0.75),
        (''ornamental_register'', 0.80),
        (''tension_visibility'', 0.70),
        (''tension_temporality'', 0.95),
        (''reality_stability'', 0.30),
        (''interiority'', 0.40),
        (''temporal_mode'', 0.85)],
     signature_moves =
       [(''Magical realism '' @ em_dash @ '' impossible content in matter-of-fact declarative''),
        (''Multigenerational time '' @ em_dash @ '' fate announced, then approached patiently''),
        ''Tropical profusion of sensory detail'',
        ''Names and lineages as structural architecture'',
        (''Death foretold '' @ em_dash @ '' opening sentence contains the ending'')],
     text_vocabulary =
       [(''conjunctions'', PList [''and'', ''who'', ''which'', ''where'', ''until'', ''as though'']),
        (''sentence_starters'', PList [''Many years later'', ''It was'', ''The day'', ''Colonel'', ''No one'']),
        (''forbidden'', PList [''basically'', ''literally'', ''actually'', ''arguably'']),
        (''register'', PStr
             (''Declarative lush '' @ em_dash @ '' matter-of-fact about the impossible'')),
        (''paragraph_rhythm'', PStr ''long-long-very_long-short(fate)-long'')],
     image_vocabulary =
       [(''keywords'', PList 
           [''tropical botanical density'',
            ''butterflies as portent'',
            ''golden afternoon light'',
            ''crumbling colonial architecture'',
            ''magical realism composite'',
            ''generational portrait'',
            ''rain of flowers'',
            ''solitude geometry'']),
        (''color_palette'', PList 
           [''tropical green'',
            ''marigold yellow'',
            ''terracotta'',
            ''butterfly blue'',
            ''aged sepia'',
            ''blood orange'']),
        (''compositional_rules'', PList 
           [(''Dense botanical framing '' @ em_dash @ '' foliage filling edges''),
            ''Multiple generations suggested in single frame'',
            ''One physically impossible element rendered photorealistically'',
            ''Warm saturated color temperature 3500-4500K''])]
   \<rparr>"

definition entry_kafka :: AuthorEntry where
  "entry_kafka = \<lparr>
     entry_id = ''kafka'',
     display_name = ''Kafka-esque'',
     language_origin = ''German (Czech)'',
     coordinates =
       [(''syntactic_density'', 0.65),
        (''sensory_concreteness'', 0.35),
        (''ornamental_register'', 0.10),
        (''tension_visibility'', 0.35),
        (''tension_temporality'', 0.30),
        (''reality_stability'', 0.25),
        (''interiority'', 0.35),
        (''temporal_mode'', 0.30)],
     signature_moves =
       [''Impossible premise accepted, bureaucratic logic thereafter'',
        ''Plain surface describing impossible situations'',
        (''Arrested time '' @ em_dash @ '' events happen but nothing progresses''),
        ''Authority that can never be reached or understood'',
        ''The body as site of inexplicable transformation''],
     text_vocabulary =
       [(''conjunctions'', PList [''however'', ''nevertheless'', ''in spite of'', ''which'', ''although'']),
        (''sentence_starters'', PList [''He'', ''It was'', ''The'', ''Someone'', ''There was no'']),
        (''forbidden'', PList [''magical'', ''wonderful'', ''extraordinary'', ''miraculous'']),
        (''register'', PStr
             (''Bureaucratic plain '' @ em_dash @ '' institutional clarity about the absurd'')),
        (''paragraph_rhythm'', PStr ''medium-medium-medium-medium(relentless_same)-medium'')],
     image_vocabulary =
       [(''keywords'', PList 
           [''institutional corridor'',
            ''impossible bureaucracy'',
            ''clean lines with subtle wrongness'',
            ''door that leads nowhere'',
            ''fluorescent institutional light'',
            ''scale distortion'',
            ''empty waiting room'',
            ''metamorphic body'']),
        (''color_palette'', PList 
           [''institutional beige'',
            ''corridor green'',
            ''fluorescent white'',
            ''document manila'',
            ''ink stamp blue'',
            ''grey suit'']),
        (''compositional_rules'', PList 
           [''Symmetrical institutional framing with one element disrupted'',
            ''Vanishing-point corridors implying infinite recession'',
            (''Flat even lighting '' @ em_dash @ '' no drama, no escape into shadow''),
            ''Human figure scaled slightly wrong relative to architecture''])]
   \<rparr>"

definition entry_shonagon :: AuthorEntry where
  "entry_shonagon = \<lparr>
     entry_id = ''shonagon'',
     display_name = (''Sei Sh'' @ o_macron @ ''nagon-esque''),
     language_origin = ''Japanese (Classical)'',
     coordinates =
       [(''syntactic_density'', 0.15),
        (''sensory_concreteness'', 0.95),
        (''ornamental_register'', 0.40),
        (''tension_visibility'', 0.25),
        (''tension_temporality'', 0.15),
        (''reality_stability'', 0.85),
        (''interiority'', 0.65),
        (''temporal_mode'', 0.10)],
     signature_moves =
       [''List-based observation as primary literary form'',
        (''Aesthetic judgment as the content '' @ em_dash @ '' '' @ apostrophe @ ''things that are...'' @ apostrophe),
        ''Radical sensory specificity about transient moments'',
        (''Categorical thinking '' @ em_dash @ '' grouping experiences by quality''),
        ''Brevity with maximum sensory payload per word''],
     text_vocabulary =
       [(''conjunctions'', PList [''and'', em_dash, '';'']),
        (''sentence_starters'', PList [''Things that'', ''In spring'', ''It is'', ''A'', ''The'', ''One'']),
        (''forbidden'', PList 
           [''basically'',
            ''essentially'',
            ''in conclusion'',
            ''furthermore'',
            ''moreover'']),
        (''register'', PStr
             (''Elegant brevity '' @ em_dash @ '' each word carries maximum sensory weight'')),
        (''paragraph_rhythm'', PStr ''fragment-fragment-short-fragment-observation'')],
     image_vocabulary =
       [(''keywords'', PList 
           [''seasonal specificity'',
            ''single perfect object'',
            ''morning light on silk'',
            ''rain on veranda'',
            ''ink brush precision'',
            ''negative space as reverence'',
            ''insect on flower'',
            ''paper screen diffused light'']),
        (''color_palette'', PList 
           [''cherry blossom pink'',
            ''ink black'',
            ''rice paper white'',
            ''moss green'',
            ''persimmon orange'',
            ''dawn grey'']),
        (''compositional_rules'', PList 
           [(''Single subject dominating frame '' @ em_dash @ '' no competing elements''),
            ''Extreme negative space ratio minimum 1:5 subject to ground'',
            (''Natural light only '' @ em_dash @ '' seasonal quality explicit''),
            ''Shallow depth isolating one perfect detail''])]
   \<rparr>"

definition entry_lispector :: AuthorEntry where
  "entry_lispector = \<lparr>
     entry_id = ''lispector'',
     display_name = ''Clarice Lispector-esque'',
     language_origin = ''Brazilian Portuguese'',
     coordinates =
       [(''syntactic_density'', 0.55),
        (''sensory_concreteness'', 0.60),
        (''ornamental_register'', 0.55),
        (''tension_visibility'', 0.65),
        (''tension_temporality'', 0.50),
        (''reality_stability'', 0.50),
        (''interiority'', 0.95),
        (''temporal_mode'', 0.45)],
     signature_moves =
       [''Language turning to examine itself mid-sentence'',
        (''Interior stream '' @ em_dash @ '' consciousness as the event''),
        ''The body as epistemological instrument'',
        ''Recursive self-interruption and self-correction'',
        (''Philosophical viscerality '' @ em_dash @ '' abstract ideas with physical weight'')],
     text_vocabulary =
       [(''conjunctions'', PList [''but'', ''and yet'', ''or rather'', em_dash, ''that is'', ''no'']),
        (''sentence_starters'', PList [''She'', ''It was'', ''What she'', ''The'', ''But'', (''No'' @ em_dash)]),
        (''forbidden'', PList [''simply'', ''obviously'', ''naturally'', ''of course'']),
        (''register'', PStr
             (''Philosophical intimate '' @ em_dash @ '' thought caught in the act of thinking'')),
        (''paragraph_rhythm'', PStr
             ''medium-long(spiraling)-short(correction)-medium-fragment'')],
     image_vocabulary =
       [(''keywords'', PList 
           [''extreme close-up'',
            ''organic texture as landscape'',
            ''introspective gaze vector'',
            ''skin as terrain'',
            ''interior light'',
            ''mirror self-regard'',
            ''domestic object elevated to icon'',
            ''visceral abstraction'']),
        (''color_palette'', PList 
           [''skin tones'',
            ''interior shadow'',
            ''egg white'',
            ''blood warmth'',
            ''kitchen tile'',
            ''afternoon gold'']),
        (''compositional_rules'', PList 
           [(''Extreme close framing '' @ em_dash @ '' face fills frame edge to edge''),
            ''Shallow depth of field f/1.4-f/2.0 equivalent'',
            ''Gaze vector direct to viewer or at own reflection'',
            ''Organic textures rendered at macro scale''])]
   \<rparr>"

definition AUTHOR_CATALOG :: "(string \<times> AuthorEntry) list" where
  "AUTHOR_CATALOG =
    [(''hemingway'', entry_hemingway),
     (''de_sade'', entry_de_sade),
     (''le_guin'', entry_le_guin),
     (''didion'', entry_didion),
     (''lovecraft'', entry_lovecraft),
     (''borges'', entry_borges),
     (''murakami'', entry_murakami),
     (''marquez'', entry_marquez),
     (''kafka'', entry_kafka),
     (''shonagon'', entry_shonagon),
     (''lispector'', entry_lispector)]"

definition PARAMETER_NAMES :: "string list" where
  "PARAMETER_NAMES =
    [''syntactic_density'',
     ''sensory_concreteness'',
     ''ornamental_register'',
     ''tension_visibility'',
     ''tension_temporality'',
     ''reality_stability'',
     ''interiority'',
     ''temporal_mode'']"

text \<open>\<^verbatim>\<open>get_coordinates\<close>: the raw coordinates of an author, or the unknown-author error
  that lists the valid identifiers.\<close>

definition unknown_author :: "string \<Rightarrow> error" where
  "unknown_author author_id =
     ValueError (''Unknown author '' @ apostrophe @ author_id @ apostrophe @ ''. Available: ''
                 @ py_repr_list (map fst AUTHOR_CATALOG))"

definition get_coordinates :: "string \<Rightarrow> error + (string \<times> real) list" where
  "get_coordinates author_id =
     (if author_id \<notin> set (map fst AUTHOR_CATALOG) then Inl (unknown_author author_id)
      else bind_err (dict_get AUTHOR_CATALOG author_id) (\<lambda>entry. Inr (coordinates entry)))"

section \<open>Distance computation\<close>

record DimReport =
  value_1 :: real
  value_2 :: real
  raw_difference :: real
  weighted_difference :: real
  absolute_gap :: real

record DistanceReport =
  author_1 :: string
  author_2 :: string
  euclidean_distance :: real
  normalized_distance :: real
  max_contrast_axis :: string
  max_contrast_gap :: real
  per_dimension :: "(string \<times> DimReport) list"

definition PERCEPTUAL_WEIGHTS :: "(string \<times> real) list" where
  "PERCEPTUAL_WEIGHTS =
    [(''syntactic_density'', 1.2),
     (''sensory_concreteness'', 1.0),
     (''ornamental_register'', 1.1),
     (''tension_visibility'', 0.9),
     (''tension_temporality'', 0.8),
     (''reality_stability'', 1.0),
     (''interiority'', 1.0),
     (''temporal_mode'', 0.8)]"

text \<open>The loop over the parameter names, carrying \<^verbatim>\<open>per_dim\<close> and \<^verbatim>\<open>sum_sq\<close>.\<close>

fun distance_loop ::
  "string list \<Rightarrow> (string \<times> real) list \<Rightarrow> (string \<times> real) list \<Rightarrow> bool \<Rightarrow>
   (string \<times> DimReport) list \<times> real \<Rightarrow> error + (string \<times> DimReport) list \<times> real" where
  "distance_loop [] c1 c2 weighted st = Inr st"
| "distance_loop (p # ps) c1 c2 weighted (per_dim, sum_sq) =
     bind_err (dict_get c2 p) (\<lambda>v2.
     bind_err (dict_get c1 p) (\<lambda>v1.
     let diff = v2 - v1 in
     bind_err (if weighted then dict_get PERCEPTUAL_WEIGHTS p else Inr 1.0) (\<lambda>w.
     let weighted_diff = diff * w in
     distance_loop ps c1 c2 weighted
       (AList.update p
          \<lparr>value_1 = v1, value_2 = v2,
           raw_difference = py_round_nd diff 3,
           weighted_difference = py_round_nd weighted_diff 3,
           absolute_gap = py_round_nd \<bar>diff\<bar> 3\<rparr> per_dim,
        sum_sq + weighted_diff ^ 2))))"

text \<open>\<^verbatim>\<open>max(xs, key=f)\<close>: the first element whose key is maximal.\<close>

fun max_by :: "('a \<Rightarrow> real) \<Rightarrow> 'a \<Rightarrow> 'a list \<Rightarrow> 'a" where
  "max_by f best [] = best"
| "max_by f best (x # xs) = max_by f (if f best < f x then x else best) xs"

definition py_max_key :: "('a \<Rightarrow> real) \<Rightarrow> 'a list \<Rightarrow> error + 'a" where
  "py_max_key f xs =
     (case xs of [] \<Rightarrow> Inl (ValueError ''max() arg is an empty sequence'')
      | x # rest \<Rightarrow> Inr (max_by f x rest))"

definition compute_style_distance :: "string \<Rightarrow> string \<Rightarrow> bool \<Rightarrow> error + DistanceReport" where
  "compute_style_distance author_id_1 author_id_2 weighted =
     bind_err (get_coordinates author_id_1) (\<lambda>c1.
     bind_err (get_coordinates author_id_2) (\<lambda>c2.
     bind_err (distance_loop PARAMETER_NAMES c1 c2 weighted ([], 0.0)) (\<lambda>(per_dim, sum_sq).
     let total = sqrt sum_sq in
     bind_err (py_max_key (\<lambda>(k, r). absolute_gap r) per_dim) (\<lambda>(max_axis, max_report).
     bind_err (dict_get AUTHOR_CATALOG author_id_1) (\<lambda>entry_1.
     bind_err (dict_get AUTHOR_CATALOG author_id_2) (\<lambda>entry_2.
     Inr \<lparr>author_1 = display_name entry_1,
          author_2 = display_name entry_2,
          euclidean_distance = py_round_nd total 4,
          normalized_distance = py_round_nd (total / sqrt (real (length PARAMETER_NAMES))) 4,
          max_contrast_axis = max_axis,
          max_contrast_gap = absolute_gap max_report,
          per_dimension = per_dim\<rparr>))))))"

section \<open>Interpolation (blending)\<close>

record NearestAuthor =
  nearest_id :: string
  nearest_display_name :: string
  nearest_distance :: real

record BlendResult =
  blend_spec :: "(string \<times> real) list"
  blend_display :: string
  blend_coordinates :: "(string \<times> real) list"
  nearest_catalog_author :: NearestAuthor
  blend_signature_moves :: "string list"
  blend_text_vocabulary :: "(string \<times> pydict) list"
  blend_image_vocabulary :: "(string \<times> pydict) list"

text \<open>\<^verbatim>\<open>_get_tier\<close>: the tier of a coordinate value.\<close>

definition get_tier :: "real \<Rightarrow> string" where
  "get_tier v = (if v < 0.33 then ''low'' else if v < 0.67 then ''mid'' else ''high'')"

text \<open>The two values the parameter \<^verbatim>\<open>output_type\<close> takes, and \<^verbatim>\<open>dim[output_type]\<close>.\<close>

datatype output_type = Text_output_mapping | Image_output_mapping

fun output_mapping :: "DimensionSpec \<Rightarrow> output_type \<Rightarrow> (string \<times> pydict) list" where
  "output_mapping d Text_output_mapping = text_output_mapping d"
| "output_mapping d Image_output_mapping = image_output_mapping d"

text \<open>\<^verbatim>\<open>_interpolate_tier_vocabularies\<close>: a copy of the tier's vocabulary, annotated with the
  dimension, the rounded value, the tier and the boundary proximity.\<close>

definition interpolate_tier_vocabularies :: "string \<Rightarrow> real \<Rightarrow> output_type \<Rightarrow> error + pydict" where
  "interpolate_tier_vocabularies dimension v output_type =
     bind_err (dict_get DIMENSIONS dimension) (\<lambda>dimension_spec.
     let tier = get_tier v in
     bind_err (dict_get (output_mapping dimension_spec output_type) tier) (\<lambda>tier_vocabulary.
     let result = tier_vocabulary;
         result = AList.update ''_dimension'' (PStr dimension) result;
         result = AList.update ''_value'' (PFloat (py_round_nd v 3)) result;
         result = AList.update ''_tier'' (PStr tier) result;
         result =
           (if v < 0.33 then
              AList.update ''_boundary_proximity'' (PFloat (py_round_nd (v / 0.33) 3)) result
            else if v < 0.67 then
              AList.update ''_boundary_proximity'' (PFloat (py_round_nd ((v - 0.33) / 0.34) 3)) result
            else
              AList.update ''_boundary_proximity'' (PFloat (py_round_nd ((v - 0.67) / 0.33) 3)) result)
     in Inr result))"

text \<open>\<^verbatim>\<open>_extract_text_vocabulary\<close> and \<^verbatim>\<open>_extract_image_vocabulary\<close> run the same loop
  over the parameter names.\<close>

fun extract_loop ::
  "string list \<Rightarrow> (string \<times> real) list \<Rightarrow> output_type \<Rightarrow> (string \<times> pydict) list \<Rightarrow>
   error + (string \<times> pydict) list" where
  "extract_loop [] coords output_type result = Inr result"
| "extract_loop (dimension # rest) coords output_type result =
     bind_err (dict_get coords dimension) (\<lambda>v.
     bind_err (interpolate_tier_vocabularies dimension v output_type) (\<lambda>tier_vocabulary.
     extract_loop rest coords output_type (AList.update dimension tier_vocabulary result)))"

definition extract_text_vocabulary :: "(string \<times> real) list \<Rightarrow> error + (string \<times> pydict) list" where
  "extract_text_vocabulary coords = extract_loop PARAMETER_NAMES coords Text_output_mapping []"

definition extract_image_vocabulary :: "(string \<times> real) list \<Rightarrow> error + (string \<times> pydict) list" where
  "extract_image_vocabulary coords = extract_loop PARAMETER_NAMES coords Image_output_mapping []"

text \<open>The blended value of one parameter: the loop over \<^verbatim>\<open>normalized.items()\<close>.\<close>

fun blend_value :: "string \<Rightarrow> (string \<times> real) list \<Rightarrow> real \<Rightarrow> error + real" where
  "blend_value p [] val = Inr val"
| "blend_value p ((author_id, weight) # rest) val =
     bind_err (get_coordinates author_id) (\<lambda>coords.
     bind_err (dict_get coords p) (\<lambda>c.
     blend_value p rest (val + c * weight)))"

fun blend_loop ::
  "string list \<Rightarrow> (string \<times> real) list \<Rightarrow> (string \<times> real) list \<Rightarrow> error + (string \<times> real) list" where
  "blend_loop [] normalized blended = Inr blended"
| "blend_loop (p # ps) normalized blended =
     bind_err (blend_value p normalized 0.0) (\<lambda>val.
     blend_loop ps normalized (AList.update p (py_round_nd val 4) blended))"

text \<open>The sum of squared differences to one catalog entry, and the scan for the nearest
  entry. \<^verbatim>\<open>min_dist\<close> starts at infinity, written \<^const>\<open>None\<close>.\<close>

fun sq_diff_sum ::
  "string list \<Rightarrow> (string \<times> real) list \<Rightarrow> (string \<times> real) list \<Rightarrow> real \<Rightarrow> error + real" where
  "sq_diff_sum [] blended coords acc = Inr acc"
| "sq_diff_sum (p # ps) blended coords acc =
     bind_err (dict_get blended p) (\<lambda>b.
     bind_err (dict_get coords p) (\<lambda>c.
     sq_diff_sum ps blended coords (acc + (b - c) ^ 2)))"

fun nearest_loop ::
  "string list \<Rightarrow> (string \<times> real) list \<Rightarrow> real option \<times> string option \<Rightarrow>
   error + real option \<times> string option" where
  "nearest_loop [] blended st = Inr st"
| "nearest_loop (aid # rest) blended (min_dist, nearest) =
     bind_err (get_coordinates aid) (\<lambda>coords.
     bind_err (sq_diff_sum PARAMETER_NAMES blended coords 0) (\<lambda>s.
     let dist = sqrt s in
     nearest_loop rest blended
       (if (case min_dist of None \<Rightarrow> True | Some m \<Rightarrow> dist < m)
        then (Some dist, Some aid) else (min_dist, nearest))))"

text \<open>The signature moves of the contributing authors, in the order given.\<close>

fun moves_loop :: "(string \<times> real) list \<Rightarrow> string list \<Rightarrow> error + string list" where
  "moves_loop [] blended_moves = Inr blended_moves"
| "moves_loop ((author_id, weight) # rest) blended_moves =
     bind_err (dict_get AUTHOR_CATALOG author_id) (\<lambda>entry.
     let n_moves = max 1 (py_round (weight * 5)) in
     moves_loop rest (blended_moves @ take (nat n_moves) (signature_moves entry)))"

text \<open>Decimal digits of an integer, for the percentages of \<^verbatim>\<open>blend_display\<close>.\<close>

fun str_nat :: "nat \<Rightarrow> string" where
  "str_nat n =
     (if n < 10 then [char_of (48 + n)] else str_nat (n div 10) @ [char_of (48 + n mod 10)])"

definition str_int :: "int \<Rightarrow> string" where
  "str_int i = (if i < 0 then ''-'' @ str_nat (nat (- i)) else str_nat (nat i))"

fun display_loop :: "(string \<times> real) list \<Rightarrow> string list \<Rightarrow> error + string list" where
  "display_loop [] parts = Inr parts"
| "display_loop ((aid, w) # rest) parts =
     bind_err (dict_get AUTHOR_CATALOG aid) (\<lambda>entry.
     display_loop rest (parts @ [str_int (py_round (w * 100)) @ ''% '' @ display_name entry]))"

definition interpolate_styles :: "(string \<times> real) list \<Rightarrow> error + BlendResult" where
  "interpolate_styles spec =
     (if spec = [] then Inl (ValueError ''blend_spec must contain at least one author'')
      else
        let total_weight = sum_list (map snd spec) in
        if total_weight \<le> 0 then Inl (ValueError ''Weights must sum to a positive value'')
        else
          let normalized = map (\<lambda>(k, v). (k, v / total_weight)) spec in
          bind_err (blend_loop PARAMETER_NAMES normalized []) (\<lambda>blended.
          bind_err (nearest_loop (map fst AUTHOR_CATALOG) blended (None, None)) (\<lambda>(min_dist, nearest).
          bind_err (extract_text_vocabulary blended) (\<lambda>text_output.
          bind_err (extract_image_vocabulary blended) (\<lambda>image_output.
          let by_weight = sort_key (\<lambda>x. - snd x) normalized in
          bind_err (moves_loop by_weight []) (\<lambda>blended_moves.
          bind_err (display_loop by_weight []) (\<lambda>display_parts.
          case (min_dist, nearest) of
            (Some d, Some n) \<Rightarrow>
              bind_err (dict_get AUTHOR_CATALOG n) (\<lambda>nearest_entry.
              Inr \<lparr>blend_spec = map (\<lambda>(aid, w). (aid, py_round_nd w 3)) normalized,
                   blend_display = join '' / '' display_parts,
                   blend_coordinates = blended,
                   nearest_catalog_author =
                     \<lparr>nearest_id = n,
                      nearest_display_name = display_name nearest_entry,
                      nearest_distance = py_round_nd d 4\<rparr>,
                   blend_signature_moves = blended_moves,
                   blend_text_vocabulary = text_output,
                   blend_image_vocabulary = image_output\<rparr>)
          | _ \<Rightarrow> Inl (KeyError ''None''))))))))"

section \<open>Prompt generation\<close>

text \<open>Truthiness of an optional string or dictionary: \<^verbatim>\<open>None\<close> and the empty value are
  false.\<close>

definition truthy :: "'a list option \<Rightarrow> bool" where
  "truthy x = (case x of None \<Rightarrow> False | Some xs \<Rightarrow> xs \<noteq> [])"

definition endswith :: "string \<Rightarrow> string \<Rightarrow> bool" where
  "endswith s suffix_str =
     (length suffix_str \<le> length s \<and> drop (length s - length suffix_str) s = suffix_str)"

text \<open>The directive sentences of one annotated tier vocabulary: every string value whose key
  ends in \<^verbatim>\<open>_directive\<close>.\<close>

fun collect_directives :: "pydict \<Rightarrow> string list \<Rightarrow> string list" where
  "collect_directives [] parts = parts"
| "collect_directives ((k, v) # rest) parts =
     collect_directives rest
       (case v of PStr s \<Rightarrow> if endswith k ''_directive'' then parts @ [s] else parts
        | _ \<Rightarrow> parts)"

fun directive_loop ::
  "string list \<Rightarrow> (string \<times> pydict) list \<Rightarrow> string list \<Rightarrow> error + string list" where
  "directive_loop [] directives parts = Inr parts"
| "directive_loop (dimension # rest) directives parts =
     bind_err (dict_get directives dimension) (\<lambda>tier_data.
     directive_loop rest directives (collect_directives tier_data parts))"

text \<open>
  What the program does with a vocabulary value: format it inside an f-string, join it, take
  a prefix of it, test it, or turn it into a list. The catalog only ever stores strings and
  lists of strings under the keys read here. A list is formatted as Python prints a list of
  plain strings; formatting a float or a dictionary is outside the model and reported as a
  \<^const>\<open>TypeError\<close>, so that no result is claimed for it.
\<close>

fun py_format :: "pyval \<Rightarrow> error + string" where
  "py_format (PStr s) = Inr s"
| "py_format (PInt i) = Inr (str_int i)"
| "py_format (PList xs) = Inr (py_repr_list xs)"
| "py_format (PFloat x) = Inl (TypeError ''formatting of a float is not modelled'')"
| "py_format (PDict d) = Inl (TypeError ''formatting of a dict is not modelled'')"

fun py_join :: "string \<Rightarrow> pyval \<Rightarrow> error + string" where
  "py_join sep (PList xs) = Inr (join sep xs)"
| "py_join sep (PStr s) = Inr (join sep (map (\<lambda>c. [c]) s))"
| "py_join sep (PDict d) = Inr (join sep (map fst d))"
| "py_join sep (PInt i) = Inl (TypeError ''can only join an iterable'')"
| "py_join sep (PFloat x) = Inl (TypeError ''can only join an iterable'')"

fun py_slice_to :: "nat \<Rightarrow> pyval \<Rightarrow> error + pyval" where
  "py_slice_to n (PList xs) = Inr (PList (take n xs))"
| "py_slice_to n (PStr s) = Inr (PStr (take n s))"
| "py_slice_to n (PDict d) = Inl (TypeError ''a dict cannot be sliced'')"
| "py_slice_to n (PInt i) = Inl (TypeError ''int object is not subscriptable'')"
| "py_slice_to n (PFloat x) = Inl (TypeError ''float object is not subscriptable'')"

fun py_truth :: "pyval \<Rightarrow> bool" where
  "py_truth (PList xs) = (xs \<noteq> [])"
| "py_truth (PStr s) = (s \<noteq> [])"
| "py_truth (PDict d) = (d \<noteq> [])"
| "py_truth (PInt i) = (i \<noteq> 0)"
| "py_truth (PFloat x) = (x \<noteq> 0)"

fun py_list :: "pyval \<Rightarrow> error + string list" where
  "py_list (PList xs) = Inr xs"
| "py_list (PStr s) = Inr (map (\<lambda>c. [c]) s)"
| "py_list (PDict d) = Inr (map fst d)"
| "py_list (PInt i) = Inl (TypeError ''int object is not iterable'')"
| "py_list (PFloat x) = Inl (TypeError ''float object is not iterable'')"

text \<open>\<^verbatim>\<open>d.get(k, [])\<close>.\<close>

definition dict_get_default :: "pydict \<Rightarrow> string \<Rightarrow> pyval" where
  "dict_get_default d k = (case map_of d k of None \<Rightarrow> PList [] | Some v \<Rightarrow> v)"

text \<open>\<^verbatim>\<open>s.strip()\<close>, for the ASCII white space.\<close>

definition is_space :: "char \<Rightarrow> bool" where
  "is_space c = (c \<in> set [CHR 0x20, CHR 0x09, CHR 0x0A, CHR 0x0B, CHR 0x0C, CHR 0x0D,
                          CHR 0x1C, CHR 0x1D, CHR 0x1E, CHR 0x1F])"

definition py_strip :: "string \<Rightarrow> string" where
  "py_strip s = rev (dropWhile is_space (rev (dropWhile is_space s)))"

record TextPrompt =
  text_source :: string
  text_coordinates :: "(string \<times> real) list"
  master_directive :: string
  text_signature_moves :: string
  vocabulary_constraints :: string
  full_prompt :: string
  per_dimension_directives :: "(string \<times> pydict) list"

text \<open>The author-specific clauses of the text prompt.\<close>

definition vocabulary_text :: "pydict \<Rightarrow> error + string" where
  "vocabulary_text text_vocab =
     (if text_vocab \<noteq> [] then
        bind_err
          (if ''register'' \<in> set (map fst text_vocab) then
             bind_err (dict_get text_vocab ''register'') (\<lambda>v.
             bind_err (py_format v) (\<lambda>s. Inr ([] @ ''Register: '' @ s @ ''. '')))
           else Inr [])
          (\<lambda>vocab_text.
        bind_err
          (if ''paragraph_rhythm'' \<in> set (map fst text_vocab) then
             bind_err (dict_get text_vocab ''paragraph_rhythm'') (\<lambda>v.
             bind_err (py_format v) (\<lambda>s. Inr (vocab_text @ ''Paragraph rhythm: '' @ s @ ''. '')))
           else Inr vocab_text)
          (\<lambda>vocab_text.
        if ''forbidden'' \<in> set (map fst text_vocab) then
          bind_err (dict_get text_vocab ''forbidden'') (\<lambda>v.
          bind_err (py_join '', '' v) (\<lambda>s. Inr (vocab_text @ ''Avoid these words: '' @ s @ ''. '')))
        else Inr vocab_text))
      else Inr [])"

definition generate_text_prompt ::
  "string option \<Rightarrow> (string \<times> real) list option \<Rightarrow> (string \<times> real) list option \<Rightarrow>
   error + TextPrompt" where
  "generate_text_prompt author_id blend custom_coordinates =
     bind_err
       (if truthy author_id then
          bind_err (get_coordinates (the author_id)) (\<lambda>coords.
          bind_err (dict_get AUTHOR_CATALOG (the author_id)) (\<lambda>entry.
          Inr (coords, display_name entry, text_vocabulary entry, signature_moves entry)))
        else if truthy blend then
          bind_err (interpolate_styles (the blend)) (\<lambda>result.
          Inr (blend_coordinates result, blend_display result, [], blend_signature_moves result))
        else if truthy custom_coordinates then
          Inr (the custom_coordinates, ''Custom coordinates'', [], [])
        else Inl (ValueError ''Provide author_id, blend_spec, or custom_coordinates''))
       (\<lambda>(coords, source_label, text_vocab, sig_moves).
     bind_err (extract_text_vocabulary coords) (\<lambda>dim_directives.
     bind_err (directive_loop PARAMETER_NAMES dim_directives []) (\<lambda>directive_parts.
     let directive = join '' '' directive_parts;
         moves_text =
           (if sig_moves \<noteq> [] then ''Key techniques: '' @ join ''; '' (take 5 sig_moves) @ ''.''
            else [])
     in
     bind_err (vocabulary_text text_vocab) (\<lambda>vocab_text.
     Inr \<lparr>text_source = source_label,
          text_coordinates = coords,
          master_directive = directive,
          text_signature_moves = moves_text,
          vocabulary_constraints = vocab_text,
          full_prompt =
            py_strip (''[Style: '' @ source_label @ ''] '' @ directive @ '' '' @ moves_text
                      @ '' '' @ vocab_text),
          per_dimension_directives = dim_directives\<rparr>))))"

record ImagePrompt =
  image_source :: string
  image_coordinates :: "(string \<times> real) list"
  prompt :: string
  image_keywords :: "string list"
  image_color_palette :: pyval
  image_compositional_rules :: pyval
  per_dimension_visuals :: "(string \<times> pydict) list"

definition generate_image_prompt ::
  "string option \<Rightarrow> (string \<times> real) list option \<Rightarrow> (string \<times> real) list option \<Rightarrow> string \<Rightarrow>
   error + ImagePrompt" where
  "generate_image_prompt author_id blend custom_coordinates style_modifier =
     bind_err
       (if truthy author_id then
          bind_err (get_coordinates (the author_id)) (\<lambda>coords.
          bind_err (dict_get AUTHOR_CATALOG (the author_id)) (\<lambda>entry.
          Inr (coords, display_name entry, image_vocabulary entry)))
        else if truthy blend then
          bind_err (interpolate_styles (the blend)) (\<lambda>result.
          Inr (blend_coordinates result, blend_display result,
               map (\<lambda>(k, d). (k, PDict d)) (blend_image_vocabulary result)))
        else if truthy custom_coordinates then
          Inr (the custom_coordinates, ''Custom coordinates'',
               [(''keywords'', PList []), (''color_palette'', PList []),
                (''compositional_rules'', PList [])])
        else Inl (ValueError ''Provide author_id, blend_spec, or custom_coordinates''))
       (\<lambda>(coords, source_label, img_vocab).
     bind_err (extract_image_vocabulary coords) (\<lambda>dim_visuals.
     bind_err (directive_loop PARAMETER_NAMES dim_visuals []) (\<lambda>visual_directive_parts.
     bind_err (py_list (dict_get_default img_vocab ''keywords'')) (\<lambda>all_keywords.
     let colors = dict_get_default img_vocab ''color_palette'';
         rules = dict_get_default img_vocab ''compositional_rules'';
         prompt_parts = [];
         prompt_parts = (if style_modifier \<noteq> [] then prompt_parts @ [style_modifier] else prompt_parts);
         prompt_parts = prompt_parts @ take 8 all_keywords
     in
     bind_err
       (if py_truth colors then
          bind_err (py_slice_to 4 colors) (\<lambda>first_colors.
          bind_err (py_join '', '' first_colors) (\<lambda>s.
          Inr (prompt_parts @ [''color palette: '' @ s])))
        else Inr prompt_parts)
       (\<lambda>prompt_parts.
     let prompt_parts = prompt_parts @ take 6 visual_directive_parts in
     Inr \<lparr>image_source = source_label,
          image_coordinates = coords,
          prompt = join '', '' prompt_parts,
          image_keywords = all_keywords,
          image_color_palette = colors,
          image_compositional_rules = rules,
          per_dimension_visuals = dim_visuals\<rparr>)))))"

section \<open>Extremes\<close>

text \<open>\<^verbatim>\<open>find_max_contrast_pair\<close>: the inner loop over \<^verbatim>\<open>authors[i + 1:]\<close> and the outer loop
  over the authors, carrying \<^verbatim>\<open>max_dist\<close> and \<^verbatim>\<open>max_pair\<close>.\<close>

fun contrast_inner ::
  "string \<Rightarrow> string list \<Rightarrow> real \<times> string option \<times> string option \<Rightarrow>
   error + real \<times> string option \<times> string option" where
  "contrast_inner a1 [] st = Inr st"
| "contrast_inner a1 (a2 # rest) (max_dist, max_pair) =
     bind_err (compute_style_distance a1 a2 False) (\<lambda>result.
     contrast_inner a1 rest
       (if max_dist < euclidean_distance result
        then (euclidean_distance result, (Some a1, Some a2)) else (max_dist, max_pair)))"

fun contrast_outer ::
  "string list \<Rightarrow> real \<times> string option \<times> string option \<Rightarrow>
   error + real \<times> string option \<times> string option" where
  "contrast_outer [] st = Inr st"
| "contrast_outer (a1 # rest) st =
     bind_err (contrast_inner a1 rest st) (\<lambda>st'. contrast_outer rest st')"

text \<open>An identifier that may be \<^verbatim>\<open>None\<close>, as \<^verbatim>\<open>max_pair\<close> initially holds: looking it up
  formats it into the unknown-author error.\<close>

definition find_max_contrast_pair :: "error + DistanceReport" where
  "find_max_contrast_pair =
     (let authors = map fst AUTHOR_CATALOG in
      bind_err (contrast_outer authors (0.0, (None, None))) (\<lambda>(max_dist, max_pair).
      case max_pair of
        (Some a1, Some a2) \<Rightarrow> compute_style_distance a1 a2 False
      | _ \<Rightarrow> Inl (unknown_author ''None'')))"

section \<open>Notions used to state the properties\<close>

text \<open>The stored coordinate of a catalog author on one dimension, and the factor the
  distance applies to a dimension.\<close>

definition coordinate :: "string \<Rightarrow> string \<Rightarrow> real" where
  "coordinate author_id p =
     the (map_of (coordinates (the (map_of AUTHOR_CATALOG author_id))) p)"

definition perceptual_weight :: "bool \<Rightarrow> string \<Rightarrow> real" where
  "perceptual_weight weighted p = (if weighted then the (map_of PERCEPTUAL_WEIGHTS p) else 1)"

text \<open>The sum of the squared, possibly weighted, differences of two catalog authors; its
  square root is their Euclidean distance.\<close>

definition squared_distance :: "string \<Rightarrow> string \<Rightarrow> bool \<Rightarrow> real" where
  "squared_distance a b weighted =
     (\<Sum>p\<leftarrow>PARAMETER_NAMES. ((coordinate b p - coordinate a p) * perceptual_weight weighted p) ^ 2)"

definition euclidean :: "string \<Rightarrow> string \<Rightarrow> real" where
  "euclidean a b = sqrt (squared_distance a b False)"

text \<open>The unordered pairs of a list, first by the position of the first component, then by
  the position of the second.\<close>

fun all_pairs :: "'a list \<Rightarrow> ('a \<times> 'a) list" where
  "all_pairs [] = []"
| "all_pairs (x # xs) = map (Pair x) xs @ all_pairs xs"

text \<open>The weight-normalized linear combination of the contributing authors' coordinates on
  one dimension, before the rounding to four decimals.\<close>

definition blend_point :: "(string \<times> real) list \<Rightarrow> string \<Rightarrow> real" where
  "blend_point spec p =
     (\<Sum>(a, w)\<leftarrow>spec. coordinate a p * (w / sum_list (map snd spec)))"

text \<open>The leading signature moves one contributor supplies for its normalized weight.\<close>

definition top_moves :: "string \<times> real \<Rightarrow> string list" where
  "top_moves contributor =
     take (nat (max 1 (py_round (snd contributor * 5))))
       (signature_moves (the (map_of AUTHOR_CATALOG (fst contributor))))"


section \<open>Facts about dictionaries and rounding\<close>

lemma map_of_update_other: "k \<noteq> k' \<Longrightarrow> map_of (AList.update k v al) k' = map_of al k'"
  by (simp add: update_conv')

lemma map_of_update_same: "map_of (AList.update k v al) k = Some v"
  by (simp add: update_conv')

lemma dict_get_Some: "map_of d k = Some v \<Longrightarrow> dict_get d k = Inr v"
  by (simp add: dict_get_def)

section \<open>Facts about the dimension table\<close>


lemma parameter_disj:
  "p \<in> set PARAMETER_NAMES \<longleftrightarrow>
     p = ''syntactic_density'' \<or> p = ''sensory_concreteness'' \<or> p = ''ornamental_register'' \<or>
     p = ''tension_visibility'' \<or> p = ''tension_temporality'' \<or> p = ''reality_stability'' \<or>
     p = ''interiority'' \<or> p = ''temporal_mode''"
  unfolding PARAMETER_NAMES_def by (simp only: list.set insert_iff empty_iff simp_thms)

lemma parameter_cases:
  assumes "p \<in> set PARAMETER_NAMES"
  obtains "p = ''syntactic_density''"
    | "p = ''sensory_concreteness''"
    | "p = ''ornamental_register''"
    | "p = ''tension_visibility''"
    | "p = ''tension_temporality''"
    | "p = ''reality_stability''"
    | "p = ''interiority''"
    | "p = ''temporal_mode''"
  using assms unfolding parameter_disj by (elim disjE)

lemma dimensions_lookup:
  "map_of DIMENSIONS ''syntactic_density'' = Some dim_syntactic_density"
  "map_of DIMENSIONS ''sensory_concreteness'' = Some dim_sensory_concreteness"
  "map_of DIMENSIONS ''ornamental_register'' = Some dim_ornamental_register"
  "map_of DIMENSIONS ''tension_visibility'' = Some dim_tension_visibility"
  "map_of DIMENSIONS ''tension_temporality'' = Some dim_tension_temporality"
  "map_of DIMENSIONS ''reality_stability'' = Some dim_reality_stability"
  "map_of DIMENSIONS ''interiority'' = Some dim_interiority"
  "map_of DIMENSIONS ''temporal_mode'' = Some dim_temporal_mode"
  by (simp_all add: DIMENSIONS_def)

lemma tiers_syntactic_density:
  "t \<in> {''low'', ''mid'', ''high''} \<Longrightarrow>
     map_of (output_mapping dim_syntactic_density output_type) t \<noteq> None"
  by (cases output_type) (auto simp: dim_syntactic_density_def)

lemma tiers_sensory_concreteness:
  "t \<in> {''low'', ''mid'', ''high''} \<Longrightarrow>
     map_of (output_mapping dim_sensory_concreteness output_type) t \<noteq> None"
  by (cases output_type) (auto simp: dim_sensory_concreteness_def)

lemma tiers_ornamental_register:
  "t \<in> {''low'', ''mid'', ''high''} \<Longrightarrow>
     map_of (output_mapping dim_ornamental_register output_type) t \<noteq> None"
  by (cases output_type) (auto simp: dim_ornamental_register_def)

lemma tiers_tension_visibility:
  "t \<in> {''low'', ''mid'', ''high''} \<Longrightarrow>
     map_of (output_mapping dim_tension_visibility output_type) t \<noteq> None"
  by (cases output_type) (auto simp: dim_tension_visibility_def)

lemma tiers_tension_temporality:
  "t \<in> {''low'', ''mid'', ''high''} \<Longrightarrow>
     map_of (output_mapping dim_tension_temporality output_type) t \<noteq> None"
  by (cases output_type) (auto simp: dim_tension_temporality_def)

lemma tiers_reality_stability:
  "t \<in> {''low'', ''mid'', ''high''} \<Longrightarrow>
     map_of (output_mapping dim_reality_stability output_type) t \<noteq> None"
  by (cases output_type) (auto simp: dim_reality_stability_def)

lemma tiers_interiority:
  "t \<in> {''low'', ''mid'', ''high''} \<Longrightarrow>
     map_of (output_mapping dim_interiority output_type) t \<noteq> None"
  by (cases output_type) (auto simp: dim_interiority_def)

lemma tiers_temporal_mode:
  "t \<in> {''low'', ''mid'', ''high''} \<Longrightarrow>
     map_of (output_mapping dim_temporal_mode output_type) t \<noteq> None"
  by (cases output_type) (auto simp: dim_temporal_mode_def)

lemma tier_lookup_ex:
  assumes "map_of DIMENSIONS p = Some d" and "map_of (output_mapping d output_type) t \<noteq> None"
  shows "\<exists>d tv. map_of DIMENSIONS p = Some d \<and> map_of (output_mapping d output_type) t = Some tv"
  using assms by blast

lemma tiers_present:
  assumes "dimension \<in> set PARAMETER_NAMES" and "t \<in> {''low'', ''mid'', ''high''}"
  shows "\<exists>d tv. map_of DIMENSIONS dimension = Some d \<and>
                map_of (output_mapping d output_type) t = Some tv"
  using assms(1)
proof (cases rule: parameter_cases)
  case 1
  show ?thesis unfolding 1
    by (rule tier_lookup_ex [OF dimensions_lookup(1) tiers_syntactic_density [OF assms(2)]])
next
  case 2
  show ?thesis unfolding 2
    by (rule tier_lookup_ex [OF dimensions_lookup(2) tiers_sensory_concreteness [OF assms(2)]])
next
  case 3
  show ?thesis unfolding 3
    by (rule tier_lookup_ex [OF dimensions_lookup(3) tiers_ornamental_register [OF assms(2)]])
next
  case 4
  show ?thesis unfolding 4
    by (rule tier_lookup_ex [OF dimensions_lookup(4) tiers_tension_visibility [OF assms(2)]])
next
  case 5
  show ?thesis unfolding 5
    by (rule tier_lookup_ex [OF dimensions_lookup(5) tiers_tension_temporality [OF assms(2)]])
next
  case 6
  show ?thesis unfolding 6
    by (rule tier_lookup_ex [OF dimensions_lookup(6) tiers_reality_stability [OF assms(2)]])
next
  case 7
  show ?thesis unfolding 7
    by (rule tier_lookup_ex [OF dimensions_lookup(7) tiers_interiority [OF assms(2)]])
next
  case 8
  show ?thesis unfolding 8
    by (rule tier_lookup_ex [OF dimensions_lookup(8) tiers_temporal_mode [OF assms(2)]])
qed


lemma get_tier_cases: "get_tier v \<in> {''low'', ''mid'', ''high''}"
  by (simp add: get_tier_def)

text \<open>For a known dimension the extraction never fails, and its result is the stored tier
  vocabulary followed by the four annotations.\<close>

lemma interpolate_tier_vocabularies_eq:
  assumes "dimension \<in> set PARAMETER_NAMES"
  shows "\<exists>tv. interpolate_tier_vocabularies dimension v output_type =
     Inr (AList.update ''_boundary_proximity''
            (PFloat (py_round_nd
               (if v < 0.33 then v / 0.33 else if v < 0.67 then (v - 0.33) / 0.34
                else (v - 0.67) / 0.33) 3))
         (AList.update ''_tier'' (PStr (get_tier v))
         (AList.update ''_value'' (PFloat (py_round_nd v 3))
         (AList.update ''_dimension'' (PStr dimension) tv))))"
proof -
  from tiers_present [OF assms get_tier_cases]
  obtain d tv where "map_of DIMENSIONS dimension = Some d"
    and "map_of (output_mapping d output_type) (get_tier v) = Some tv" by blast
  then have 1: "dict_get DIMENSIONS dimension = Inr d"
    and 2: "dict_get (output_mapping d output_type) (get_tier v) = Inr tv"
    by (simp_all only: dict_get_Some)
  have "interpolate_tier_vocabularies dimension v output_type =
     Inr (AList.update ''_boundary_proximity''
            (PFloat (py_round_nd
               (if v < 0.33 then v / 0.33 else if v < 0.67 then (v - 0.33) / 0.34
                else (v - 0.67) / 0.33) 3))
         (AList.update ''_tier'' (PStr (get_tier v))
         (AList.update ''_value'' (PFloat (py_round_nd v 3))
         (AList.update ''_dimension'' (PStr dimension) tv))))"
    unfolding interpolate_tier_vocabularies_def 1 bind_err.simps Let_def 2
    by (simp only: if_distrib [of "\<lambda>x. py_round_nd x 3"] if_distrib [of PFloat]
          if_distrib [of "\<lambda>x. AList.update ''_boundary_proximity'' x _"] if_cancel)
  then show ?thesis ..
qed

lemma annotation_keys_differ: "''_boundary_proximity'' \<noteq> ''_tier''"
  by simp

lemma interpolate_tier_vocabularies_ok:
  assumes "dimension \<in> set PARAMETER_NAMES"
  shows "\<exists>r. interpolate_tier_vocabularies dimension v output_type = Inr r \<and>
             map_of r ''_tier'' = Some (PStr (get_tier v)) \<and>
             map_of r ''_boundary_proximity'' =
               Some (PFloat (py_round_nd
                 (if v < 0.33 then v / 0.33 else if v < 0.67 then (v - 0.33) / 0.34
                  else (v - 0.67) / 0.33) 3))"
proof -
  from interpolate_tier_vocabularies_eq [OF assms]
  obtain tv where r: "interpolate_tier_vocabularies dimension v output_type =
     Inr (AList.update ''_boundary_proximity''
            (PFloat (py_round_nd
               (if v < 0.33 then v / 0.33 else if v < 0.67 then (v - 0.33) / 0.34
                else (v - 0.67) / 0.33) 3))
         (AList.update ''_tier'' (PStr (get_tier v))
         (AList.update ''_value'' (PFloat (py_round_nd v 3))
         (AList.update ''_dimension'' (PStr dimension) tv))))"
    by blast
  define bp where "bp = PFloat (py_round_nd
               (if v < 0.33 then v / 0.33 else if v < 0.67 then (v - 0.33) / 0.34
                else (v - 0.67) / 0.33) 3)"
  define rest where "rest = AList.update ''_value'' (PFloat (py_round_nd v 3))
         (AList.update ''_dimension'' (PStr dimension) tv)"
  have 1: "map_of (AList.update ''_boundary_proximity'' bp
             (AList.update ''_tier'' (PStr (get_tier v)) rest)) ''_tier''
           = Some (PStr (get_tier v))"
    by (subst map_of_update_other [OF annotation_keys_differ]) (rule map_of_update_same)
  have 2: "map_of (AList.update ''_boundary_proximity'' bp
             (AList.update ''_tier'' (PStr (get_tier v)) rest)) ''_boundary_proximity''
           = Some bp"
    by (rule map_of_update_same)
  from r 1 2 show ?thesis
    unfolding bp_def [symmetric] rest_def [symmetric] by blast
qed

section \<open>Tier boundaries\<close>

text \<open>
  C2. For every dimension and both output types, extracting the tier vocabulary at the value
  0.33 gives tier "mid" with boundary proximity 0.0, at 0.329999 tier "low" with boundary
  proximity 1.0 (after the rounding to three decimals), and at 0.67 tier "high" with boundary
  proximity 0.0. The tiers partition the values at 0.33 and 0.67, each tier closed at its
  lower end.
\<close>

theorem tier_boundary_exactness:
  assumes "dimension \<in> set PARAMETER_NAMES"
  shows "(\<exists>r. interpolate_tier_vocabularies dimension 0.33 output_type = Inr r \<and>
              map_of r ''_tier'' = Some (PStr ''mid'') \<and>
              map_of r ''_boundary_proximity'' = Some (PFloat 0.0)) \<and>
         (\<exists>r. interpolate_tier_vocabularies dimension 0.329999 output_type = Inr r \<and>
              map_of r ''_tier'' = Some (PStr ''low'') \<and>
              map_of r ''_boundary_proximity'' = Some (PFloat 1.0)) \<and>
         (\<exists>r. interpolate_tier_vocabularies dimension 0.67 output_type = Inr r \<and>
              map_of r ''_tier'' = Some (PStr ''high'') \<and>
              map_of r ''_boundary_proximity'' = Some (PFloat 0.0)) \<and>
         (\<forall>v. (get_tier v = ''low'' \<longleftrightarrow> v < 0.33) \<and>
              (get_tier v = ''mid'' \<longleftrightarrow> 0.33 \<le> v \<and> v < 0.67) \<and>
              (get_tier v = ''high'' \<longleftrightarrow> 0.67 \<le> v))"
proof -
  have mid: "get_tier 0.33 = ''mid''" and low: "get_tier 0.329999 = ''low''"
    and high: "get_tier 0.67 = ''high''"
    by (simp_all add: get_tier_def)
  have p_mid: "py_round_nd (if (0.33::real) < 0.33 then 0.33 / 0.33
      else if (0.33::real) < 0.67 then (0.33 - 0.33) / 0.34 else (0.33 - 0.67) / 0.33) 3 = 0.0"
    and p_low: "py_round_nd (if (0.329999::real) < 0.33 then 0.329999 / 0.33
      else if (0.329999::real) < 0.67 then (0.329999 - 0.33) / 0.34
      else (0.329999 - 0.67) / 0.33) 3 = 1.0"
    and p_high: "py_round_nd (if (0.67::real) < 0.33 then 0.67 / 0.33
      else if (0.67::real) < 0.67 then (0.67 - 0.33) / 0.34 else (0.67 - 0.67) / 0.33) 3 = 0.0"
    by (simp_all add: py_round_nd_def round_half_even_def)
  have a: "\<exists>r. interpolate_tier_vocabularies dimension 0.33 output_type = Inr r \<and>
              map_of r ''_tier'' = Some (PStr ''mid'') \<and>
              map_of r ''_boundary_proximity'' = Some (PFloat 0.0)"
    using interpolate_tier_vocabularies_ok [OF assms, of "0.33" output_type]
    unfolding mid p_mid .
  have b: "\<exists>r. interpolate_tier_vocabularies dimension 0.329999 output_type = Inr r \<and>
              map_of r ''_tier'' = Some (PStr ''low'') \<and>
              map_of r ''_boundary_proximity'' = Some (PFloat 1.0)"
    using interpolate_tier_vocabularies_ok [OF assms, of "0.329999" output_type]
    unfolding low p_low .
  have c: "\<exists>r. interpolate_tier_vocabularies dimension 0.67 output_type = Inr r \<and>
              map_of r ''_tier'' = Some (PStr ''high'') \<and>
              map_of r ''_boundary_proximity'' = Some (PFloat 0.0)"
    using interpolate_tier_vocabularies_ok [OF assms, of "0.67" output_type]
    unfolding high p_high .
  have d: "\<forall>v. (get_tier v = ''low'' \<longleftrightarrow> v < 0.33) \<and>
              (get_tier v = ''mid'' \<longleftrightarrow> 0.33 \<le> v \<and> v < 0.67) \<and>
              (get_tier v = ''high'' \<longleftrightarrow> 0.67 \<le> v)"
    by (simp add: get_tier_def)
  from a b c d show ?thesis by (intro conjI)
qed

theorem tier_boundary_exactness_witness:
  "''interiority'' \<in> set PARAMETER_NAMES \<and>
   (\<exists>r. interpolate_tier_vocabularies ''interiority'' 0.33 Image_output_mapping = Inr r \<and>
        map_of r ''_tier'' = Some (PStr ''mid'') \<and>
        map_of r ''_boundary_proximity'' = Some (PFloat 0.0))"
proof -
  have h: "''interiority'' \<in> set PARAMETER_NAMES"
    unfolding parameter_disj by (intro disjI2 disjI1 refl | rule refl)+
  from tier_boundary_exactness [OF h, of Image_output_mapping]
  have "\<exists>r. interpolate_tier_vocabularies ''interiority'' 0.33 Image_output_mapping = Inr r \<and>
        map_of r ''_tier'' = Some (PStr ''mid'') \<and>
        map_of r ''_boundary_proximity'' = Some (PFloat 0.0)"
    by (elim conjE)
  with h show ?thesis by (rule conjI)
qed


section \<open>Facts about the author catalog\<close>

lemma author_disj:
  "a \<in> set (map fst AUTHOR_CATALOG) \<longleftrightarrow>
     a = ''hemingway'' \<or>
     a = ''de_sade'' \<or>
     a = ''le_guin'' \<or>
     a = ''didion'' \<or>
     a = ''lovecraft'' \<or>
     a = ''borges'' \<or>
     a = ''murakami'' \<or>
     a = ''marquez'' \<or>
     a = ''kafka'' \<or>
     a = ''shonagon'' \<or>
     a = ''lispector''"
  unfolding AUTHOR_CATALOG_def
  by (simp only: list.map fst_conv list.set insert_iff empty_iff simp_thms)

lemma author_cases:
  assumes "a \<in> set (map fst AUTHOR_CATALOG)"
  obtains "a = ''hemingway''"
    | "a = ''de_sade''"
    | "a = ''le_guin''"
    | "a = ''didion''"
    | "a = ''lovecraft''"
    | "a = ''borges''"
    | "a = ''murakami''"
    | "a = ''marquez''"
    | "a = ''kafka''"
    | "a = ''shonagon''"
    | "a = ''lispector''"
  using assms unfolding author_disj by (elim disjE)

lemma catalog_lookup:
  "map_of AUTHOR_CATALOG ''hemingway'' = Some entry_hemingway"
  "map_of AUTHOR_CATALOG ''de_sade'' = Some entry_de_sade"
  "map_of AUTHOR_CATALOG ''le_guin'' = Some entry_le_guin"
  "map_of AUTHOR_CATALOG ''didion'' = Some entry_didion"
  "map_of AUTHOR_CATALOG ''lovecraft'' = Some entry_lovecraft"
  "map_of AUTHOR_CATALOG ''borges'' = Some entry_borges"
  "map_of AUTHOR_CATALOG ''murakami'' = Some entry_murakami"
  "map_of AUTHOR_CATALOG ''marquez'' = Some entry_marquez"
  "map_of AUTHOR_CATALOG ''kafka'' = Some entry_kafka"
  "map_of AUTHOR_CATALOG ''shonagon'' = Some entry_shonagon"
  "map_of AUTHOR_CATALOG ''lispector'' = Some entry_lispector"
  by (simp_all add: AUTHOR_CATALOG_def)

lemma coordinate_keys:
  "map fst (coordinates entry_hemingway) = PARAMETER_NAMES"
  "map fst (coordinates entry_de_sade) = PARAMETER_NAMES"
  "map fst (coordinates entry_le_guin) = PARAMETER_NAMES"
  "map fst (coordinates entry_didion) = PARAMETER_NAMES"
  "map fst (coordinates entry_lovecraft) = PARAMETER_NAMES"
  "map fst (coordinates entry_borges) = PARAMETER_NAMES"
  "map fst (coordinates entry_murakami) = PARAMETER_NAMES"
  "map fst (coordinates entry_marquez) = PARAMETER_NAMES"
  "map fst (coordinates entry_kafka) = PARAMETER_NAMES"
  "map fst (coordinates entry_shonagon) = PARAMETER_NAMES"
  "map fst (coordinates entry_lispector) = PARAMETER_NAMES"
  by (simp_all add: PARAMETER_NAMES_def entry_hemingway_def entry_de_sade_def entry_le_guin_def entry_didion_def entry_lovecraft_def entry_borges_def entry_murakami_def entry_marquez_def entry_kafka_def entry_shonagon_def entry_lispector_def)

lemma catalog_entry:
  assumes "a \<in> set (map fst AUTHOR_CATALOG)"
  obtains e where "map_of AUTHOR_CATALOG a = Some e" and "map fst (coordinates e) = PARAMETER_NAMES"
  using assms
proof (cases rule: author_cases)
  case 1
  show ?thesis by (rule that [of entry_hemingway]) (simp_all only: 1 catalog_lookup coordinate_keys)
next
  case 2
  show ?thesis by (rule that [of entry_de_sade]) (simp_all only: 2 catalog_lookup coordinate_keys)
next
  case 3
  show ?thesis by (rule that [of entry_le_guin]) (simp_all only: 3 catalog_lookup coordinate_keys)
next
  case 4
  show ?thesis by (rule that [of entry_didion]) (simp_all only: 4 catalog_lookup coordinate_keys)
next
  case 5
  show ?thesis by (rule that [of entry_lovecraft]) (simp_all only: 5 catalog_lookup coordinate_keys)
next
  case 6
  show ?thesis by (rule that [of entry_borges]) (simp_all only: 6 catalog_lookup coordinate_keys)
next
  case 7
  show ?thesis by (rule that [of entry_murakami]) (simp_all only: 7 catalog_lookup coordinate_keys)
next
  case 8
  show ?thesis by (rule that [of entry_marquez]) (simp_all only: 8 catalog_lookup coordinate_keys)
next
  case 9
  show ?thesis by (rule that [of entry_kafka]) (simp_all only: 9 catalog_lookup coordinate_keys)
next
  case 10
  show ?thesis by (rule that [of entry_shonagon]) (simp_all only: 10 catalog_lookup coordinate_keys)
next
  case 11
  show ?thesis by (rule that [of entry_lispector]) (simp_all only: 11 catalog_lookup coordinate_keys)
qed

lemma map_of_key: "k \<in> set (map fst al) \<Longrightarrow> \<exists>v. map_of al k = Some v"
  by (cases "map_of al k") (auto simp: map_of_eq_None_iff)

lemma get_coordinates_known:
  assumes "map_of AUTHOR_CATALOG a = Some e"
  shows "get_coordinates a = Inr (coordinates e)"
proof -
  from assms have "a \<in> set (map fst AUTHOR_CATALOG)"
    by (metis map_of_eq_None_iff option.distinct(1) set_map)
  with assms show ?thesis
    by (simp add: get_coordinates_def dict_get_def)
qed

lemma get_coordinates_unknown:
  "a \<notin> set (map fst AUTHOR_CATALOG) \<Longrightarrow> get_coordinates a = Inl (unknown_author a)"
  by (simp add: get_coordinates_def)

lemma perceptual_weight_keys: "map fst PERCEPTUAL_WEIGHTS = PARAMETER_NAMES"
  by (simp add: PERCEPTUAL_WEIGHTS_def PARAMETER_NAMES_def)

section \<open>The distance loop\<close>

lemma distance_loop_result:
  assumes "set ps \<subseteq> set (map fst c1)" and "set ps \<subseteq> set (map fst c2)"
    and "set ps \<subseteq> set (map fst PERCEPTUAL_WEIGHTS)"
  shows "\<exists>pd. distance_loop ps c1 c2 weighted (per_dim, s) =
            Inr (pd, s + (\<Sum>p\<leftarrow>ps. ((the (map_of c2 p) - the (map_of c1 p))
                                     * perceptual_weight weighted p) ^ 2))
          \<and> (per_dim \<noteq> [] \<or> ps \<noteq> [] \<longrightarrow> pd \<noteq> [])"
  using assms
proof (induction ps arbitrary: per_dim s)
  case Nil
  show ?case by simp
next
  case (Cons p ps)
  from Cons.prems obtain v1 v2 w where v1: "map_of c1 p = Some v1" and v2: "map_of c2 p = Some v2"
    and w: "map_of PERCEPTUAL_WEIGHTS p = Some w"
    using map_of_key [of p c1] map_of_key [of p c2] map_of_key [of p PERCEPTUAL_WEIGHTS]
    by auto
  define per_dim' where "per_dim' = AList.update p
          \<lparr>value_1 = v1, value_2 = v2,
           raw_difference = py_round_nd (v2 - v1) 3,
           weighted_difference = py_round_nd ((v2 - v1) * perceptual_weight weighted p) 3,
           absolute_gap = py_round_nd \<bar>v2 - v1\<bar> 3\<rparr> per_dim"
  have ne: "per_dim' \<noteq> []"
    unfolding per_dim'_def by (cases per_dim) auto
  have step: "distance_loop (p # ps) c1 c2 weighted (per_dim, s) =
      distance_loop ps c1 c2 weighted
        (per_dim', s + ((v2 - v1) * perceptual_weight weighted p) ^ 2)"
    by (simp add: dict_get_def v1 v2 w perceptual_weight_def per_dim'_def Let_def)
  from Cons.prems have sub: "set ps \<subseteq> set (map fst c1)" "set ps \<subseteq> set (map fst c2)"
    "set ps \<subseteq> set (map fst PERCEPTUAL_WEIGHTS)" by auto
  from Cons.IH [OF sub, of per_dim' "s + ((v2 - v1) * perceptual_weight weighted p) ^ 2"] ne
  show ?case
    unfolding step by (simp add: v1 v2 add.assoc)
qed

lemma py_max_key_nonempty: "xs \<noteq> [] \<Longrightarrow> \<exists>y. py_max_key f xs = Inr y"
  by (cases xs) (simp_all add: py_max_key_def)

lemma squared_distance_commute: "squared_distance a b weighted = squared_distance b a weighted"
proof -
  have "((coordinate b p - coordinate a p) * w) ^ 2 = ((coordinate a p - coordinate b p) * w) ^ 2"
    for p w
    by (simp add: power_mult_distrib power2_commute)
  then show ?thesis by (simp add: squared_distance_def)
qed

text \<open>For two catalog authors the distance report exists; its distances are the rounded
  square root of the sum of squared differences.\<close>

lemma compute_style_distance_known:
  assumes "a \<in> set (map fst AUTHOR_CATALOG)" and "b \<in> set (map fst AUTHOR_CATALOG)"
  shows "\<exists>r. compute_style_distance a b weighted = Inr r \<and>
             euclidean_distance r = py_round_nd (sqrt (squared_distance a b weighted)) 4 \<and>
             normalized_distance r =
               py_round_nd (sqrt (squared_distance a b weighted)
                            / sqrt (real (length PARAMETER_NAMES))) 4"
proof -
  from assms(1) obtain e1 where e1: "map_of AUTHOR_CATALOG a = Some e1"
    and k1: "map fst (coordinates e1) = PARAMETER_NAMES" by (rule catalog_entry)
  from assms(2) obtain e2 where e2: "map_of AUTHOR_CATALOG b = Some e2"
    and k2: "map fst (coordinates e2) = PARAMETER_NAMES" by (rule catalog_entry)
  have sq: "(\<Sum>p\<leftarrow>PARAMETER_NAMES. ((the (map_of (coordinates e2) p) - the (map_of (coordinates e1) p))
                                     * perceptual_weight weighted p) ^ 2)
            = squared_distance a b weighted"
    by (simp add: squared_distance_def coordinate_def e1 e2)
  have "PARAMETER_NAMES \<noteq> []" by (simp add: PARAMETER_NAMES_def)
  with distance_loop_result [of PARAMETER_NAMES "coordinates e1" "coordinates e2" weighted "[]" 0]
  obtain pd where loop: "distance_loop PARAMETER_NAMES (coordinates e1) (coordinates e2) weighted ([], 0)
      = Inr (pd, squared_distance a b weighted)" and "pd \<noteq> []"
    unfolding k1 k2 perceptual_weight_keys sq by auto
  from py_max_key_nonempty [OF \<open>pd \<noteq> []\<close>]
  obtain m where m: "py_max_key (\<lambda>(k, r). absolute_gap r) pd = Inr m" by blast
  obtain axis report where mr: "m = (axis, report)" by (cases m)
  show ?thesis
    by (simp add: compute_style_distance_def get_coordinates_known [OF e1]
          get_coordinates_known [OF e2] loop m mr dict_get_def e1 e2 Let_def)
qed

section \<open>Symmetry of the distance\<close>

text \<open>
  C8. For every two catalog authors and both values of the weighted flag, the distance report
  of the pair and the report of the swapped pair carry the same euclidean distance and the
  same normalized distance.
\<close>

theorem distance_symmetry:
  assumes "a \<in> set (map fst AUTHOR_CATALOG)" and "b \<in> set (map fst AUTHOR_CATALOG)"
  shows "\<exists>r1 r2. compute_style_distance a b weighted = Inr r1 \<and>
                 compute_style_distance b a weighted = Inr r2 \<and>
                 euclidean_distance r1 = euclidean_distance r2 \<and>
                 normalized_distance r1 = normalized_distance r2"
proof -
  from compute_style_distance_known [OF assms(1) assms(2), of weighted]
  obtain r1 where r1: "compute_style_distance a b weighted = Inr r1"
    "euclidean_distance r1 = py_round_nd (sqrt (squared_distance a b weighted)) 4"
    "normalized_distance r1 =
       py_round_nd (sqrt (squared_distance a b weighted) / sqrt (real (length PARAMETER_NAMES))) 4"
    by blast
  from compute_style_distance_known [OF assms(2) assms(1), of weighted]
  obtain r2 where r2: "compute_style_distance b a weighted = Inr r2"
    "euclidean_distance r2 = py_round_nd (sqrt (squared_distance b a weighted)) 4"
    "normalized_distance r2 =
       py_round_nd (sqrt (squared_distance b a weighted) / sqrt (real (length PARAMETER_NAMES))) 4"
    by blast
  have "euclidean_distance r1 = euclidean_distance r2"
    and "normalized_distance r1 = normalized_distance r2"
    unfolding r1 r2 by (simp_all only: squared_distance_commute [of a b])
  with r1(1) r2(1) show ?thesis by blast
qed

theorem distance_symmetry_witness:
  "''hemingway'' \<in> set (map fst AUTHOR_CATALOG) \<and> ''de_sade'' \<in> set (map fst AUTHOR_CATALOG) \<and>
   (\<exists>r1 r2. compute_style_distance ''hemingway'' ''de_sade'' True = Inr r1 \<and>
            compute_style_distance ''de_sade'' ''hemingway'' True = Inr r2 \<and>
            euclidean_distance r1 = euclidean_distance r2 \<and>
            normalized_distance r1 = normalized_distance r2)"
proof -
  have h1: "''hemingway'' \<in> set (map fst AUTHOR_CATALOG)"
    and h2: "''de_sade'' \<in> set (map fst AUTHOR_CATALOG)"
    unfolding author_disj by simp_all
  from h1 h2 distance_symmetry [OF h1 h2, of True] show ?thesis by (intro conjI)
qed


section \<open>The blending computation\<close>

lemma update_append: "k \<notin> fst ` set al \<Longrightarrow> AList.update k v al = al @ [(k, v)]"
  by (induction al) auto

lemma parameter_names_distinct: "distinct PARAMETER_NAMES"
  by (simp add: PARAMETER_NAMES_def)

lemma coordinate_lookup:
  assumes "map_of AUTHOR_CATALOG a = Some e" and "map fst (coordinates e) = PARAMETER_NAMES"
    and "p \<in> set PARAMETER_NAMES"
  shows "dict_get (coordinates e) p = Inr (coordinate a p)"
proof -
  from assms(2,3) have "p \<in> set (map fst (coordinates e))" by simp
  from map_of_key [OF this] obtain c where "map_of (coordinates e) p = Some c" by blast
  then show ?thesis by (simp add: dict_get_def coordinate_def assms(1))
qed

lemma blend_value_result:
  assumes "fst ` set normalized \<subseteq> set (map fst AUTHOR_CATALOG)" and "p \<in> set PARAMETER_NAMES"
  shows "blend_value p normalized val = Inr (val + (\<Sum>(a, w)\<leftarrow>normalized. coordinate a p * w))"
  using assms(1)
proof (induction normalized arbitrary: val)
  case Nil
  show ?case by simp
next
  case (Cons x rest)
  obtain a w where x: "x = (a, w)" by (cases x)
  from Cons.prems x have "a \<in> set (map fst AUTHOR_CATALOG)" by simp
  then obtain e where e: "map_of AUTHOR_CATALOG a = Some e"
    and k: "map fst (coordinates e) = PARAMETER_NAMES" by (rule catalog_entry)
  from Cons.prems have "fst ` set rest \<subseteq> set (map fst AUTHOR_CATALOG)" by simp
  from Cons.IH [OF this] show ?case
    by (simp add: x get_coordinates_known [OF e] coordinate_lookup [OF e k assms(2)] add.assoc)
qed

text \<open>The first unknown identifier of the blend ends the computation with its error.\<close>

lemma blend_value_unknown:
  assumes "fst ` set known \<subseteq> set (map fst AUTHOR_CATALOG)" and "p \<in> set PARAMETER_NAMES"
    and "a \<notin> set (map fst AUTHOR_CATALOG)"
  shows "blend_value p (known @ (a, w) # rest) val = Inl (unknown_author a)"
  using assms(1)
proof (induction known arbitrary: val)
  case Nil
  show ?case by (simp add: get_coordinates_unknown [OF assms(3)])
next
  case (Cons x known)
  obtain b v where x: "x = (b, v)" by (cases x)
  from Cons.prems x have "b \<in> set (map fst AUTHOR_CATALOG)" by simp
  then obtain e where e: "map_of AUTHOR_CATALOG b = Some e"
    and k: "map fst (coordinates e) = PARAMETER_NAMES" by (rule catalog_entry)
  from Cons.prems have "fst ` set known \<subseteq> set (map fst AUTHOR_CATALOG)" by simp
  from Cons.IH [OF this] show ?case
    by (simp add: x get_coordinates_known [OF e] coordinate_lookup [OF e k assms(2)])
qed

lemma blend_loop_result:
  assumes "fst ` set normalized \<subseteq> set (map fst AUTHOR_CATALOG)"
    and "set ps \<subseteq> set PARAMETER_NAMES" and "distinct ps" and "fst ` set blended \<inter> set ps = {}"
  shows "blend_loop ps normalized blended =
         Inr (blended @ map (\<lambda>p. (p, py_round_nd (\<Sum>(a, w)\<leftarrow>normalized. coordinate a p * w) 4)) ps)"
  using assms(2-4)
proof (induction ps arbitrary: blended)
  case Nil
  show ?case by simp
next
  case (Cons p ps)
  from Cons.prems have p: "p \<in> set PARAMETER_NAMES" and fresh: "p \<notin> fst ` set blended" by auto
  let ?v = "py_round_nd (\<Sum>(a, w)\<leftarrow>normalized. coordinate a p * w) 4"
  from Cons.prems have "set ps \<subseteq> set PARAMETER_NAMES" "distinct ps"
    "fst ` set (blended @ [(p, ?v)]) \<inter> set ps = {}" by auto
  from Cons.IH [OF this] show ?case
    by (simp add: blend_value_result [OF assms(1) p] update_append [OF fresh])
qed

lemma blend_loop_unknown:
  assumes "fst ` set known \<subseteq> set (map fst AUTHOR_CATALOG)"
    and "a \<notin> set (map fst AUTHOR_CATALOG)"
  shows "blend_loop PARAMETER_NAMES (known @ (a, w) # rest) [] = Inl (unknown_author a)"
proof -
  have p: "''syntactic_density'' \<in> set PARAMETER_NAMES" unfolding parameter_disj by simp
  have "PARAMETER_NAMES = ''syntactic_density'' # tl PARAMETER_NAMES"
    by (simp add: PARAMETER_NAMES_def)
  then have "blend_loop PARAMETER_NAMES (known @ (a, w) # rest) [] =
             blend_loop (''syntactic_density'' # tl PARAMETER_NAMES) (known @ (a, w) # rest) []"
    by simp
  also have "\<dots> = Inl (unknown_author a)"
    by (simp add: blend_value_unknown [OF assms(1) p assms(2)])
  finally show ?thesis .
qed

lemma normalized_sum:
  "(\<Sum>(a, w)\<leftarrow>map (\<lambda>(k, v). (k, v / t)) spec. coordinate a p * w)
   = (\<Sum>(a, w)\<leftarrow>spec. coordinate a p * (w / t))"
  by (induction spec) auto

section \<open>Failures of the blend\<close>

text \<open>
  C5. Blending an empty specification fails with the error that the specification must contain
  at least one author; a non-empty specification whose weights do not sum to a strictly
  positive value fails with the error that the weights must sum to a positive value; a
  specification with a positive weight sum that contains an unknown identifier fails with
  the error that resolving its first unknown identifier raises. The checks are made in this
  order, and a failure is a value of the error type, which carries no part of a result.
\<close>

theorem interpolate_styles_failures:
  "interpolate_styles [] = Inl (ValueError ''blend_spec must contain at least one author'') \<and>
   (spec \<noteq> [] \<and> sum_list (map snd spec) \<le> 0 \<longrightarrow>
      interpolate_styles spec = Inl (ValueError ''Weights must sum to a positive value'')) \<and>
   (0 < sum_list (map snd (known @ (a, w) # rest)) \<and>
    fst ` set known \<subseteq> set (map fst AUTHOR_CATALOG) \<and> a \<notin> set (map fst AUTHOR_CATALOG) \<longrightarrow>
      get_coordinates a = Inl (unknown_author a) \<and>
      interpolate_styles (known @ (a, w) # rest) = Inl (unknown_author a))"
proof (intro conjI impI)
  show "interpolate_styles [] = Inl (ValueError ''blend_spec must contain at least one author'')"
    by (simp add: interpolate_styles_def)
next
  assume "spec \<noteq> [] \<and> sum_list (map snd spec) \<le> 0"
  then show "interpolate_styles spec = Inl (ValueError ''Weights must sum to a positive value'')"
    by (simp add: interpolate_styles_def)
next
  assume h: "0 < sum_list (map snd (known @ (a, w) # rest)) \<and>
    fst ` set known \<subseteq> set (map fst AUTHOR_CATALOG) \<and> a \<notin> set (map fst AUTHOR_CATALOG)"
  then show "get_coordinates a = Inl (unknown_author a)"
    by (simp add: get_coordinates_unknown)
next
  assume h: "0 < sum_list (map snd (known @ (a, w) # rest)) \<and>
    fst ` set known \<subseteq> set (map fst AUTHOR_CATALOG) \<and> a \<notin> set (map fst AUTHOR_CATALOG)"
  define t where "t = sum_list (map snd (known @ (a, w) # rest))"
  from h have pos: "\<not> t \<le> 0" and unknown: "a \<notin> set (map fst AUTHOR_CATALOG)"
    by (simp_all add: t_def)
  from h have known: "fst ` set (map (\<lambda>(k, v). (k, v / t)) known) \<subseteq> set (map fst AUTHOR_CATALOG)"
    by force
  have norm: "map (\<lambda>(k, v). (k, v / t)) (known @ (a, w) # rest) =
      map (\<lambda>(k, v). (k, v / t)) known @ (a, w / t) # map (\<lambda>(k, v). (k, v / t)) rest"
    by simp
  show "interpolate_styles (known @ (a, w) # rest) = Inl (unknown_author a)"
    unfolding interpolate_styles_def Let_def t_def [symmetric]
    using pos by (simp only: norm blend_loop_unknown [OF known unknown] bind_err.simps
        append_is_Nil_conv list.distinct simp_thms if_False)
qed

theorem interpolate_styles_failures_witness:
  "[(''hemingway'', 0.5), (''borges'', - 0.5)] \<noteq> [] \<and>
   sum_list (map snd [(''hemingway'', 0.5), (''borges'', - 0.5 :: real)]) \<le> 0 \<and>
   interpolate_styles [(''hemingway'', 0.5), (''borges'', - 0.5)]
     = Inl (ValueError ''Weights must sum to a positive value'') \<and>
   0 < sum_list (map snd ([(''hemingway'', 1)] @ (''nobody'', 1 :: real) # [])) \<and>
   fst ` set [(''hemingway'', 1 :: real)] \<subseteq> set (map fst AUTHOR_CATALOG) \<and>
   ''nobody'' \<notin> set (map fst AUTHOR_CATALOG) \<and>
   interpolate_styles ([(''hemingway'', 1)] @ (''nobody'', 1) # []) = Inl (unknown_author ''nobody'')"
proof -
  have h1: "[(''hemingway'', 0.5), (''borges'', - 0.5 :: real)] \<noteq> [] \<and>
    sum_list (map snd [(''hemingway'', 0.5), (''borges'', - 0.5 :: real)]) \<le> 0"
    by simp
  have k: "''hemingway'' \<in> set (map fst AUTHOR_CATALOG)"
    and u: "''nobody'' \<notin> set (map fst AUTHOR_CATALOG)"
    unfolding author_disj by simp_all
  have h2: "0 < sum_list (map snd ([(''hemingway'', 1)] @ (''nobody'', 1 :: real) # [])) \<and>
    fst ` set [(''hemingway'', 1 :: real)] \<subseteq> set (map fst AUTHOR_CATALOG) \<and>
    ''nobody'' \<notin> set (map fst AUTHOR_CATALOG)"
    using k u by simp
  from interpolate_styles_failures
    [of "[(''hemingway'', 0.5), (''borges'', - 0.5)]" "[(''hemingway'', 1)]" "''nobody''" 1 "[]"]
    h1 h2
  show ?thesis by blast
qed


section \<open>The successful blend\<close>

lemma sq_diff_sum_ok:
  assumes "set ps \<subseteq> set (map fst blended)" and "set ps \<subseteq> set (map fst coords)"
  shows "\<exists>s. sq_diff_sum ps blended coords acc = Inr s"
  using assms
proof (induction ps arbitrary: acc)
  case Nil
  show ?case by simp
next
  case (Cons p ps)
  from Cons.prems obtain b c where "map_of blended p = Some b" and "map_of coords p = Some c"
    using map_of_key [of p blended] map_of_key [of p coords] by auto
  with Cons.IH [of "acc + (b - c) ^ 2"] Cons.prems show ?case
    by (simp add: dict_get_def)
qed

text \<open>The scan for the nearest author keeps either the initial state or a distance together
  with a catalog identifier, and ends with the latter once an author was visited.\<close>

lemma nearest_loop_ok:
  assumes "set PARAMETER_NAMES \<subseteq> set (map fst blended)"
    and "set aids \<subseteq> set (map fst AUTHOR_CATALOG)"
    and "st = (None, None) \<or> (\<exists>d n. st = (Some d, Some n) \<and> n \<in> set (map fst AUTHOR_CATALOG))"
  shows "\<exists>st'. nearest_loop aids blended st = Inr st' \<and>
            (st' = st \<and> aids = [] \<or>
             (\<exists>d n. st' = (Some d, Some n) \<and> n \<in> set (map fst AUTHOR_CATALOG)))"
  using assms(2,3)
proof (induction aids arbitrary: st)
  case Nil
  show ?case by simp
next
  case (Cons aid aids)
  from Cons.prems have known: "aid \<in> set (map fst AUTHOR_CATALOG)" by simp
  then obtain e where e: "map_of AUTHOR_CATALOG aid = Some e"
    and k: "map fst (coordinates e) = PARAMETER_NAMES" by (rule catalog_entry)
  from sq_diff_sum_ok [OF assms(1), of "coordinates e" 0] k
  obtain s where s: "sq_diff_sum PARAMETER_NAMES blended (coordinates e) 0 = Inr s" by auto
  obtain min_dist nearest where st: "st = (min_dist, nearest)" by (cases st)
  define st1 where "st1 = (if (case min_dist of None \<Rightarrow> True | Some m \<Rightarrow> sqrt s < m)
        then (Some (sqrt s), Some aid) else (min_dist, nearest))"
  have step: "nearest_loop (aid # aids) blended st = nearest_loop aids blended st1"
    by (simp add: st get_coordinates_known [OF e] s Let_def st1_def)
  from Cons.prems(2) known
  have inv: "\<exists>d n. st1 = (Some d, Some n) \<and> n \<in> set (map fst AUTHOR_CATALOG)"
    unfolding st1_def st by (auto split: option.splits)
  from Cons.prems have "set aids \<subseteq> set (map fst AUTHOR_CATALOG)" by simp
  from Cons.IH [OF this, of st1] inv show ?case
    unfolding step by blast
qed

lemma extract_loop_ok:
  assumes "set ps \<subseteq> set PARAMETER_NAMES" and "set ps \<subseteq> set (map fst coords)"
    and "\<forall>p d. map_of result p = Some d \<longrightarrow>
           map_of d ''_tier'' = Some (PStr (get_tier (the (map_of coords p))))"
  shows "\<exists>r. extract_loop ps coords output_type result = Inr r \<and>
             fst ` set r = fst ` set result \<union> set ps \<and>
             (\<forall>p d. map_of r p = Some d \<longrightarrow>
                map_of d ''_tier'' = Some (PStr (get_tier (the (map_of coords p)))))"
  using assms
proof (induction ps arbitrary: result)
  case Nil
  then show ?case by simp
next
  case (Cons p ps)
  from Cons.prems have p: "p \<in> set PARAMETER_NAMES" by simp
  from Cons.prems obtain v where v: "map_of coords p = Some v"
    using map_of_key [of p coords] by auto
  from interpolate_tier_vocabularies_ok [OF p, of v output_type]
  obtain tv where tv: "interpolate_tier_vocabularies p v output_type = Inr tv"
    and tier: "map_of tv ''_tier'' = Some (PStr (get_tier v))" by blast
  have step: "extract_loop (p # ps) coords output_type result =
      extract_loop ps coords output_type (AList.update p tv result)"
    by (simp add: dict_get_def v tv)
  have inv: "\<forall>q d. map_of (AList.update p tv result) q = Some d \<longrightarrow>
           map_of d ''_tier'' = Some (PStr (get_tier (the (map_of coords q))))"
    using Cons.prems(3) tier v by (auto simp: update_conv')
  from Cons.prems have sub: "set ps \<subseteq> set PARAMETER_NAMES" "set ps \<subseteq> set (map fst coords)"
    by simp_all
  from Cons.IH [OF sub inv] show ?case
    unfolding step by (auto simp: dom_update)
qed

lemma directive_loop_ok:
  assumes "set ps \<subseteq> set (map fst directives)"
  shows "\<exists>r. directive_loop ps directives parts = Inr r"
  using assms
proof (induction ps arbitrary: parts)
  case Nil
  show ?case by simp
next
  case (Cons p ps)
  from Cons.prems obtain d where "map_of directives p = Some d"
    using map_of_key [of p directives] by auto
  with Cons.IH [of "collect_directives d parts"] Cons.prems show ?case
    by (simp add: dict_get_def)
qed

lemma moves_loop_result:
  assumes "fst ` set contributors \<subseteq> set (map fst AUTHOR_CATALOG)"
  shows "moves_loop contributors blended_moves =
         Inr (blended_moves @ concat (map top_moves contributors))"
  using assms
proof (induction contributors arbitrary: blended_moves)
  case Nil
  show ?case by simp
next
  case (Cons x rest)
  obtain a w where x: "x = (a, w)" by (cases x)
  from Cons.prems x have "a \<in> set (map fst AUTHOR_CATALOG)" by simp
  then obtain e where e: "map_of AUTHOR_CATALOG a = Some e" by (rule catalog_entry)
  from Cons.prems have "fst ` set rest \<subseteq> set (map fst AUTHOR_CATALOG)" by simp
  from Cons.IH [OF this] show ?case
    by (simp add: x dict_get_def e top_moves_def Let_def)
qed

lemma display_loop_ok:
  assumes "fst ` set contributors \<subseteq> set (map fst AUTHOR_CATALOG)"
  shows "\<exists>r. display_loop contributors parts = Inr r"
  using assms
proof (induction contributors arbitrary: parts)
  case Nil
  show ?case by simp
next
  case (Cons x rest)
  obtain a w where x: "x = (a, w)" by (cases x)
  from Cons.prems x have "a \<in> set (map fst AUTHOR_CATALOG)" by simp
  then obtain e where e: "map_of AUTHOR_CATALOG a = Some e" by (rule catalog_entry)
  from Cons.prems have "fst ` set rest \<subseteq> set (map fst AUTHOR_CATALOG)" by simp
  from Cons.IH [OF this] show ?case
    by (simp add: x dict_get_def e)
qed

text \<open>A non-empty blend of catalog authors with a positive weight sum succeeds. Its
  coordinates are the rounded weight-normalized combinations, and its signature moves are
  the leading moves of the contributors in the sorted order.\<close>

lemma interpolate_styles_ok:
  assumes "spec \<noteq> []" and "0 < sum_list (map snd spec)"
    and "fst ` set spec \<subseteq> set (map fst AUTHOR_CATALOG)"
  shows "\<exists>r. interpolate_styles spec = Inr r \<and>
     blend_coordinates r = map (\<lambda>p. (p, py_round_nd (blend_point spec p) 4)) PARAMETER_NAMES \<and>
     blend_signature_moves r =
       concat (map top_moves
         (sort_key (\<lambda>x. - snd x) (map (\<lambda>(k, v). (k, v / sum_list (map snd spec))) spec)))"
proof -
  define t where "t = sum_list (map snd spec)"
  define normalized where "normalized = map (\<lambda>(k, v). (k, v / t)) spec"
  define blended where
    "blended = map (\<lambda>p. (p, py_round_nd (blend_point spec p) 4)) PARAMETER_NAMES"
  define by_weight where "by_weight = sort_key (\<lambda>x. - snd x) normalized"
  from assms(2) have pos: "\<not> t \<le> 0" by (simp add: t_def)
  from assms(3) have known: "fst ` set normalized \<subseteq> set (map fst AUTHOR_CATALOG)"
    unfolding normalized_def by force
  have "blend_loop PARAMETER_NAMES normalized [] =
      Inr ([] @ map (\<lambda>p. (p, py_round_nd (\<Sum>(a, w)\<leftarrow>normalized. coordinate a p * w) 4))
                 PARAMETER_NAMES)"
    by (rule blend_loop_result [OF known subset_refl parameter_names_distinct]) simp
  moreover have "(\<lambda>p. (p, py_round_nd (\<Sum>(a, w)\<leftarrow>normalized. coordinate a p * w) 4))
      = (\<lambda>p. (p, py_round_nd (blend_point spec p) 4))"
    unfolding normalized_def normalized_sum blend_point_def t_def ..
  ultimately have blend: "blend_loop PARAMETER_NAMES normalized [] = Inr blended"
    by (simp only: blended_def append_Nil)
  have blended_keys: "map fst blended = PARAMETER_NAMES"
    by (simp add: blended_def comp_def)
  have "map fst AUTHOR_CATALOG \<noteq> []" by (simp add: AUTHOR_CATALOG_def)
  with nearest_loop_ok [of blended "map fst AUTHOR_CATALOG" "(None, None)"] blended_keys
  obtain d n where near: "nearest_loop (map fst AUTHOR_CATALOG) blended (None, None)
      = Inr (Some d, Some n)" and n: "n \<in> set (map fst AUTHOR_CATALOG)"
    by auto
  from n obtain e where e: "map_of AUTHOR_CATALOG n = Some e" by (rule catalog_entry)
  from extract_loop_ok [of PARAMETER_NAMES blended "[]" Text_output_mapping] blended_keys
  obtain text_output where text_ok: "extract_text_vocabulary blended = Inr text_output"
    by (auto simp: extract_text_vocabulary_def)
  from extract_loop_ok [of PARAMETER_NAMES blended "[]" Image_output_mapping] blended_keys
  obtain image_output where image_ok: "extract_image_vocabulary blended = Inr image_output"
    by (auto simp: extract_image_vocabulary_def)
  from known have sorted_known: "fst ` set by_weight \<subseteq> set (map fst AUTHOR_CATALOG)"
    by (simp add: by_weight_def)
  from display_loop_ok [OF sorted_known, of "[]"]
  obtain display_parts where disp: "display_loop by_weight [] = Inr display_parts" by blast
  have moves: "moves_loop by_weight [] = Inr (concat (map top_moves by_weight))"
    by (simp add: moves_loop_result [OF sorted_known])
  have "interpolate_styles spec =
      Inr \<lparr>blend_spec = map (\<lambda>(aid, w). (aid, py_round_nd w 3)) normalized,
           blend_display = join '' / '' display_parts,
           blend_coordinates = blended,
           nearest_catalog_author =
             \<lparr>nearest_id = n, nearest_display_name = display_name e,
              nearest_distance = py_round_nd d 4\<rparr>,
           blend_signature_moves = concat (map top_moves by_weight),
           blend_text_vocabulary = text_output,
           blend_image_vocabulary = image_output\<rparr>"
    unfolding interpolate_styles_def Let_def t_def [symmetric] normalized_def [symmetric]
      by_weight_def [symmetric]
    using assms(1) pos
    by (simp add: blend near text_ok image_ok moves disp dict_get_def e)
  then show ?thesis
    by (simp add: blended_def by_weight_def normalized_def t_def)
qed


section \<open>Stored coordinates and vocabularies\<close>

text \<open>Every stored coordinate has at most four decimals, so the rounding of the blend
  leaves it unchanged.\<close>

lemma rounded_coordinates:
  "map (\<lambda>p. (p, py_round_nd (the (map_of (coordinates entry_hemingway) p)) 4)) PARAMETER_NAMES
     = coordinates entry_hemingway"
  "map (\<lambda>p. (p, py_round_nd (the (map_of (coordinates entry_de_sade) p)) 4)) PARAMETER_NAMES
     = coordinates entry_de_sade"
  "map (\<lambda>p. (p, py_round_nd (the (map_of (coordinates entry_le_guin) p)) 4)) PARAMETER_NAMES
     = coordinates entry_le_guin"
  "map (\<lambda>p. (p, py_round_nd (the (map_of (coordinates entry_didion) p)) 4)) PARAMETER_NAMES
     = coordinates entry_didion"
  "map (\<lambda>p. (p, py_round_nd (the (map_of (coordinates entry_lovecraft) p)) 4)) PARAMETER_NAMES
     = coordinates entry_lovecraft"
  "map (\<lambda>p. (p, py_round_nd (the (map_of (coordinates entry_borges) p)) 4)) PARAMETER_NAMES
     = coordinates entry_borges"
  "map (\<lambda>p. (p, py_round_nd (the (map_of (coordinates entry_murakami) p)) 4)) PARAMETER_NAMES
     = coordinates entry_murakami"
  "map (\<lambda>p. (p, py_round_nd (the (map_of (coordinates entry_marquez) p)) 4)) PARAMETER_NAMES
     = coordinates entry_marquez"
  "map (\<lambda>p. (p, py_round_nd (the (map_of (coordinates entry_kafka) p)) 4)) PARAMETER_NAMES
     = coordinates entry_kafka"
  "map (\<lambda>p. (p, py_round_nd (the (map_of (coordinates entry_shonagon) p)) 4)) PARAMETER_NAMES
     = coordinates entry_shonagon"
  "map (\<lambda>p. (p, py_round_nd (the (map_of (coordinates entry_lispector) p)) 4)) PARAMETER_NAMES
     = coordinates entry_lispector"
  by (simp_all add: PARAMETER_NAMES_def py_round_nd_def round_half_even_def
      entry_hemingway_def entry_de_sade_def entry_le_guin_def entry_didion_def entry_lovecraft_def entry_borges_def entry_murakami_def entry_marquez_def entry_kafka_def entry_shonagon_def entry_lispector_def)

text \<open>The author-specific clauses can be composed for every catalog entry: the register and
  the paragraph rhythm are strings, the forbidden words a list of strings.\<close>

lemma vocabulary_text_catalog:
  "\<exists>s. vocabulary_text (text_vocabulary entry_hemingway) = Inr s"
  "\<exists>s. vocabulary_text (text_vocabulary entry_de_sade) = Inr s"
  "\<exists>s. vocabulary_text (text_vocabulary entry_le_guin) = Inr s"
  "\<exists>s. vocabulary_text (text_vocabulary entry_didion) = Inr s"
  "\<exists>s. vocabulary_text (text_vocabulary entry_lovecraft) = Inr s"
  "\<exists>s. vocabulary_text (text_vocabulary entry_borges) = Inr s"
  "\<exists>s. vocabulary_text (text_vocabulary entry_murakami) = Inr s"
  "\<exists>s. vocabulary_text (text_vocabulary entry_marquez) = Inr s"
  "\<exists>s. vocabulary_text (text_vocabulary entry_kafka) = Inr s"
  "\<exists>s. vocabulary_text (text_vocabulary entry_shonagon) = Inr s"
  "\<exists>s. vocabulary_text (text_vocabulary entry_lispector) = Inr s"
  by (simp_all add: vocabulary_text_def dict_get_def
      entry_hemingway_def entry_de_sade_def entry_le_guin_def entry_didion_def entry_lovecraft_def entry_borges_def entry_murakami_def entry_marquez_def entry_kafka_def entry_shonagon_def entry_lispector_def)
lemma image_vocabulary_catalog:
  "\<exists>ks cs. dict_get_default (image_vocabulary entry_hemingway) ''keywords'' = PList ks \<and>
     dict_get_default (image_vocabulary entry_hemingway) ''color_palette'' = PList cs"
  "\<exists>ks cs. dict_get_default (image_vocabulary entry_de_sade) ''keywords'' = PList ks \<and>
     dict_get_default (image_vocabulary entry_de_sade) ''color_palette'' = PList cs"
  "\<exists>ks cs. dict_get_default (image_vocabulary entry_le_guin) ''keywords'' = PList ks \<and>
     dict_get_default (image_vocabulary entry_le_guin) ''color_palette'' = PList cs"
  "\<exists>ks cs. dict_get_default (image_vocabulary entry_didion) ''keywords'' = PList ks \<and>
     dict_get_default (image_vocabulary entry_didion) ''color_palette'' = PList cs"
  "\<exists>ks cs. dict_get_default (image_vocabulary entry_lovecraft) ''keywords'' = PList ks \<and>
     dict_get_default (image_vocabulary entry_lovecraft) ''color_palette'' = PList cs"
  "\<exists>ks cs. dict_get_default (image_vocabulary entry_borges) ''keywords'' = PList ks \<and>
     dict_get_default (image_vocabulary entry_borges) ''color_palette'' = PList cs"
  "\<exists>ks cs. dict_get_default (image_vocabulary entry_murakami) ''keywords'' = PList ks \<and>
     dict_get_default (image_vocabulary entry_murakami) ''color_palette'' = PList cs"
  "\<exists>ks cs. dict_get_default (image_vocabulary entry_marquez) ''keywords'' = PList ks \<and>
     dict_get_default (image_vocabulary entry_marquez) ''color_palette'' = PList cs"
  "\<exists>ks cs. dict_get_default (image_vocabulary entry_kafka) ''keywords'' = PList ks \<and>
     dict_get_default (image_vocabulary entry_kafka) ''color_palette'' = PList cs"
  "\<exists>ks cs. dict_get_default (image_vocabulary entry_shonagon) ''keywords'' = PList ks \<and>
     dict_get_default (image_vocabulary entry_shonagon) ''color_palette'' = PList cs"
  "\<exists>ks cs. dict_get_default (image_vocabulary entry_lispector) ''keywords'' = PList ks \<and>
     dict_get_default (image_vocabulary entry_lispector) ''color_palette'' = PList cs"
  by (simp_all add: dict_get_default_def
      entry_hemingway_def entry_de_sade_def entry_le_guin_def entry_didion_def entry_lovecraft_def entry_borges_def entry_murakami_def entry_marquez_def entry_kafka_def entry_shonagon_def entry_lispector_def)

lemma catalog_vocabulary:
  assumes "a \<in> set (map fst AUTHOR_CATALOG)"
  obtains e s ks cs where "map_of AUTHOR_CATALOG a = Some e"
    and "map fst (coordinates e) = PARAMETER_NAMES"
    and "vocabulary_text (text_vocabulary e) = Inr s"
    and "dict_get_default (image_vocabulary e) ''keywords'' = PList ks"
    and "dict_get_default (image_vocabulary e) ''color_palette'' = PList cs"
    and "a \<noteq> []"
  using assms
proof (cases rule: author_cases)
  case 1
  from vocabulary_text_catalog(1) image_vocabulary_catalog(1)
  obtain s ks cs where "vocabulary_text (text_vocabulary entry_hemingway) = Inr s"
    and "dict_get_default (image_vocabulary entry_hemingway) ''keywords'' = PList ks"
    and "dict_get_default (image_vocabulary entry_hemingway) ''color_palette'' = PList cs"
    by blast
  moreover have "a \<noteq> []" unfolding 1 by simp
  ultimately show ?thesis
    using catalog_lookup(1) coordinate_keys(1) unfolding 1 [symmetric] by (rule that [rotated 2])
next
  case 2
  from vocabulary_text_catalog(2) image_vocabulary_catalog(2)
  obtain s ks cs where "vocabulary_text (text_vocabulary entry_de_sade) = Inr s"
    and "dict_get_default (image_vocabulary entry_de_sade) ''keywords'' = PList ks"
    and "dict_get_default (image_vocabulary entry_de_sade) ''color_palette'' = PList cs"
    by blast
  moreover have "a \<noteq> []" unfolding 2 by simp
  ultimately show ?thesis
    using catalog_lookup(2) coordinate_keys(2) unfolding 2 [symmetric] by (rule that [rotated 2])
next
  case 3
  from vocabulary_text_catalog(3) image_vocabulary_catalog(3)
  obtain s ks cs where "vocabulary_text (text_vocabulary entry_le_guin) = Inr s"
    and "dict_get_default (image_vocabulary entry_le_guin) ''keywords'' = PList ks"
    and "dict_get_default (image_vocabulary entry_le_guin) ''color_palette'' = PList cs"
    by blast
  moreover have "a \<noteq> []" unfolding 3 by simp
  ultimately show ?thesis
    using catalog_lookup(3) coordinate_keys(3) unfolding 3 [symmetric] by (rule that [rotated 2])
next
  case 4
  from vocabulary_text_catalog(4) image_vocabulary_catalog(4)
  obtain s ks cs where "vocabulary_text (text_vocabulary entry_didion) = Inr s"
    and "dict_get_default (image_vocabulary entry_didion) ''keywords'' = PList ks"
    and "dict_get_default (image_vocabulary entry_didion) ''color_palette'' = PList cs"
    by blast
  moreover have "a \<noteq> []" unfolding 4 by simp
  ultimately show ?thesis
    using catalog_lookup(4) coordinate_keys(4) unfolding 4 [symmetric] by (rule that [rotated 2])
next
  case 5
  from vocabulary_text_catalog(5) image_vocabulary_catalog(5)
  obtain s ks cs where "vocabulary_text (text_vocabulary entry_lovecraft) = Inr s"
    and "dict_get_default (image_vocabulary entry_lovecraft) ''keywords'' = PList ks"
    and "dict_get_default (image_vocabulary entry_lovecraft) ''color_palette'' = PList cs"
    by blast
  moreover have "a \<noteq> []" unfolding 5 by simp
  ultimately show ?thesis
    using catalog_lookup(5) coordinate_keys(5) unfolding 5 [symmetric] by (rule that [rotated 2])
next
  case 6
  from vocabulary_text_catalog(6) image_vocabulary_catalog(6)
  obtain s ks cs where "vocabulary_text (text_vocabulary entry_borges) = Inr s"
    and "dict_get_default (image_vocabulary entry_borges) ''keywords'' = PList ks"
    and "dict_get_default (image_vocabulary entry_borges) ''color_palette'' = PList cs"
    by blast
  moreover have "a \<noteq> []" unfolding 6 by simp
  ultimately show ?thesis
    using catalog_lookup(6) coordinate_keys(6) unfolding 6 [symmetric] by (rule that [rotated 2])
next
  case 7
  from vocabulary_text_catalog(7) image_vocabulary_catalog(7)
  obtain s ks cs where "vocabulary_text (text_vocabulary entry_murakami) = Inr s"
    and "dict_get_default (image_vocabulary entry_murakami) ''keywords'' = PList ks"
    and "dict_get_default (image_vocabulary entry_murakami) ''color_palette'' = PList cs"
    by blast
  moreover have "a \<noteq> []" unfolding 7 by simp
  ultimately show ?thesis
    using catalog_lookup(7) coordinate_keys(7) unfolding 7 [symmetric] by (rule that [rotated 2])
next
  case 8
  from vocabulary_text_catalog(8) image_vocabulary_catalog(8)
  obtain s ks cs where "vocabulary_text (text_vocabulary entry_marquez) = Inr s"
    and "dict_get_default (image_vocabulary entry_marquez) ''keywords'' = PList ks"
    and "dict_get_default (image_vocabulary entry_marquez) ''color_palette'' = PList cs"
    by blast
  moreover have "a \<noteq> []" unfolding 8 by simp
  ultimately show ?thesis
    using catalog_lookup(8) coordinate_keys(8) unfolding 8 [symmetric] by (rule that [rotated 2])
next
  case 9
  from vocabulary_text_catalog(9) image_vocabulary_catalog(9)
  obtain s ks cs where "vocabulary_text (text_vocabulary entry_kafka) = Inr s"
    and "dict_get_default (image_vocabulary entry_kafka) ''keywords'' = PList ks"
    and "dict_get_default (image_vocabulary entry_kafka) ''color_palette'' = PList cs"
    by blast
  moreover have "a \<noteq> []" unfolding 9 by simp
  ultimately show ?thesis
    using catalog_lookup(9) coordinate_keys(9) unfolding 9 [symmetric] by (rule that [rotated 2])
next
  case 10
  from vocabulary_text_catalog(10) image_vocabulary_catalog(10)
  obtain s ks cs where "vocabulary_text (text_vocabulary entry_shonagon) = Inr s"
    and "dict_get_default (image_vocabulary entry_shonagon) ''keywords'' = PList ks"
    and "dict_get_default (image_vocabulary entry_shonagon) ''color_palette'' = PList cs"
    by blast
  moreover have "a \<noteq> []" unfolding 10 by simp
  ultimately show ?thesis
    using catalog_lookup(10) coordinate_keys(10) unfolding 10 [symmetric] by (rule that [rotated 2])
next
  case 11
  from vocabulary_text_catalog(11) image_vocabulary_catalog(11)
  obtain s ks cs where "vocabulary_text (text_vocabulary entry_lispector) = Inr s"
    and "dict_get_default (image_vocabulary entry_lispector) ''keywords'' = PList ks"
    and "dict_get_default (image_vocabulary entry_lispector) ''color_palette'' = PList cs"
    by blast
  moreover have "a \<noteq> []" unfolding 11 by simp
  ultimately show ?thesis
    using catalog_lookup(11) coordinate_keys(11) unfolding 11 [symmetric] by (rule that [rotated 2])
qed

section \<open>Prompt generation succeeds\<close>

lemma extract_vocabulary_ok:
  assumes "set PARAMETER_NAMES \<subseteq> set (map fst coords)"
  obtains directives visuals where "extract_text_vocabulary coords = Inr directives"
    and "set PARAMETER_NAMES \<subseteq> set (map fst directives)"
    and "\<forall>p d. map_of directives p = Some d \<longrightarrow>
           map_of d ''_tier'' = Some (PStr (get_tier (the (map_of coords p))))"
    and "extract_image_vocabulary coords = Inr visuals"
    and "set PARAMETER_NAMES \<subseteq> set (map fst visuals)"
    and "\<forall>p d. map_of visuals p = Some d \<longrightarrow>
           map_of d ''_tier'' = Some (PStr (get_tier (the (map_of coords p))))"
proof -
  from extract_loop_ok [OF subset_refl assms, of "[]" Text_output_mapping]
  obtain directives where "extract_text_vocabulary coords = Inr directives"
    and "set PARAMETER_NAMES \<subseteq> set (map fst directives)"
    and "\<forall>p d. map_of directives p = Some d \<longrightarrow>
           map_of d ''_tier'' = Some (PStr (get_tier (the (map_of coords p))))"
    by (auto simp: extract_text_vocabulary_def)
  moreover from extract_loop_ok [OF subset_refl assms, of "[]" Image_output_mapping]
  obtain visuals where "extract_image_vocabulary coords = Inr visuals"
    and "set PARAMETER_NAMES \<subseteq> set (map fst visuals)"
    and "\<forall>p d. map_of visuals p = Some d \<longrightarrow>
           map_of d ''_tier'' = Some (PStr (get_tier (the (map_of coords p))))"
    by (auto simp: extract_image_vocabulary_def)
  ultimately show ?thesis by (rule that)
qed

lemma generate_text_prompt_author:
  assumes "a \<in> set (map fst AUTHOR_CATALOG)"
  shows "\<exists>r. generate_text_prompt (Some a) blend custom_coordinates = Inr r \<and>
             text_source r = display_name (the (map_of AUTHOR_CATALOG a))"
proof -
  from assms obtain e s where e: "map_of AUTHOR_CATALOG a = Some e"
    and k: "map fst (coordinates e) = PARAMETER_NAMES"
    and s: "vocabulary_text (text_vocabulary e) = Inr s" and a: "a \<noteq> []"
    by (rule catalog_vocabulary)
  from k have "set PARAMETER_NAMES \<subseteq> set (map fst (coordinates e))" by simp
  then obtain directives where d: "extract_text_vocabulary (coordinates e) = Inr directives"
    and dk: "set PARAMETER_NAMES \<subseteq> set (map fst directives)"
    by (rule extract_vocabulary_ok)
  from directive_loop_ok [OF dk, of "[]"]
  obtain parts where parts: "directive_loop PARAMETER_NAMES directives [] = Inr parts" by blast
  show ?thesis
    by (simp add: generate_text_prompt_def truthy_def a get_coordinates_known [OF e]
          dict_get_def e d parts s Let_def)
qed

lemma generate_image_prompt_author:
  assumes "a \<in> set (map fst AUTHOR_CATALOG)"
  shows "\<exists>r. generate_image_prompt (Some a) blend custom_coordinates style_modifier = Inr r \<and>
             image_source r = display_name (the (map_of AUTHOR_CATALOG a))"
proof -
  from assms obtain e ks cs where e: "map_of AUTHOR_CATALOG a = Some e"
    and k: "map fst (coordinates e) = PARAMETER_NAMES"
    and ks: "dict_get_default (image_vocabulary e) ''keywords'' = PList ks"
    and cs: "dict_get_default (image_vocabulary e) ''color_palette'' = PList cs"
    and a: "a \<noteq> []"
    by (rule catalog_vocabulary)
  from k have "set PARAMETER_NAMES \<subseteq> set (map fst (coordinates e))" by simp
  then obtain visuals where d: "extract_image_vocabulary (coordinates e) = Inr visuals"
    and dk: "set PARAMETER_NAMES \<subseteq> set (map fst visuals)"
    by (rule extract_vocabulary_ok)
  from directive_loop_ok [OF dk, of "[]"]
  obtain parts where parts: "directive_loop PARAMETER_NAMES visuals [] = Inr parts" by blast
  show ?thesis
    by (simp add: generate_image_prompt_def truthy_def a get_coordinates_known [OF e]
          dict_get_def e d parts ks cs Let_def)
qed

lemma tiers_of_keys:
  assumes "set PARAMETER_NAMES \<subseteq> set (map fst directives)"
    and "\<forall>p d. map_of directives p = Some d \<longrightarrow>
           map_of d ''_tier'' = Some (PStr (get_tier (the (map_of coords p))))"
  shows "\<forall>p\<in>set PARAMETER_NAMES. \<exists>d. map_of directives p = Some d \<and>
           map_of d ''_tier'' = Some (PStr (get_tier (the (map_of coords p))))"
proof
  fix p assume "p \<in> set PARAMETER_NAMES"
  with assms(1) have "p \<in> set (map fst directives)" by blast
  from map_of_key [OF this] obtain d where "map_of directives p = Some d" by blast
  with assms(2) show "\<exists>d. map_of directives p = Some d \<and>
           map_of d ''_tier'' = Some (PStr (get_tier (the (map_of coords p))))" by blast
qed

section \<open>Raw coordinates\<close>

text \<open>
  C9. For every custom-coordinates mapping that contains the 8 dimension keys, whatever its
  values, the text prompt and the image prompt are generated without error, for the label
  "Custom coordinates" and the coordinates as given, with a tier for each dimension. The tier
  mapping is total: every value below 0.33, negative ones included, is "low" and every value
  at or above 0.67, those above 1.0 included, is "high".
\<close>

theorem custom_coordinates_accepted:
  assumes "set PARAMETER_NAMES \<subseteq> set (map fst custom_coordinates)"
  shows "(\<exists>r. generate_text_prompt None None (Some custom_coordinates) = Inr r \<and>
              text_source r = ''Custom coordinates'' \<and>
              text_coordinates r = custom_coordinates \<and>
              (\<forall>p\<in>set PARAMETER_NAMES. \<exists>d.
                 map_of (per_dimension_directives r) p = Some d \<and>
                 map_of d ''_tier'' = Some (PStr (get_tier (the (map_of custom_coordinates p)))))) \<and>
         (\<exists>r. generate_image_prompt None None (Some custom_coordinates) style_modifier = Inr r \<and>
              image_source r = ''Custom coordinates'' \<and>
              image_coordinates r = custom_coordinates \<and>
              (\<forall>p\<in>set PARAMETER_NAMES. \<exists>d.
                 map_of (per_dimension_visuals r) p = Some d \<and>
                 map_of d ''_tier'' = Some (PStr (get_tier (the (map_of custom_coordinates p)))))) \<and>
         (\<forall>v. v < 0.33 \<longrightarrow> get_tier v = ''low'') \<and>
         (\<forall>v. 0.67 \<le> v \<longrightarrow> get_tier v = ''high'')"
proof -
  have "PARAMETER_NAMES \<noteq> []" by (simp add: PARAMETER_NAMES_def)
  with assms have ne: "custom_coordinates \<noteq> []" by (cases PARAMETER_NAMES) auto
  from assms obtain directives visuals
    where d: "extract_text_vocabulary custom_coordinates = Inr directives"
      and dk: "set PARAMETER_NAMES \<subseteq> set (map fst directives)"
      and dt: "\<forall>p d. map_of directives p = Some d \<longrightarrow>
           map_of d ''_tier'' = Some (PStr (get_tier (the (map_of custom_coordinates p))))"
      and v: "extract_image_vocabulary custom_coordinates = Inr visuals"
      and vk: "set PARAMETER_NAMES \<subseteq> set (map fst visuals)"
      and vt: "\<forall>p d. map_of visuals p = Some d \<longrightarrow>
           map_of d ''_tier'' = Some (PStr (get_tier (the (map_of custom_coordinates p))))"
    by (rule extract_vocabulary_ok)
  from directive_loop_ok [OF dk, of "[]"]
  obtain parts where parts: "directive_loop PARAMETER_NAMES directives [] = Inr parts" by blast
  from directive_loop_ok [OF vk, of "[]"]
  obtain vparts where vparts: "directive_loop PARAMETER_NAMES visuals [] = Inr vparts" by blast
  have text_part: "\<exists>r. generate_text_prompt None None (Some custom_coordinates) = Inr r \<and>
              text_source r = ''Custom coordinates'' \<and>
              text_coordinates r = custom_coordinates \<and>
              per_dimension_directives r = directives"
    by (simp add: generate_text_prompt_def truthy_def ne d parts vocabulary_text_def Let_def)
  have image_part: "\<exists>r. generate_image_prompt None None (Some custom_coordinates) style_modifier = Inr r \<and>
              image_source r = ''Custom coordinates'' \<and>
              image_coordinates r = custom_coordinates \<and>
              per_dimension_visuals r = visuals"
    by (simp add: generate_image_prompt_def truthy_def ne v vparts dict_get_default_def Let_def)
  have tiers: "(\<forall>v. v < 0.33 \<longrightarrow> get_tier v = ''low'') \<and>
         (\<forall>v. 0.67 \<le> v \<longrightarrow> get_tier v = ''high'')"
    by (simp add: get_tier_def)
  from text_part tiers_of_keys [OF dk dt] image_part tiers_of_keys [OF vk vt] tiers
  show ?thesis by (intro conjI) (blast, blast, simp_all)
qed

theorem custom_coordinates_accepted_witness:
  "set PARAMETER_NAMES \<subseteq> set (map fst
     [(''syntactic_density'', - 3 :: real), (''sensory_concreteness'', 0.9),
      (''ornamental_register'', 5), (''tension_visibility'', 0.1),
      (''tension_temporality'', 0.25), (''reality_stability'', 0.9),
      (''interiority'', 1.5), (''temporal_mode'', 0.2)]) \<and>
   (\<exists>r. generate_text_prompt None None (Some
     [(''syntactic_density'', - 3 :: real), (''sensory_concreteness'', 0.9),
      (''ornamental_register'', 5), (''tension_visibility'', 0.1),
      (''tension_temporality'', 0.25), (''reality_stability'', 0.9),
      (''interiority'', 1.5), (''temporal_mode'', 0.2)]) = Inr r \<and>
     text_source r = ''Custom coordinates'') \<and>
   (\<exists>r. generate_image_prompt None None (Some
     [(''syntactic_density'', - 3 :: real), (''sensory_concreteness'', 0.9),
      (''ornamental_register'', 5), (''tension_visibility'', 0.1),
      (''tension_temporality'', 0.25), (''reality_stability'', 0.9),
      (''interiority'', 1.5), (''temporal_mode'', 0.2)]) ''oil painting'' = Inr r \<and>
     image_source r = ''Custom coordinates'') \<and>
   get_tier (- 3) = ''low'' \<and> get_tier 5 = ''high''"
proof -
  have h: "set PARAMETER_NAMES \<subseteq> set (map fst
     [(''syntactic_density'', - 3 :: real), (''sensory_concreteness'', 0.9),
      (''ornamental_register'', 5), (''tension_visibility'', 0.1),
      (''tension_temporality'', 0.25), (''reality_stability'', 0.9),
      (''interiority'', 1.5), (''temporal_mode'', 0.2)])"
    by (simp add: PARAMETER_NAMES_def)
  have "(- 3 :: real) < 0.33" and "(0.67 :: real) \<le> 5" by simp_all
  with custom_coordinates_accepted [OF h, of "''oil painting''"] h
  show ?thesis by blast
qed

section \<open>Choice of the style source\<close>

text \<open>
  C1, as the program behaves. When none of the three style sources is provided (each is
  absent or empty), both prompt generators fail with the error that asks for a source.
  When more than one is provided there is no such failure: an author identifier, when
  provided, is used and the other two sources are ignored; otherwise a blend, when provided,
  is used and the custom coordinates are ignored.
\<close>

theorem source_resolution:
  "(\<not> truthy author_id \<and> \<not> truthy blend \<and> \<not> truthy custom_coordinates \<longrightarrow>
      generate_text_prompt author_id blend custom_coordinates =
        Inl (ValueError ''Provide author_id, blend_spec, or custom_coordinates'') \<and>
      generate_image_prompt author_id blend custom_coordinates style_modifier =
        Inl (ValueError ''Provide author_id, blend_spec, or custom_coordinates'')) \<and>
   (truthy author_id \<longrightarrow>
      generate_text_prompt author_id blend custom_coordinates =
        generate_text_prompt author_id None None \<and>
      generate_image_prompt author_id blend custom_coordinates style_modifier =
        generate_image_prompt author_id None None style_modifier) \<and>
   (\<not> truthy author_id \<and> truthy blend \<longrightarrow>
      generate_text_prompt author_id blend custom_coordinates =
        generate_text_prompt None blend None \<and>
      generate_image_prompt author_id blend custom_coordinates style_modifier =
        generate_image_prompt None blend None style_modifier)"
proof (intro conjI impI)
  assume "\<not> truthy author_id \<and> \<not> truthy blend \<and> \<not> truthy custom_coordinates"
  then show "generate_text_prompt author_id blend custom_coordinates =
        Inl (ValueError ''Provide author_id, blend_spec, or custom_coordinates'')"
    and "generate_image_prompt author_id blend custom_coordinates style_modifier =
        Inl (ValueError ''Provide author_id, blend_spec, or custom_coordinates'')"
    by (simp_all add: generate_text_prompt_def generate_image_prompt_def)
next
  assume "truthy author_id"
  then show "generate_text_prompt author_id blend custom_coordinates =
        generate_text_prompt author_id None None"
    and "generate_image_prompt author_id blend custom_coordinates style_modifier =
        generate_image_prompt author_id None None style_modifier"
    by (simp_all add: generate_text_prompt_def generate_image_prompt_def)
next
  have none: "\<not> truthy None" by (simp add: truthy_def)
  assume "\<not> truthy author_id \<and> truthy blend"
  then show "generate_text_prompt author_id blend custom_coordinates =
        generate_text_prompt None blend None"
    and "generate_image_prompt author_id blend custom_coordinates style_modifier =
        generate_image_prompt None blend None style_modifier"
    by (simp_all add: generate_text_prompt_def generate_image_prompt_def none)
qed

theorem source_resolution_witness:
  "\<not> truthy (None :: string option) \<and>
   \<not> truthy (Some [] :: (string \<times> real) list option) \<and>
   \<not> truthy (None :: (string \<times> real) list option) \<and>
   generate_text_prompt None (Some []) None =
     Inl (ValueError ''Provide author_id, blend_spec, or custom_coordinates'') \<and>
   truthy (Some ''hemingway'') \<and>
   generate_text_prompt (Some ''hemingway'') (Some [(''borges'', 1)]) None =
     generate_text_prompt (Some ''hemingway'') None None \<and>
   truthy (Some [(''borges'', 1 :: real)]) \<and>
   generate_image_prompt None (Some [(''borges'', 1)]) (Some [(''interiority'', 0.5)]) [] =
     generate_image_prompt None (Some [(''borges'', 1)]) None []"
proof -
  have h1: "\<not> truthy (None :: string option) \<and>
      \<not> truthy (Some [] :: (string \<times> real) list option) \<and>
      \<not> truthy (None :: (string \<times> real) list option)"
    and h2: "truthy (Some ''hemingway'')"
    and h3: "\<not> truthy (None :: string option) \<and> truthy (Some [(''borges'', 1 :: real)])"
    by (simp_all add: truthy_def)
  from source_resolution [of None "Some []" None "[]"] h1
  have "generate_text_prompt None (Some []) None =
     Inl (ValueError ''Provide author_id, blend_spec, or custom_coordinates'')" by blast
  moreover from source_resolution [of "Some ''hemingway''" "Some [(''borges'', 1)]" None "[]"] h2
  have "generate_text_prompt (Some ''hemingway'') (Some [(''borges'', 1)]) None =
     generate_text_prompt (Some ''hemingway'') None None" by blast
  moreover from source_resolution [of None "Some [(''borges'', 1)]" "Some [(''interiority'', 0.5)]" "[]"] h3
  have "generate_image_prompt None (Some [(''borges'', 1)]) (Some [(''interiority'', 0.5)]) [] =
     generate_image_prompt None (Some [(''borges'', 1)]) None []" by blast
  ultimately show ?thesis using h1 h2 h3 by blast
qed

text \<open>
  C1, as stated, fails: a call that provides both an author identifier and a blend
  returns the author's prompt instead of failing.
\<close>

theorem two_sources_counterexample:
  "\<not> isl (generate_text_prompt (Some ''hemingway'') (Some [(''borges'', 1)]) None) \<and>
   text_source (projr (generate_text_prompt (Some ''hemingway'') (Some [(''borges'', 1)]) None))
     = ''Hemingway-esque'' \<and>
   \<not> isl (generate_image_prompt (Some ''hemingway'') (Some [(''borges'', 1)]) None []) \<and>
   image_source (projr (generate_image_prompt (Some ''hemingway'') (Some [(''borges'', 1)]) None []))
     = ''Hemingway-esque''"
proof -
  have h: "''hemingway'' \<in> set (map fst AUTHOR_CATALOG)"
    unfolding author_disj by simp
  have name: "display_name (the (map_of AUTHOR_CATALOG ''hemingway'')) = ''Hemingway-esque''"
    by (simp add: catalog_lookup entry_hemingway_def)
  from generate_text_prompt_author [OF h, of "Some [(''borges'', 1)]" None]
    generate_image_prompt_author [OF h, of "Some [(''borges'', 1)]" None "[]"]
  show ?thesis unfolding name by auto
qed


section \<open>Rounding on the decimal grid\<close>

lemma round_half_even_ge: "of_int k \<le> x \<Longrightarrow> k \<le> round_half_even x"
proof -
  assume "of_int k \<le> x"
  then have "k \<le> \<lfloor>x\<rfloor>" by (simp add: le_floor_iff)
  then show ?thesis by (simp add: round_half_even_def Let_def)
qed

lemma round_half_even_le: "x \<le> of_int k \<Longrightarrow> round_half_even x \<le> k"
proof (cases "\<lfloor>x\<rfloor> = k")
  case True
  assume "x \<le> of_int k"
  with True have "x = of_int k" by linarith
  then show ?thesis by (simp add: round_half_even_def)
next
  case False
  assume "x \<le> of_int k"
  then have "\<lfloor>x\<rfloor> \<le> k" by (simp add: floor_le_iff)
  with False have "\<lfloor>x\<rfloor> + 1 \<le> k" by simp
  then show ?thesis by (simp add: round_half_even_def Let_def)
qed

lemma py_round_nd_ge:
  assumes "py_round_nd m n = m" and "m \<le> x"
  shows "m \<le> py_round_nd x n"
proof -
  define k where "k = round_half_even (m * 10 ^ n)"
  from assms(1) have m: "m = of_int k / 10 ^ n" by (simp add: py_round_nd_def k_def)
  then have "of_int k = m * 10 ^ n" by simp
  also from assms(2) have "\<dots> \<le> x * 10 ^ n" by (simp add: mult_right_mono)
  finally have "k \<le> round_half_even (x * 10 ^ n)" by (rule round_half_even_ge)
  then have "real_of_int k / 10 ^ n \<le> of_int (round_half_even (x * 10 ^ n)) / 10 ^ n"
    by (simp add: divide_right_mono)
  then show ?thesis by (simp add: py_round_nd_def m [symmetric])
qed

lemma py_round_nd_le:
  assumes "py_round_nd m n = m" and "x \<le> m"
  shows "py_round_nd x n \<le> m"
proof -
  define k where "k = round_half_even (m * 10 ^ n)"
  from assms(1) have m: "m = of_int k / 10 ^ n" by (simp add: py_round_nd_def k_def)
  from assms(2) have "x * 10 ^ n \<le> m * 10 ^ n" by (simp add: mult_right_mono)
  also from m have "\<dots> = of_int k" by simp
  finally have "round_half_even (x * 10 ^ n) \<le> k" by (rule round_half_even_le)
  then have "real_of_int (round_half_even (x * 10 ^ n)) / 10 ^ n \<le> of_int k / 10 ^ n"
    by (simp add: divide_right_mono)
  then show ?thesis by (simp add: py_round_nd_def m [symmetric])
qed

lemma map_of_map_key: "p \<in> set ps \<Longrightarrow> map_of (map (\<lambda>p. (p, f p)) ps) p = Some (f p)"
  by (induction ps) auto

lemma catalog_rounded:
  assumes "a \<in> set (map fst AUTHOR_CATALOG)"
  obtains e where "map_of AUTHOR_CATALOG a = Some e"
    and "map (\<lambda>p. (p, py_round_nd (the (map_of (coordinates e) p)) 4)) PARAMETER_NAMES
         = coordinates e"
  using assms
proof (cases rule: author_cases)
  case 1
  show ?thesis by (rule that [of entry_hemingway]) (simp_all only: 1 catalog_lookup rounded_coordinates)
next
  case 2
  show ?thesis by (rule that [of entry_de_sade]) (simp_all only: 2 catalog_lookup rounded_coordinates)
next
  case 3
  show ?thesis by (rule that [of entry_le_guin]) (simp_all only: 3 catalog_lookup rounded_coordinates)
next
  case 4
  show ?thesis by (rule that [of entry_didion]) (simp_all only: 4 catalog_lookup rounded_coordinates)
next
  case 5
  show ?thesis by (rule that [of entry_lovecraft]) (simp_all only: 5 catalog_lookup rounded_coordinates)
next
  case 6
  show ?thesis by (rule that [of entry_borges]) (simp_all only: 6 catalog_lookup rounded_coordinates)
next
  case 7
  show ?thesis by (rule that [of entry_murakami]) (simp_all only: 7 catalog_lookup rounded_coordinates)
next
  case 8
  show ?thesis by (rule that [of entry_marquez]) (simp_all only: 8 catalog_lookup rounded_coordinates)
next
  case 9
  show ?thesis by (rule that [of entry_kafka]) (simp_all only: 9 catalog_lookup rounded_coordinates)
next
  case 10
  show ?thesis by (rule that [of entry_shonagon]) (simp_all only: 10 catalog_lookup rounded_coordinates)
next
  case 11
  show ?thesis by (rule that [of entry_lispector]) (simp_all only: 11 catalog_lookup rounded_coordinates)
qed

lemma coordinate_on_grid:
  assumes "a \<in> set (map fst AUTHOR_CATALOG)" and "p \<in> set PARAMETER_NAMES"
  shows "py_round_nd (coordinate a p) 4 = coordinate a p"
proof -
  from assms(1) obtain e where e: "map_of AUTHOR_CATALOG a = Some e"
    and r: "map (\<lambda>p. (p, py_round_nd (the (map_of (coordinates e) p)) 4)) PARAMETER_NAMES
         = coordinates e" by (rule catalog_rounded)
  from map_of_map_key [OF assms(2), of "\<lambda>p. py_round_nd (the (map_of (coordinates e) p)) 4"]
  have "map_of (coordinates e) p = Some (py_round_nd (the (map_of (coordinates e) p)) 4)"
    unfolding r .
  then have "the (map_of (coordinates e) p) = py_round_nd (the (map_of (coordinates e) p)) 4"
    by (metis option.sel)
  then show ?thesis by (simp add: coordinate_def e)
qed

section \<open>A blend of one author\<close>

text \<open>
  C4. For every catalog author and every positive weight, the blend of that author alone
  succeeds and its coordinates are exactly the stored coordinates of the author.
\<close>

theorem single_author_blend_identity:
  assumes "a \<in> set (map fst AUTHOR_CATALOG)" and "0 < w"
  shows "\<exists>r e. interpolate_styles [(a, w)] = Inr r \<and> map_of AUTHOR_CATALOG a = Some e \<and>
               blend_coordinates r = coordinates e"
proof -
  from assms(1) obtain e where e: "map_of AUTHOR_CATALOG a = Some e"
    and r: "map (\<lambda>p. (p, py_round_nd (the (map_of (coordinates e) p)) 4)) PARAMETER_NAMES
         = coordinates e" by (rule catalog_rounded)
  from assms(2) have point: "blend_point [(a, w)] p = the (map_of (coordinates e) p)" for p
    by (simp add: blend_point_def coordinate_def e)
  from interpolate_styles_ok [of "[(a, w)]"] assms
  obtain res where "interpolate_styles [(a, w)] = Inr res"
    and "blend_coordinates res =
         map (\<lambda>p. (p, py_round_nd (blend_point [(a, w)] p) 4)) PARAMETER_NAMES"
    by auto
  with e r show ?thesis unfolding point by simp
qed

theorem single_author_blend_identity_witness:
  "''kafka'' \<in> set (map fst AUTHOR_CATALOG) \<and> (0 :: real) < 3 \<and>
   (\<exists>r e. interpolate_styles [(''kafka'', 3)] = Inr r \<and> map_of AUTHOR_CATALOG ''kafka'' = Some e \<and>
          blend_coordinates r = coordinates e)"
proof -
  have h: "''kafka'' \<in> set (map fst AUTHOR_CATALOG)" unfolding author_disj by simp
  have w: "(0 :: real) < 3" by simp
  from h w single_author_blend_identity [OF h w] show ?thesis by (intro conjI)
qed

section \<open>Convexity of the blend\<close>

lemma weighted_sum_bounds:
  assumes "\<forall>x\<in>set spec. 0 \<le> snd x \<and> m \<le> c (fst x) \<and> c (fst x) \<le> M"
  shows "m * sum_list (map snd spec) \<le> (\<Sum>(a, w)\<leftarrow>spec. c a * w :: real) \<and>
         (\<Sum>(a, w)\<leftarrow>spec. c a * w) \<le> M * sum_list (map snd spec)"
  using assms
proof (induction spec)
  case Nil
  show ?case by simp
next
  case (Cons x spec)
  obtain a w where x: "x = (a, w)" by (cases x)
  from Cons.prems x have "0 \<le> w" "m \<le> c a" "c a \<le> M" by simp_all
  then have "m * w \<le> c a * w" "c a * w \<le> M * w" by (simp_all add: mult_right_mono)
  moreover from Cons have "m * sum_list (map snd spec) \<le> (\<Sum>(a, w)\<leftarrow>spec. c a * w)"
    "(\<Sum>(a, w)\<leftarrow>spec. c a * w) \<le> M * sum_list (map snd spec)" by simp_all
  ultimately show ?case by (simp add: x distrib_left)
qed

lemma normalized_sum_divide:
  "(\<Sum>(a, w)\<leftarrow>spec. c a * (w / t)) = (\<Sum>(a, w)\<leftarrow>spec. c a * w) / (t :: real)"
  by (induction spec) (auto simp: add_divide_distrib)

lemma blend_point_bounds:
  assumes "\<forall>x\<in>set spec. 0 \<le> snd x \<and> m \<le> coordinate (fst x) p \<and> coordinate (fst x) p \<le> M"
    and "0 < sum_list (map snd spec)"
  shows "m \<le> blend_point spec p \<and> blend_point spec p \<le> M"
proof -
  from weighted_sum_bounds [OF assms(1)] assms(2) show ?thesis
    unfolding blend_point_def normalized_sum_divide
    by (simp add: pos_le_divide_eq pos_divide_le_eq)
qed

text \<open>
  C3. For every blend of catalog authors with non-negative weights and a strictly positive
  weight sum, the blend succeeds and each of its coordinates lies between the least and the
  greatest value of that coordinate among the authors of the blend.
\<close>

theorem blend_convexity:
  assumes "\<forall>x\<in>set spec. 0 \<le> snd x" and "0 < sum_list (map snd spec)"
    and "fst ` set spec \<subseteq> set (map fst AUTHOR_CATALOG)"
  shows "\<exists>r. interpolate_styles spec = Inr r \<and>
     (\<forall>p\<in>set PARAMETER_NAMES. \<exists>v. map_of (blend_coordinates r) p = Some v \<and>
        Min ((\<lambda>a. coordinate a p) ` fst ` set spec) \<le> v \<and>
        v \<le> Max ((\<lambda>a. coordinate a p) ` fst ` set spec))"
proof -
  from assms(2) have ne: "spec \<noteq> []" by auto
  from interpolate_styles_ok [OF ne assms(2,3)]
  obtain r where r: "interpolate_styles spec = Inr r"
    and c: "blend_coordinates r = map (\<lambda>p. (p, py_round_nd (blend_point spec p) 4)) PARAMETER_NAMES"
    by blast
  have "\<exists>v. map_of (blend_coordinates r) p = Some v \<and>
        Min ((\<lambda>a. coordinate a p) ` fst ` set spec) \<le> v \<and>
        v \<le> Max ((\<lambda>a. coordinate a p) ` fst ` set spec)"
    if p: "p \<in> set PARAMETER_NAMES" for p
  proof -
    let ?S = "(\<lambda>a. coordinate a p) ` fst ` set spec"
    from ne have fin: "finite ?S" and nonempty: "?S \<noteq> {}" by simp_all
    from Min_in [OF fin nonempty] obtain a0 where "a0 \<in> fst ` set spec"
      and min: "Min ?S = coordinate a0 p" by auto
    with assms(3) have "a0 \<in> set (map fst AUTHOR_CATALOG)" by blast
    from coordinate_on_grid [OF this p] have gmin: "py_round_nd (Min ?S) 4 = Min ?S"
      unfolding min .
    from Max_in [OF fin nonempty] obtain a1 where "a1 \<in> fst ` set spec"
      and max: "Max ?S = coordinate a1 p" by auto
    with assms(3) have "a1 \<in> set (map fst AUTHOR_CATALOG)" by blast
    from coordinate_on_grid [OF this p] have gmax: "py_round_nd (Max ?S) 4 = Max ?S"
      unfolding max .
    have "\<forall>x\<in>set spec. 0 \<le> snd x \<and> Min ?S \<le> coordinate (fst x) p \<and>
             coordinate (fst x) p \<le> Max ?S"
      using assms(1) fin by auto
    from blend_point_bounds [OF this assms(2)]
    have "Min ?S \<le> blend_point spec p" and "blend_point spec p \<le> Max ?S" by simp_all
    then have "Min ?S \<le> py_round_nd (blend_point spec p) 4"
      and "py_round_nd (blend_point spec p) 4 \<le> Max ?S"
      by (simp_all add: py_round_nd_ge [OF gmin] py_round_nd_le [OF gmax])
    moreover have "map_of (blend_coordinates r) p = Some (py_round_nd (blend_point spec p) 4)"
      unfolding c by (rule map_of_map_key [OF p])
    ultimately show ?thesis by blast
  qed
  with r show ?thesis by blast
qed

theorem blend_convexity_witness:
  "(0 :: real) \<le> 0.7 \<and> (0 :: real) \<le> 0.3 \<and>
   0 < sum_list (map snd [(''hemingway'', 0.7 :: real), (''borges'', 0.3)]) \<and>
   fst ` set [(''hemingway'', 0.7 :: real), (''borges'', 0.3)] \<subseteq> set (map fst AUTHOR_CATALOG) \<and>
   (\<exists>r v. interpolate_styles [(''hemingway'', 0.7), (''borges'', 0.3)] = Inr r \<and>
      map_of (blend_coordinates r) ''interiority'' = Some v \<and>
      Min ((\<lambda>a. coordinate a ''interiority'') `
           fst ` set [(''hemingway'', 0.7 :: real), (''borges'', 0.3)]) \<le> v \<and>
      v \<le> Max ((\<lambda>a. coordinate a ''interiority'') `
           fst ` set [(''hemingway'', 0.7 :: real), (''borges'', 0.3)]))"
proof -
  have h1: "\<forall>x\<in>set [(''hemingway'', 0.7 :: real), (''borges'', 0.3)]. 0 \<le> snd x"
    and h2: "0 < sum_list (map snd [(''hemingway'', 0.7 :: real), (''borges'', 0.3)])"
    by simp_all
  have "''hemingway'' \<in> set (map fst AUTHOR_CATALOG)" "''borges'' \<in> set (map fst AUTHOR_CATALOG)"
    unfolding author_disj by simp_all
  then have h3: "fst ` set [(''hemingway'', 0.7 :: real), (''borges'', 0.3)]
      \<subseteq> set (map fst AUTHOR_CATALOG)" by simp
  have p: "''interiority'' \<in> set PARAMETER_NAMES" unfolding parameter_disj by simp
  from blend_convexity [OF h1 h2 h3]
  obtain r where "interpolate_styles [(''hemingway'', 0.7), (''borges'', 0.3)] = Inr r"
    and "\<forall>p\<in>set PARAMETER_NAMES. \<exists>v. map_of (blend_coordinates r) p = Some v \<and>
        Min ((\<lambda>a. coordinate a p) ` fst ` set [(''hemingway'', 0.7 :: real), (''borges'', 0.3)]) \<le> v \<and>
        v \<le> Max ((\<lambda>a. coordinate a p) ` fst ` set [(''hemingway'', 0.7 :: real), (''borges'', 0.3)])"
    by blast
  with p have "\<exists>r v. interpolate_styles [(''hemingway'', 0.7), (''borges'', 0.3)] = Inr r \<and>
      map_of (blend_coordinates r) ''interiority'' = Some v \<and>
      Min ((\<lambda>a. coordinate a ''interiority'') `
           fst ` set [(''hemingway'', 0.7 :: real), (''borges'', 0.3)]) \<le> v \<and>
      v \<le> Max ((\<lambda>a. coordinate a ''interiority'') `
           fst ` set [(''hemingway'', 0.7 :: real), (''borges'', 0.3)])"
    by blast
  moreover have "(0 :: real) \<le> 0.7" "(0 :: real) \<le> 0.3" by simp_all
  ultimately show ?thesis using h2 h3 by (intro conjI)
qed


section \<open>Weights of either sign\<close>

lemma known_pair:
  assumes "a \<in> set (map fst AUTHOR_CATALOG)" and "b \<in> set (map fst AUTHOR_CATALOG)"
  shows "fst ` set [(a, v), (b, w)] \<subseteq> set (map fst AUTHOR_CATALOG)"
  using assms by simp

lemma known_authors:
  "''hemingway'' \<in> set (map fst AUTHOR_CATALOG)" "''de_sade'' \<in> set (map fst AUTHOR_CATALOG)"
  "''borges'' \<in> set (map fst AUTHOR_CATALOG)" "''kafka'' \<in> set (map fst AUTHOR_CATALOG)"
  unfolding author_disj by simp_all

text \<open>
  C10. The blend checks the total of the weights and not their signs: every blend of catalog
  authors whose weights sum to a strictly positive value succeeds. With a negative weight
  the blended point can leave the range of its inputs and the unit interval: twice de Sade
  minus once Hemingway has syntactic density 1.8, above both authors' values 0.95 and 0.10.
\<close>

theorem negative_weights_accepted:
  "(fst ` set spec \<subseteq> set (map fst AUTHOR_CATALOG) \<and> 0 < sum_list (map snd spec) \<longrightarrow>
      (\<exists>r. interpolate_styles spec = Inr r)) \<and>
   (\<exists>r. interpolate_styles [(''de_sade'', 2), (''hemingway'', - 1)] = Inr r \<and>
        map_of (blend_coordinates r) ''syntactic_density'' = Some 1.8) \<and>
   coordinate ''de_sade'' ''syntactic_density'' = 0.95 \<and>
   coordinate ''hemingway'' ''syntactic_density'' = 0.10"
proof (intro conjI impI)
  assume h: "fst ` set spec \<subseteq> set (map fst AUTHOR_CATALOG) \<and> 0 < sum_list (map snd spec)"
  then have "spec \<noteq> []" by auto
  from interpolate_styles_ok [OF this] h show "\<exists>r. interpolate_styles spec = Inr r" by blast
next
  show d: "coordinate ''de_sade'' ''syntactic_density'' = 0.95"
    by (simp add: coordinate_def catalog_lookup entry_de_sade_def)
  show h: "coordinate ''hemingway'' ''syntactic_density'' = 0.10"
    by (simp add: coordinate_def catalog_lookup entry_hemingway_def)
  have known: "fst ` set [(''de_sade'', 2 :: real), (''hemingway'', - 1)]
      \<subseteq> set (map fst AUTHOR_CATALOG)"
    by (rule known_pair [OF known_authors(2) known_authors(1)])
  have p: "''syntactic_density'' \<in> set PARAMETER_NAMES" unfolding parameter_disj by simp
  have "py_round_nd (blend_point [(''de_sade'', 2), (''hemingway'', - 1)] ''syntactic_density'') 4
      = 1.8"
    by (simp add: blend_point_def d h py_round_nd_def round_half_even_def)
  moreover from interpolate_styles_ok [OF _ _ known]
  obtain r where "interpolate_styles [(''de_sade'', 2), (''hemingway'', - 1)] = Inr r"
    and "blend_coordinates r =
      map (\<lambda>p. (p, py_round_nd (blend_point [(''de_sade'', 2), (''hemingway'', - 1)] p) 4))
        PARAMETER_NAMES"
    by auto
  ultimately show "\<exists>r. interpolate_styles [(''de_sade'', 2), (''hemingway'', - 1)] = Inr r \<and>
        map_of (blend_coordinates r) ''syntactic_density'' = Some 1.8"
    using map_of_map_key [OF p,
        of "\<lambda>p. py_round_nd (blend_point [(''de_sade'', 2), (''hemingway'', - 1)] p) 4"]
    by auto
qed

theorem negative_weights_accepted_witness:
  "fst ` set [(''borges'', 3 :: real), (''kafka'', - 2)] \<subseteq> set (map fst AUTHOR_CATALOG) \<and>
   0 < sum_list (map snd [(''borges'', 3 :: real), (''kafka'', - 2)]) \<and>
   (\<exists>r. interpolate_styles [(''borges'', 3), (''kafka'', - 2)] = Inr r)"
proof -
  have h: "fst ` set [(''borges'', 3 :: real), (''kafka'', - 2)] \<subseteq> set (map fst AUTHOR_CATALOG) \<and>
      0 < sum_list (map snd [(''borges'', 3 :: real), (''kafka'', - 2)])"
    using known_pair [OF known_authors(3) known_authors(4), of 3 "- 2"] by simp
  with negative_weights_accepted [of "[(''borges'', 3), (''kafka'', - 2)]"]
  show ?thesis by blast
qed

section \<open>Synthesis of the signature moves\<close>

text \<open>
  C7. In a successful blend the signature moves are obtained as follows: the contributors,
  with their normalized weights, are put in an order of descending weight; each contributes
  the first max(1, round(5 w)) of its stored signature moves, in their stored order; the
  contributions are concatenated in the order of the contributors, and nothing removes
  duplicates.
\<close>

theorem signature_move_synthesis:
  assumes "fst ` set spec \<subseteq> set (map fst AUTHOR_CATALOG)" and "0 < sum_list (map snd spec)"
  shows "\<exists>r ordered. interpolate_styles spec = Inr r \<and>
     mset ordered = mset (map (\<lambda>(k, v). (k, v / sum_list (map snd spec))) spec) \<and>
     sorted_wrt (\<lambda>x y. snd y \<le> snd x) ordered \<and>
     blend_signature_moves r =
       concat (map (\<lambda>(a, w). take (nat (max 1 (py_round (w * 5))))
                               (signature_moves (the (map_of AUTHOR_CATALOG a)))) ordered)"
proof -
  define normalized where "normalized = map (\<lambda>(k, v). (k, v / sum_list (map snd spec))) spec"
  define ordered where "ordered = sort_key (\<lambda>x. - snd x) normalized"
  from assms(2) have "spec \<noteq> []" by auto
  from interpolate_styles_ok [OF this assms(2,1)]
  obtain r where r: "interpolate_styles spec = Inr r"
    and m: "blend_signature_moves r = concat (map top_moves ordered)"
    unfolding ordered_def normalized_def by blast
  have "top_moves = (\<lambda>(a, w). take (nat (max 1 (py_round (w * 5))))
                               (signature_moves (the (map_of AUTHOR_CATALOG a))))"
    by (simp add: fun_eq_iff top_moves_def)
  with m have moves: "blend_signature_moves r =
       concat (map (\<lambda>(a, w). take (nat (max 1 (py_round (w * 5))))
                               (signature_moves (the (map_of AUTHOR_CATALOG a)))) ordered)"
    by simp
  have perm: "mset ordered = mset normalized" by (simp add: ordered_def)
  have "sorted (map (\<lambda>x. - snd x) ordered)" unfolding ordered_def by (rule sorted_sort_key)
  then have desc: "sorted_wrt (\<lambda>x y. snd y \<le> snd x) ordered"
    by (simp add: sorted_map)
  from r perm desc moves show ?thesis unfolding normalized_def by blast
qed

theorem signature_move_synthesis_witness:
  "fst ` set [(''hemingway'', 0.3 :: real), (''borges'', 0.7)] \<subseteq> set (map fst AUTHOR_CATALOG) \<and>
   0 < sum_list (map snd [(''hemingway'', 0.3 :: real), (''borges'', 0.7)]) \<and>
   (\<exists>r ordered. interpolate_styles [(''hemingway'', 0.3), (''borges'', 0.7)] = Inr r \<and>
     mset ordered = mset (map (\<lambda>(k, v). (k, v / sum_list (map snd
        [(''hemingway'', 0.3 :: real), (''borges'', 0.7)]))) [(''hemingway'', 0.3), (''borges'', 0.7)]) \<and>
     sorted_wrt (\<lambda>x y. snd y \<le> snd x) ordered \<and>
     blend_signature_moves r =
       concat (map (\<lambda>(a, w). take (nat (max 1 (py_round (w * 5))))
                               (signature_moves (the (map_of AUTHOR_CATALOG a)))) ordered))"
proof -
  have h1: "fst ` set [(''hemingway'', 0.3 :: real), (''borges'', 0.7)]
      \<subseteq> set (map fst AUTHOR_CATALOG)"
    by (rule known_pair [OF known_authors(1) known_authors(3)])
  have h2: "0 < sum_list (map snd [(''hemingway'', 0.3 :: real), (''borges'', 0.7)])" by simp
  from h1 h2 signature_move_synthesis [OF h1 h2] show ?thesis by (intro conjI)
qed


section \<open>The pair of maximal contrast\<close>

text \<open>The sums of squared differences of the 55 pairs of catalog authors.\<close>

lemma squared_distances:
  "squared_distance ''hemingway'' ''de_sade'' False = 3.2125"
  "squared_distance ''hemingway'' ''le_guin'' False = 1.2200"
  "squared_distance ''hemingway'' ''didion'' False = 0.4800"
  "squared_distance ''hemingway'' ''lovecraft'' False = 3.4700"
  "squared_distance ''hemingway'' ''borges'' False = 3.0725"
  "squared_distance ''hemingway'' ''murakami'' False = 0.7200"
  "squared_distance ''hemingway'' ''marquez'' False = 2.7025"
  "squared_distance ''hemingway'' ''kafka'' False = 1.1450"
  "squared_distance ''hemingway'' ''shonagon'' False = 0.4225"
  "squared_distance ''hemingway'' ''lispector'' False = 1.7700"
  "squared_distance ''de_sade'' ''le_guin'' False = 0.9025"
  "squared_distance ''de_sade'' ''didion'' False = 1.9675"
  "squared_distance ''de_sade'' ''lovecraft'' False = 0.5225"
  "squared_distance ''de_sade'' ''borges'' False = 1.0550"
  "squared_distance ''de_sade'' ''murakami'' False = 2.6975"
  "squared_distance ''de_sade'' ''marquez'' False = 0.3300"
  "squared_distance ''de_sade'' ''kafka'' False = 1.8675"
  "squared_distance ''de_sade'' ''shonagon'' False = 2.9100"
  "squared_distance ''de_sade'' ''lispector'' False = 1.2475"
  "squared_distance ''le_guin'' ''didion'' False = 0.5300"
  "squared_distance ''le_guin'' ''lovecraft'' False = 0.6000"
  "squared_distance ''le_guin'' ''borges'' False = 0.4875"
  "squared_distance ''le_guin'' ''murakami'' False = 0.5700"
  "squared_distance ''le_guin'' ''marquez'' False = 0.4975"
  "squared_distance ''le_guin'' ''kafka'' False = 0.4050"
  "squared_distance ''le_guin'' ''shonagon'' False = 0.9775"
  "squared_distance ''le_guin'' ''lispector'' False = 0.2700"
  "squared_distance ''didion'' ''lovecraft'' False = 1.9650"
  "squared_distance ''didion'' ''borges'' False = 1.6325"
  "squared_distance ''didion'' ''murakami'' False = 0.6900"
  "squared_distance ''didion'' ''marquez'' False = 1.6425"
  "squared_distance ''didion'' ''kafka'' False = 0.7400"
  "squared_distance ''didion'' ''shonagon'' False = 0.3825"
  "squared_distance ''didion'' ''lispector'' False = 0.6400"
  "squared_distance ''lovecraft'' ''borges'' False = 0.2275"
  "squared_distance ''lovecraft'' ''murakami'' False = 2.0000"
  "squared_distance ''lovecraft'' ''marquez'' False = 0.2775"
  "squared_distance ''lovecraft'' ''kafka'' False = 1.4450"
  "squared_distance ''lovecraft'' ''shonagon'' False = 2.7025"
  "squared_distance ''lovecraft'' ''lispector'' False = 0.6400"
  "squared_distance ''borges'' ''murakami'' False = 1.5325"
  "squared_distance ''borges'' ''marquez'' False = 0.7100"
  "squared_distance ''borges'' ''kafka'' False = 0.8975"
  "squared_distance ''borges'' ''shonagon'' False = 2.4400"
  "squared_distance ''borges'' ''lispector'' False = 0.5625"
  "squared_distance ''murakami'' ''marquez'' False = 1.8175"
  "squared_distance ''murakami'' ''kafka'' False = 0.4500"
  "squared_distance ''murakami'' ''shonagon'' False = 0.5325"
  "squared_distance ''murakami'' ''lispector'' False = 0.8350"
  "squared_distance ''marquez'' ''kafka'' False = 1.5125"
  "squared_distance ''marquez'' ''shonagon'' False = 2.3300"
  "squared_distance ''marquez'' ''lispector'' False = 0.8325"
  "squared_distance ''kafka'' ''shonagon'' False = 1.2225"
  "squared_distance ''kafka'' ''lispector'' False = 0.8500"
  "squared_distance ''shonagon'' ''lispector'' False = 0.9225"
  by (simp_all add: squared_distance_def perceptual_weight_def coordinate_def catalog_lookup
      power2_eq_square
      PARAMETER_NAMES_def entry_hemingway_def entry_de_sade_def entry_le_guin_def entry_didion_def
      entry_lovecraft_def entry_borges_def entry_murakami_def entry_marquez_def
      entry_kafka_def entry_shonagon_def entry_lispector_def)


lemma round_half_even_upper: "y < of_int k + 1 / 2 \<Longrightarrow> round_half_even y \<le> k"
proof (cases "\<lfloor>y\<rfloor> = k")
  case True
  assume "y < of_int k + 1 / 2"
  with True have "y - of_int \<lfloor>y\<rfloor> < 1 / 2" by simp
  with True show ?thesis by (simp add: round_half_even_def Let_def)
next
  case False
  assume "y < of_int k + 1 / 2"
  then have "y < of_int (k + 1)" by simp
  then have "\<lfloor>y\<rfloor> < k + 1" by (simp only: floor_less_iff)
  with False have "\<lfloor>y\<rfloor> + 1 \<le> k" by simp
  then show ?thesis by (simp add: round_half_even_def Let_def)
qed

lemma round_half_even_lower: "of_int k - 1 / 2 < y \<Longrightarrow> k \<le> round_half_even y"
proof (cases "k \<le> \<lfloor>y\<rfloor>")
  case True
  then show ?thesis by (simp add: round_half_even_def Let_def)
next
  case False
  assume "of_int k - 1 / 2 < y"
  then have "of_int (k - 1) \<le> y" by simp
  then have "k - 1 \<le> \<lfloor>y\<rfloor>" by (simp only: le_floor_iff)
  with False have f: "\<lfloor>y\<rfloor> = k - 1" by simp
  with \<open>of_int k - 1 / 2 < y\<close> have "1 / 2 < y - of_int \<lfloor>y\<rfloor>" by simp
  then show ?thesis unfolding round_half_even_def Let_def f by simp
qed

text \<open>The rounded distance of Hemingway and Lovecraft is 1.8628; a sum of squares below
  3.4698 gives a rounded distance of at most 1.8627.\<close>

lemma rounded_distance_maximum: "py_round_nd (sqrt 3.47) 4 = 1.8628"
proof -
  have "(1.86275 :: real)\<^sup>2 < 3.47" by (simp add: power2_eq_square)
  then have "1.86275 < sqrt 3.47" by (rule real_less_rsqrt)
  then have lo: "of_int 18628 - 1 / 2 < sqrt 3.47 * 10 ^ 4" by simp
  have "(3.47 :: real) < 1.86285\<^sup>2" by (simp add: power2_eq_square)
  then have "sqrt 3.47 < 1.86285" by (intro real_less_lsqrt) simp_all
  then have hi: "sqrt 3.47 * 10 ^ 4 < of_int 18628 + 1 / 2" by simp
  from round_half_even_lower [OF lo] round_half_even_upper [OF hi]
  have "round_half_even (sqrt 3.47 * 10 ^ 4) = 18628" by simp
  then show ?thesis by (simp add: py_round_nd_def)
qed

lemma rounded_distance_below:
  assumes "squared_distance a b False < 3.4698"
  shows "py_round_nd (euclidean a b) 4 \<le> 1.8627"
proof -
  have "(3.4698 :: real) < 1.86275\<^sup>2" by (simp add: power2_eq_square)
  with assms have "squared_distance a b False < 1.86275\<^sup>2" by simp
  then have "euclidean a b < 1.86275" unfolding euclidean_def
    by (intro real_less_lsqrt) simp_all
  then have "euclidean a b * 10 ^ 4 < of_int 18627 + 1 / 2" by simp
  from round_half_even_upper [OF this]
  have "real_of_int (round_half_even (euclidean a b * 10 ^ 4)) \<le> 18627" by simp
  then show ?thesis by (simp add: py_round_nd_def)
qed

lemma rounded_distances:
  "py_round_nd (euclidean ''hemingway'' ''de_sade'') 4 \<le> 1.8627"
  "py_round_nd (euclidean ''hemingway'' ''le_guin'') 4 \<le> 1.8627"
  "py_round_nd (euclidean ''hemingway'' ''didion'') 4 \<le> 1.8627"
  "py_round_nd (euclidean ''hemingway'' ''borges'') 4 \<le> 1.8627"
  "py_round_nd (euclidean ''hemingway'' ''murakami'') 4 \<le> 1.8627"
  "py_round_nd (euclidean ''hemingway'' ''marquez'') 4 \<le> 1.8627"
  "py_round_nd (euclidean ''hemingway'' ''kafka'') 4 \<le> 1.8627"
  "py_round_nd (euclidean ''hemingway'' ''shonagon'') 4 \<le> 1.8627"
  "py_round_nd (euclidean ''hemingway'' ''lispector'') 4 \<le> 1.8627"
  "py_round_nd (euclidean ''de_sade'' ''le_guin'') 4 \<le> 1.8627"
  "py_round_nd (euclidean ''de_sade'' ''didion'') 4 \<le> 1.8627"
  "py_round_nd (euclidean ''de_sade'' ''lovecraft'') 4 \<le> 1.8627"
  "py_round_nd (euclidean ''de_sade'' ''borges'') 4 \<le> 1.8627"
  "py_round_nd (euclidean ''de_sade'' ''murakami'') 4 \<le> 1.8627"
  "py_round_nd (euclidean ''de_sade'' ''marquez'') 4 \<le> 1.8627"
  "py_round_nd (euclidean ''de_sade'' ''kafka'') 4 \<le> 1.8627"
  "py_round_nd (euclidean ''de_sade'' ''shonagon'') 4 \<le> 1.8627"
  "py_round_nd (euclidean ''de_sade'' ''lispector'') 4 \<le> 1.8627"
  "py_round_nd (euclidean ''le_guin'' ''didion'') 4 \<le> 1.8627"
  "py_round_nd (euclidean ''le_guin'' ''lovecraft'') 4 \<le> 1.8627"
  "py_round_nd (euclidean ''le_guin'' ''borges'') 4 \<le> 1.8627"
  "py_round_nd (euclidean ''le_guin'' ''murakami'') 4 \<le> 1.8627"
  "py_round_nd (euclidean ''le_guin'' ''marquez'') 4 \<le> 1.8627"
  "py_round_nd (euclidean ''le_guin'' ''kafka'') 4 \<le> 1.8627"
  "py_round_nd (euclidean ''le_guin'' ''shonagon'') 4 \<le> 1.8627"
  "py_round_nd (euclidean ''le_guin'' ''lispector'') 4 \<le> 1.8627"
  "py_round_nd (euclidean ''didion'' ''lovecraft'') 4 \<le> 1.8627"
  "py_round_nd (euclidean ''didion'' ''borges'') 4 \<le> 1.8627"
  "py_round_nd (euclidean ''didion'' ''murakami'') 4 \<le> 1.8627"
  "py_round_nd (euclidean ''didion'' ''marquez'') 4 \<le> 1.8627"
  "py_round_nd (euclidean ''didion'' ''kafka'') 4 \<le> 1.8627"
  "py_round_nd (euclidean ''didion'' ''shonagon'') 4 \<le> 1.8627"
  "py_round_nd (euclidean ''didion'' ''lispector'') 4 \<le> 1.8627"
  "py_round_nd (euclidean ''lovecraft'' ''borges'') 4 \<le> 1.8627"
  "py_round_nd (euclidean ''lovecraft'' ''murakami'') 4 \<le> 1.8627"
  "py_round_nd (euclidean ''lovecraft'' ''marquez'') 4 \<le> 1.8627"
  "py_round_nd (euclidean ''lovecraft'' ''kafka'') 4 \<le> 1.8627"
  "py_round_nd (euclidean ''lovecraft'' ''shonagon'') 4 \<le> 1.8627"
  "py_round_nd (euclidean ''lovecraft'' ''lispector'') 4 \<le> 1.8627"
  "py_round_nd (euclidean ''borges'' ''murakami'') 4 \<le> 1.8627"
  "py_round_nd (euclidean ''borges'' ''marquez'') 4 \<le> 1.8627"
  "py_round_nd (euclidean ''borges'' ''kafka'') 4 \<le> 1.8627"
  "py_round_nd (euclidean ''borges'' ''shonagon'') 4 \<le> 1.8627"
  "py_round_nd (euclidean ''borges'' ''lispector'') 4 \<le> 1.8627"
  "py_round_nd (euclidean ''murakami'' ''marquez'') 4 \<le> 1.8627"
  "py_round_nd (euclidean ''murakami'' ''kafka'') 4 \<le> 1.8627"
  "py_round_nd (euclidean ''murakami'' ''shonagon'') 4 \<le> 1.8627"
  "py_round_nd (euclidean ''murakami'' ''lispector'') 4 \<le> 1.8627"
  "py_round_nd (euclidean ''marquez'' ''kafka'') 4 \<le> 1.8627"
  "py_round_nd (euclidean ''marquez'' ''shonagon'') 4 \<le> 1.8627"
  "py_round_nd (euclidean ''marquez'' ''lispector'') 4 \<le> 1.8627"
  "py_round_nd (euclidean ''kafka'' ''shonagon'') 4 \<le> 1.8627"
  "py_round_nd (euclidean ''kafka'' ''lispector'') 4 \<le> 1.8627"
  "py_round_nd (euclidean ''shonagon'' ''lispector'') 4 \<le> 1.8627"
  by (rule rounded_distance_below, simp add: squared_distances)+

lemma rounded_distance_hemingway_lovecraft:
  "py_round_nd (euclidean ''hemingway'' ''lovecraft'') 4 = 1.8628"
  using rounded_distance_maximum by (simp add: euclidean_def squared_distances)

lemma author_ids: "map fst AUTHOR_CATALOG =
    [''hemingway'', ''de_sade'', ''le_guin'', ''didion'',
     ''lovecraft'', ''borges'', ''murakami'', ''marquez'',
     ''kafka'', ''shonagon'', ''lispector'']"
  by (simp add: AUTHOR_CATALOG_def)

section \<open>The scan of all pairs\<close>

lemma distance_report:
  assumes "a \<in> set (map fst AUTHOR_CATALOG)" and "b \<in> set (map fst AUTHOR_CATALOG)"
  shows "\<exists>r. compute_style_distance a b False = Inr r \<and>
             euclidean_distance r = py_round_nd (euclidean a b) 4"
  using compute_style_distance_known [OF assms, of False] unfolding euclidean_def by blast

lemma contrast_inner_append:
  "contrast_inner a (xs @ ys) st = bind_err (contrast_inner a xs st) (contrast_inner a ys)"
proof (induction xs arbitrary: st)
  case Nil
  show ?case by simp
next
  case (Cons x xs)
  obtain m pr where st: "st = (m, pr)" by (cases st)
  show ?case
    by (cases "compute_style_distance a x False") (simp_all add: st Cons.IH)
qed

text \<open>A pair whose rounded distance does not exceed the current maximum leaves the state
  unchanged: among equal distances the pair found first is kept.\<close>

lemma contrast_inner_keep:
  assumes "a \<in> set (map fst AUTHOR_CATALOG)" and "set bs \<subseteq> set (map fst AUTHOR_CATALOG)"
    and "\<forall>b\<in>set bs. py_round_nd (euclidean a b) 4 \<le> m"
  shows "contrast_inner a bs (m, pr) = Inr (m, pr)"
  using assms(2,3)
proof (induction bs)
  case Nil
  show ?case by simp
next
  case (Cons b bs)
  from Cons.prems have "b \<in> set (map fst AUTHOR_CATALOG)" by simp
  from distance_report [OF assms(1) this]
  obtain r where r: "compute_style_distance a b False = Inr r"
    and d: "euclidean_distance r = py_round_nd (euclidean a b) 4" by blast
  from Cons.prems have "\<not> m < py_round_nd (euclidean a b) 4" by simp
  with Cons show ?case by (simp add: r d)
qed

lemma contrast_outer_keep:
  assumes "set xs \<subseteq> set (map fst AUTHOR_CATALOG)"
    and "\<forall>(a, b)\<in>set (all_pairs xs). py_round_nd (euclidean a b) 4 \<le> m"
  shows "contrast_outer xs (m, pr) = Inr (m, pr)"
  using assms
proof (induction xs)
  case Nil
  show ?case by simp
next
  case (Cons x xs)
  from Cons.prems have "x \<in> set (map fst AUTHOR_CATALOG)"
    and "set xs \<subseteq> set (map fst AUTHOR_CATALOG)"
    and "\<forall>b\<in>set xs. py_round_nd (euclidean x b) 4 \<le> m"
    and "\<forall>(a, b)\<in>set (all_pairs xs). py_round_nd (euclidean a b) 4 \<le> m"
    by auto
  with Cons.IH show ?case by (simp add: contrast_inner_keep)
qed

lemma contrast_inner_below:
  assumes "a \<in> set (map fst AUTHOR_CATALOG)" and "set bs \<subseteq> set (map fst AUTHOR_CATALOG)"
    and "\<forall>b\<in>set bs. py_round_nd (euclidean a b) 4 < M" and "m < M"
  shows "\<exists>m' pr'. contrast_inner a bs (m, pr) = Inr (m', pr') \<and> m' < M"
  using assms(2-4)
proof (induction bs arbitrary: m pr)
  case Nil
  then show ?case by simp
next
  case (Cons b bs)
  from Cons.prems have "b \<in> set (map fst AUTHOR_CATALOG)" by simp
  from distance_report [OF assms(1) this]
  obtain r where r: "compute_style_distance a b False = Inr r"
    and d: "euclidean_distance r = py_round_nd (euclidean a b) 4" by blast
  from Cons.prems have sub: "set bs \<subseteq> set (map fst AUTHOR_CATALOG)"
    and below: "\<forall>b\<in>set bs. py_round_nd (euclidean a b) 4 < M"
    and this_below: "py_round_nd (euclidean a b) 4 < M" by simp_all
  show ?case
  proof (cases "m < py_round_nd (euclidean a b) 4")
    case True
    from Cons.IH [OF sub below this_below, of "(Some a, Some b)"] True
    show ?thesis by (simp add: r d)
  next
    case False
    from Cons.IH [OF sub below Cons.prems(3), of pr] False
    show ?thesis by (simp add: r d)
  qed
qed

lemma contrast_inner_hit:
  assumes "a \<in> set (map fst AUTHOR_CATALOG)" and "b \<in> set (map fst AUTHOR_CATALOG)"
    and "m < py_round_nd (euclidean a b) 4"
  shows "contrast_inner a [b] (m, pr) = Inr (py_round_nd (euclidean a b) 4, (Some a, Some b))"
proof -
  from distance_report [OF assms(1,2)]
  obtain r where r: "compute_style_distance a b False = Inr r"
    and d: "euclidean_distance r = py_round_nd (euclidean a b) 4" by blast
  from assms(3) show ?thesis by (simp add: r d)
qed

lemma contrast_outer_catalog:
  "contrast_outer (map fst AUTHOR_CATALOG) (0, (None, None)) =
     Inr (1.8628, (Some ''hemingway'', Some ''lovecraft''))"
proof -
  let ?before = "[''de_sade'', ''le_guin'', ''didion'']"
  let ?after = "[''borges'', ''murakami'', ''marquez'', ''kafka'', ''shonagon'', ''lispector'']"
  let ?rest = "?before @ [''lovecraft''] @ ?after"
  have ids: "map fst AUTHOR_CATALOG = ''hemingway'' # ?rest" by (simp add: author_ids)
  have known: "set (''hemingway'' # ?rest) \<subseteq> set (map fst AUTHOR_CATALOG)"
    unfolding ids by (rule subset_refl)
  have h: "''hemingway'' \<in> set (map fst AUTHOR_CATALOG)"
    and l: "''lovecraft'' \<in> set (map fst AUTHOR_CATALOG)"
    and before: "set ?before \<subseteq> set (map fst AUTHOR_CATALOG)"
    and after: "set ?after \<subseteq> set (map fst AUTHOR_CATALOG)"
    and rest: "set ?rest \<subseteq> set (map fst AUTHOR_CATALOG)"
    using known by simp_all
  have "\<forall>b\<in>set ?before. py_round_nd (euclidean ''hemingway'' b) 4 < 1.8628"
    using rounded_distances(1-3) by simp
  from contrast_inner_below [OF h before this, of 0 "(None, None)"]
  obtain m1 pr1 where 1: "contrast_inner ''hemingway'' ?before (0, (None, None)) = Inr (m1, pr1)"
    and "m1 < 1.8628" by auto
  then have "m1 < py_round_nd (euclidean ''hemingway'' ''lovecraft'') 4"
    by (simp only: rounded_distance_hemingway_lovecraft)
  from contrast_inner_hit [OF h l this, of pr1]
  have 2: "contrast_inner ''hemingway'' [''lovecraft''] (m1, pr1) =
      Inr (1.8628, (Some ''hemingway'', Some ''lovecraft''))"
    by (simp only: rounded_distance_hemingway_lovecraft)
  have "\<forall>b\<in>set ?after. py_round_nd (euclidean ''hemingway'' b) 4 \<le> 1.8628"
    using rounded_distances(4-9) by simp
  from contrast_inner_keep [OF h after this]
  have 3: "contrast_inner ''hemingway'' ?after (1.8628, (Some ''hemingway'', Some ''lovecraft'')) =
      Inr (1.8628, (Some ''hemingway'', Some ''lovecraft''))" .
  have inner: "contrast_inner ''hemingway'' ?rest (0, (None, None)) =
      Inr (1.8628, (Some ''hemingway'', Some ''lovecraft''))"
    unfolding contrast_inner_append 1 bind_err.simps 2 3 ..
  have "\<forall>(a, b)\<in>set (all_pairs ?rest). py_round_nd (euclidean a b) 4 \<le> 1.8628"
    using rounded_distances(10-54) by simp
  from contrast_outer_keep [OF rest this]
  have outer: "contrast_outer ?rest (1.8628, (Some ''hemingway'', Some ''lovecraft'')) =
      Inr (1.8628, (Some ''hemingway'', Some ''lovecraft''))" .
  show ?thesis
    unfolding ids contrast_outer.simps inner bind_err.simps outer ..
qed

lemma zero_eq_decimal: "(0.0 :: real) = 0"
  by simp

text \<open>
  C6. The search for the extremes returns the distance report of Hemingway and Lovecraft.
  This is one of the 55 unordered pairs of the 11 catalog authors, and the unweighted
  Euclidean distance of every other pair is strictly smaller, so that the maximum is
  attained by this pair alone. The scan visits the pairs in catalog order, outer author
  first, and replaces its current pair only for a strictly greater reported distance: pairs
  whose reported distance does not exceed the current maximum leave it unchanged, which
  keeps the pair found first among equals.
\<close>

theorem max_contrast_pair:
  "find_max_contrast_pair = compute_style_distance ''hemingway'' ''lovecraft'' False \<and>
   (\<exists>r. find_max_contrast_pair = Inr r \<and> euclidean_distance r = 1.8628) \<and>
   (''hemingway'', ''lovecraft'') \<in> set (all_pairs (map fst AUTHOR_CATALOG)) \<and>
   length (map fst AUTHOR_CATALOG) = 11 \<and>
   length (all_pairs (map fst AUTHOR_CATALOG)) = 55 \<and>
   (\<forall>(a, b)\<in>set (all_pairs (map fst AUTHOR_CATALOG)).
      (a, b) \<noteq> (''hemingway'', ''lovecraft'') \<longrightarrow>
      euclidean a b < euclidean ''hemingway'' ''lovecraft'') \<and>
   (\<forall>xs m pr. set xs \<subseteq> set (map fst AUTHOR_CATALOG) \<and>
      (\<forall>(a, b)\<in>set (all_pairs xs). py_round_nd (euclidean a b) 4 \<le> m) \<longrightarrow>
      contrast_outer xs (m, pr) = Inr (m, pr))"
proof (intro conjI)
  show found: "find_max_contrast_pair = compute_style_distance ''hemingway'' ''lovecraft'' False"
    unfolding find_max_contrast_pair_def Let_def
    by (simp only: zero_eq_decimal contrast_outer_catalog bind_err.simps prod.case option.case)
  have "''hemingway'' \<in> set (map fst AUTHOR_CATALOG)"
    and "''lovecraft'' \<in> set (map fst AUTHOR_CATALOG)"
    unfolding author_disj by simp_all
  from distance_report [OF this]
  show "\<exists>r. find_max_contrast_pair = Inr r \<and> euclidean_distance r = 1.8628"
    unfolding found rounded_distance_hemingway_lovecraft .
  show "(''hemingway'', ''lovecraft'') \<in> set (all_pairs (map fst AUTHOR_CATALOG))"
    unfolding author_ids by simp
  show "length (map fst AUTHOR_CATALOG) = 11"
    unfolding author_ids by simp
  show "length (all_pairs (map fst AUTHOR_CATALOG)) = 55"
    unfolding author_ids by simp
  show "\<forall>(a, b)\<in>set (all_pairs (map fst AUTHOR_CATALOG)).
      (a, b) \<noteq> (''hemingway'', ''lovecraft'') \<longrightarrow>
      euclidean a b < euclidean ''hemingway'' ''lovecraft''"
    unfolding author_ids by (simp add: euclidean_def squared_distances)
  show "\<forall>xs m pr. set xs \<subseteq> set (map fst AUTHOR_CATALOG) \<and>
      (\<forall>(a, b)\<in>set (all_pairs xs). py_round_nd (euclidean a b) 4 \<le> m) \<longrightarrow>
      contrast_outer xs (m, pr) = Inr (m, pr)"
    by (intro allI impI, elim conjE, rule contrast_outer_keep)
qed

theorem max_contrast_pair_witness:
  "(''de_sade'', ''shonagon'') \<in> set (all_pairs (map fst AUTHOR_CATALOG)) \<and>
   (''de_sade'', ''shonagon'') \<noteq> (''hemingway'', ''lovecraft'') \<and>
   euclidean ''de_sade'' ''shonagon'' < euclidean ''hemingway'' ''lovecraft'' \<and>
   set [''kafka'', ''shonagon''] \<subseteq> set (map fst AUTHOR_CATALOG) \<and>
   all_pairs [''kafka'', ''shonagon''] = [(''kafka'', ''shonagon'')] \<and>
   py_round_nd (euclidean ''kafka'' ''shonagon'') 4 \<le> 2 \<and>
   contrast_outer [''kafka'', ''shonagon''] (2, (None, None)) = Inr (2, (None, None))"
proof -
  have h1: "(''de_sade'', ''shonagon'') \<in> set (all_pairs (map fst AUTHOR_CATALOG))"
    unfolding author_ids by simp
  have h2: "(''de_sade'', ''shonagon'') \<noteq> (''hemingway'', ''lovecraft'')" by simp
  have h3: "set [''kafka'', ''shonagon''] \<subseteq> set (map fst AUTHOR_CATALOG)"
    unfolding author_ids by simp
  have pairs_ks: "all_pairs [''kafka'', ''shonagon''] = [(''kafka'', ''shonagon'')]" by simp
  have "py_round_nd (euclidean ''kafka'' ''shonagon'') 4 \<le> 1.8627"
    by (rule rounded_distance_below) (simp add: squared_distances)
  then have le: "py_round_nd (euclidean ''kafka'' ''shonagon'') 4 \<le> 2" by simp
  then have h4: "\<forall>(a, b)\<in>set (all_pairs [''kafka'', ''shonagon'']).
      py_round_nd (euclidean a b) 4 \<le> 2" by simp
  note pairs = max_contrast_pair [THEN conjunct2, THEN conjunct2, THEN conjunct2,
      THEN conjunct2, THEN conjunct2]
  from bspec [OF pairs [THEN conjunct1] h1] h2
  have "euclidean ''de_sade'' ''shonagon'' < euclidean ''hemingway'' ''lovecraft''" by simp
  moreover from pairs [THEN conjunct2, rule_format, OF conjI [OF h3 h4], of "(None, None)"]
  have "contrast_outer [''kafka'', ''shonagon''] (2, (None, None)) = Inr (2, (None, None))" .
  ultimately show ?thesis using h1 h2 h3 pairs_ks le by (intro conjI)
qed

end
